theory Spec2Isabelle
  imports Complex_Main "HOL-Library.Sublist" "HOL-Library.Multiset"
begin

section \<open>Python values used by the Gateway\<close>

text \<open>
  An exception is identified with the text \<open>str(e)\<close> that the handlers put under the
  \<open>details\<close> key. All exceptions of the model are instances of \<open>Exception\<close>.
\<close>

type_synonym exn = string

text \<open>
  A Python float. \<open>Fin r\<close> is the double whose value is the real number \<open>r\<close>; the model
  only compares floats and passes them on, so no rounding takes place.
\<close>

datatype pyfloat = Fin real | PosInf | NegInf | NaN

text \<open>The comparison \<open>a > b\<close> of two floats; every comparison with NaN is false.\<close>

fun float_gt :: "pyfloat \<Rightarrow> pyfloat \<Rightarrow> bool" where
  "float_gt NaN b = False"
| "float_gt a NaN = False"
| "float_gt PosInf b = (b \<noteq> PosInf)"
| "float_gt NegInf b = False"
| "float_gt (Fin x) PosInf = False"
| "float_gt (Fin x) NegInf = True"
| "float_gt (Fin x) (Fin y) = (y < x)"

text \<open>
  The builtin \<open>max(a, b)\<close>: the result starts as the first argument and is replaced by
  the second one only if the second one compares greater.
\<close>

definition py_max :: "pyfloat \<Rightarrow> pyfloat \<Rightarrow> pyfloat" where
  "py_max a b = (if float_gt b a then b else a)"

text \<open>The float literal \<open>1.2\<close>: the double nearest to 6/5.\<close>

definition speed_floor :: pyfloat where
  "speed_floor = Fin (5404319552844595 / 4503599627370496)"

text \<open>
  The values a parsed JSON body or a form field can hold. A dict is the list of its
  items in insertion order; its keys are distinct.
\<close>

datatype pyval =
    PNone
  | PBool bool
  | PInt int
  | PFloat pyfloat
  | PStr string
  | PList "pyval list"
  | PDict "(string \<times> pyval) list"

text \<open>Truth value testing, as in \<open>if x:\<close> and \<open>not x\<close>.\<close>

fun truthy :: "pyval \<Rightarrow> bool" where
  "truthy PNone = False"
| "truthy (PBool b) = b"
| "truthy (PInt i) = (i \<noteq> 0)"
| "truthy (PFloat f) = (f \<noteq> Fin 0)"
| "truthy (PStr s) = (s \<noteq> [])"
| "truthy (PList xs) = (xs \<noteq> [])"
| "truthy (PDict kvs) = (kvs \<noteq> [])"

fun type_name :: "pyval \<Rightarrow> string" where
  "type_name PNone = ''NoneType''"
| "type_name (PBool b) = ''bool''"
| "type_name (PInt i) = ''int''"
| "type_name (PFloat f) = ''float''"
| "type_name (PStr s) = ''str''"
| "type_name (PList xs) = ''list''"
| "type_name (PDict kvs) = ''dict''"

text \<open>\<open>d.get(key, default)\<close> on a dict.\<close>

definition dict_get :: "(string \<times> pyval) list \<Rightarrow> string \<Rightarrow> pyval \<Rightarrow> pyval" where
  "dict_get kvs k dflt = (case map_of kvs k of None \<Rightarrow> dflt | Some v \<Rightarrow> v)"

text \<open>
  \<open>data.get(key, default)\<close> on the parsed JSON body. Only a dict has the method; on
  any other value the attribute lookup raises AttributeError.
\<close>

definition no_attribute_get :: "pyval \<Rightarrow> exn" where
  "no_attribute_get x =
     [CHR 0x27] @ type_name x @ [CHR 0x27] @ '' object has no attribute '' @
     [CHR 0x27] @ ''get'' @ [CHR 0x27]"

definition py_get :: "pyval \<Rightarrow> string \<Rightarrow> pyval \<Rightarrow> exn + pyval" where
  "py_get data k dflt =
     (case data of
        PDict kvs \<Rightarrow> Inr (dict_get kvs k dflt)
      | other \<Rightarrow> Inl (no_attribute_get other))"

text \<open>\<open>str.lower()\<close> on the characters of the Latin-1 range.\<close>

definition lower_char :: "char \<Rightarrow> char" where
  "lower_char c =
     (let n = of_char c :: nat
      in if (65 \<le> n \<and> n \<le> 90) \<or> (192 \<le> n \<and> n \<le> 222 \<and> n \<noteq> 215)
         then char_of (n + 32) else c)"

definition lower :: "string \<Rightarrow> string" where
  "lower s = map lower_char s"

text \<open>\<open>str.startswith\<close>.\<close>

definition startswith :: "string \<Rightarrow> string \<Rightarrow> bool" where
  "startswith s p = (take (length p) s = p)"

section \<open>Paths and the file system\<close>

text \<open>
  \<open>os.path.join(a, b)\<close> of \<open>posixpath\<close>: an absolute second component replaces the
  first; otherwise the components are put together with one separator, which is not
  added after an empty first component or after one that already ends with it.
\<close>

definition os_path_join :: "string \<Rightarrow> string \<Rightarrow> string" where
  "os_path_join a b =
     (if startswith b ''/'' then b
      else if a = [] \<or> last a = CHR ''/'' then a @ b
      else a @ ''/'' @ b)"

text \<open>The files on disk: a path is mapped to the bytes of the file stored there.\<close>

type_synonym filesystem = "string \<rightharpoonup> string"

text \<open>
  The test \<open>not os.path.exists(p) or os.path.getsize(p) == 0\<close>; \<open>getsize\<close> is only
  evaluated on an existing file.
\<close>

definition missing_or_empty :: "filesystem \<Rightarrow> string \<Rightarrow> bool" where
  "missing_or_empty disk p = (case disk p of None \<Rightarrow> True | Some bytes \<Rightarrow> length bytes = 0)"

section \<open>The Capability Delegate and the environment of the Gateway\<close>

text \<open>The operations of \<open>model_manager\<close> a handler can invoke, with their arguments.\<close>

datatype call =
    TranscribeAudio string
  | ProcessImageAndQuery string string
  | TextToSpeech pyval pyval pyfloat
  | GetAvailableVoices
  | GetVoicesByLanguage

text \<open>
  What the handlers take from outside the module. \<open>app.backend.utils.model_manager\<close>,
  \<open>uuid\<close> and the builtin \<open>float\<close> are not part of the module: each is a parameter.
  A delegate operation returns its result or raises; the synthesis also writes to the
  disk. \<open>uuid4 n\<close> is the text of the \<open>n\<close>-th identifier that \<open>uuid.uuid4()\<close> generates,
  \<open>save_error p\<close> the exception \<open>FileStorage.save\<close> raises for the path \<open>p\<close>, if any, and
  \<open>nfkd_ascii c\<close> the ASCII characters that are left of a non-ASCII character \<open>c\<close>
  after NFKD normalisation.
\<close>

record env =
  UPLOAD_FOLDER :: string
  uuid4 :: "nat \<Rightarrow> string"
  float_of_str :: "string \<Rightarrow> exn + pyfloat"
  float_of_int :: "int \<Rightarrow> exn + pyfloat"
  nfkd_ascii :: "char \<Rightarrow> string"
  save_error :: "string \<Rightarrow> exn option"
  mm_transcribe_audio :: "filesystem \<Rightarrow> string \<Rightarrow> exn + string"
  mm_process_image_and_query :: "filesystem \<Rightarrow> string \<Rightarrow> string \<Rightarrow> exn + string"
  mm_text_to_speech :: "filesystem \<Rightarrow> pyval \<Rightarrow> pyval \<Rightarrow> pyfloat \<Rightarrow> (exn + string) \<times> filesystem"
  mm_get_available_voices :: "exn + (string \<times> (string \<times> pyval) list) list"
  mm_get_voices_by_language :: "exn + (string \<times> string list) list"

text \<open>
  The state a request runs in and leaves behind: the disk, the number of identifiers
  generated so far, the delegate operations invoked so far (oldest first) and the
  exceptions whose trace was printed.
\<close>

record world =
  disk :: filesystem
  uuid_count :: nat
  calls :: "call list"
  tracebacks :: "exn list"

text \<open>The builtin \<open>float(x)\<close>.\<close>

definition py_float :: "env \<Rightarrow> pyval \<Rightarrow> exn + pyfloat" where
  "py_float E x =
     (case x of
        PFloat f \<Rightarrow> Inr f
      | PBool b \<Rightarrow> Inr (Fin (if b then 1 else 0))
      | PInt i \<Rightarrow> float_of_int E i
      | PStr s \<Rightarrow> float_of_str E s
      | other \<Rightarrow> Inl (''float() argument must be a string or a real number, not '' @
                       [CHR 0x27] @ type_name other @ [CHR 0x27]))"

section \<open>Stored file names\<close>

text \<open>
  \<open>werkzeug.utils.secure_filename\<close> on a POSIX host. The name is normalised to NFKD
  and encoded to ASCII, dropping what cannot be encoded; the path separator becomes a
  space; the words between runs of whitespace are joined by underscores; every
  character outside \<open>A-Z a-z 0-9 _ . -\<close> is removed; dots and underscores are stripped
  from both ends. (The extra step for Windows device names only runs on Windows.)
\<close>

definition is_ascii :: "char \<Rightarrow> bool" where
  "is_ascii c = ((of_char c :: nat) < 128)"

definition to_ascii :: "env \<Rightarrow> string \<Rightarrow> string" where
  "to_ascii E s = concat (map (\<lambda>c. if is_ascii c then [c] else filter is_ascii (nfkd_ascii E c)) s)"

text \<open>The ASCII characters \<open>str.split()\<close> treats as whitespace.\<close>

definition is_space :: "char \<Rightarrow> bool" where
  "is_space c = (let n = of_char c :: nat in (9 \<le> n \<and> n \<le> 13) \<or> (28 \<le> n \<and> n \<le> 32))"

text \<open>
  \<open>str.split()\<close> without arguments: the maximal runs of characters that are not
  whitespace. The first argument is the word read so far.
\<close>

fun words_from :: "string \<Rightarrow> string \<Rightarrow> string list" where
  "words_from cur [] = (if cur = [] then [] else [cur])"
| "words_from cur (c # cs) =
     (if is_space c then (if cur = [] then words_from [] cs else cur # words_from [] cs)
      else words_from (cur @ [c]) cs)"

definition py_split :: "string \<Rightarrow> string list" where
  "py_split s = words_from [] s"

fun py_join :: "string \<Rightarrow> string list \<Rightarrow> string" where
  "py_join sep [] = []"
| "py_join sep [w] = w"
| "py_join sep (w # v # ws) = w @ sep @ py_join sep (v # ws)"

definition is_safe :: "char \<Rightarrow> bool" where
  "is_safe c =
     (let n = of_char c :: nat
      in (65 \<le> n \<and> n \<le> 90) \<or> (97 \<le> n \<and> n \<le> 122) \<or> (48 \<le> n \<and> n \<le> 57) \<or>
         c = CHR ''_'' \<or> c = CHR ''.'' \<or> c = CHR ''-'')"

text \<open>\<open>s.strip(chars)\<close>.\<close>

definition py_strip :: "string \<Rightarrow> string \<Rightarrow> string" where
  "py_strip chars s =
     rev (dropWhile (\<lambda>c. c \<in> set chars) (rev (dropWhile (\<lambda>c. c \<in> set chars) s)))"

definition secure_filename :: "env \<Rightarrow> string \<Rightarrow> string" where
  "secure_filename E fname =
     py_strip ''._''
       (filter is_safe
         (py_join ''_''
           (py_split (map (\<lambda>c. if c = CHR ''/'' then CHR '' '' else c) (to_ascii E fname)))))"

text \<open>
  \<open>FileStorage.save(path)\<close>: the bytes of the upload are written to the path, replacing
  what was stored there, unless writing raises.
\<close>

definition file_save :: "env \<Rightarrow> string \<Rightarrow> string \<Rightarrow> world \<Rightarrow> exn + world" where
  "file_save E path bytes w =
     (case save_error E path of
        Some e \<Rightarrow> Inl e
      | None \<Rightarrow> Inr (w\<lparr>disk := (disk w)(path \<mapsto> bytes)\<rparr>))"

text \<open>
  The upload directory both processes read from \<open>.env\<close>:
  \<open>config.get('UPLOAD_FOLDER', 'app/uploads')\<close>.
\<close>

definition upload_folder_of :: "(string \<rightharpoonup> string) \<Rightarrow> string" where
  "upload_folder_of config = (case config ''UPLOAD_FOLDER'' of None \<Rightarrow> ''app/uploads'' | Some d \<Rightarrow> d)"

section \<open>Requests and responses\<close>

record upload =
  filename :: string
  content :: string

text \<open>
  A request as a handler reads it: \<open>request.files\<close>, \<open>request.form\<close> and \<open>request.json\<close>,
  the last one being the parsed body or the exception that reading it raises.
\<close>

record request =
  files :: "string \<rightharpoonup> upload"
  form :: "string \<rightharpoonup> string"
  json :: "exn + pyval"

text \<open>A handler returns the pair of \<open>jsonify(...)\<close> and the status code.\<close>

type_synonym response = "pyval \<times> nat"

text \<open>
  The \<open>except Exception as e\<close> clause every handler ends with: the trace is printed and
  the response is the handler's fixed message with \<open>str(e)\<close> under \<open>details\<close>, status 500.
  The state is the one the exception left behind.
\<close>

definition except_Exception :: "string \<Rightarrow> (exn + response) \<times> world \<Rightarrow> response \<times> world" where
  "except_Exception msg r =
     (case r of
        (Inl e, w) \<Rightarrow>
          ((PDict [(''error'', PStr msg), (''details'', PStr e)], 500),
           w\<lparr>tracebacks := tracebacks w @ [e]\<rparr>)
      | (Inr resp, w) \<Rightarrow> (resp, w))"

section \<open>The handlers\<close>

subsection \<open>\<open>/api/text_to_speech\<close>\<close>

definition text_to_speech_body :: "env \<Rightarrow> request \<Rightarrow> world \<Rightarrow> (exn + response) \<times> world" where
  "text_to_speech_body E rq w =
     (case json rq of Inl e \<Rightarrow> (Inl e, w) | Inr data \<Rightarrow>
     (case py_get data ''text'' PNone of Inl e \<Rightarrow> (Inl e, w) | Inr text \<Rightarrow>
     (case py_get data ''voice'' (PStr ''af_heart'') of Inl e \<Rightarrow> (Inl e, w) | Inr voice \<Rightarrow>
     (case py_get data ''speed'' (PFloat (Fin 1)) of Inl e \<Rightarrow> (Inl e, w) | Inr sp \<Rightarrow>
     (case py_float E sp of Inl e \<Rightarrow> (Inl e, w) | Inr speed0 \<Rightarrow>
     (case py_get data ''high_performance'' (PBool False) of Inl e \<Rightarrow> (Inl e, w)
      | Inr high_performance \<Rightarrow>
        if \<not> truthy text then (Inr (PDict [(''error'', PStr ''No text provided'')], 400), w)
        else
          let speed = (if truthy high_performance then py_max speed0 speed_floor else speed0);
              w1 = w\<lparr>calls := calls w @ [TextToSpeech text voice speed]\<rparr>;
              (r, disk') = mm_text_to_speech E (disk w1) text voice speed;
              w2 = w1\<lparr>disk := disk'\<rparr>
          in (case r of Inl e \<Rightarrow> (Inl e, w2) | Inr audio_response_path \<Rightarrow>
                let audio_full_path = os_path_join (UPLOAD_FOLDER E) audio_response_path
                in if missing_or_empty (disk w2) audio_full_path
                   then (Inr (PDict [(''error'',
                           PStr ''Audio generation failed. The audio file is missing or empty.'')],
                         500), w2)
                   else (Inr (PDict [(''audio_response'', PStr audio_response_path)], 200),
                         w2))))))))"

definition text_to_speech :: "env \<Rightarrow> request \<Rightarrow> world \<Rightarrow> response \<times> world" where
  "text_to_speech E rq w =
     except_Exception ''An error occurred during text-to-speech conversion.''
       (text_to_speech_body E rq w)"

subsection \<open>\<open>/api/transcribe\<close>\<close>

definition transcribe_audio_body :: "env \<Rightarrow> request \<Rightarrow> world \<Rightarrow> (exn + response) \<times> world" where
  "transcribe_audio_body E rq w =
     (case files rq ''audio'' of
        None \<Rightarrow> (Inr (PDict [(''error'', PStr ''No audio file provided'')], 400), w)
      | Some audio_file \<Rightarrow>
          if filename audio_file = []
          then (Inr (PDict [(''error'', PStr ''Empty audio filename'')], 400), w)
          else
            let audio_filename =
                  secure_filename E (uuid4 E (uuid_count w) @ ''_'' @ filename audio_file);
                w1 = w\<lparr>uuid_count := Suc (uuid_count w)\<rparr>;
                audio_path = os_path_join (UPLOAD_FOLDER E) audio_filename
            in (case file_save E audio_path (content audio_file) w1 of
                  Inl e \<Rightarrow> (Inl e, w1)
                | Inr w2 \<Rightarrow>
                    let w3 = w2\<lparr>calls := calls w2 @ [TranscribeAudio audio_path]\<rparr>
                    in (case mm_transcribe_audio E (disk w3) audio_path of
                          Inl e \<Rightarrow> (Inl e, w3)
                        | Inr transcription \<Rightarrow>
                            (Inr (PDict [(''transcription'', PStr transcription),
                                         (''audio_path'', PStr audio_path)], 200), w3))))"

definition transcribe_audio :: "env \<Rightarrow> request \<Rightarrow> world \<Rightarrow> response \<times> world" where
  "transcribe_audio E rq w =
     except_Exception ''An error occurred during transcription.'' (transcribe_audio_body E rq w)"

subsection \<open>\<open>/api/generate_response\<close>\<close>

text \<open>
  \<open>image_path\<close> and \<open>query\<close> are read with \<open>request.form.get\<close>, which gives None for a
  missing field; \<open>not x\<close> holds for None and for the empty string.
\<close>

definition generate_response_body :: "env \<Rightarrow> request \<Rightarrow> world \<Rightarrow> (exn + response) \<times> world" where
  "generate_response_body E rq w =
     (case form rq ''image_path'' of
        None \<Rightarrow> (Inr (PDict [(''error'', PStr ''No image provided'')], 400), w)
      | Some image_path \<Rightarrow>
     if image_path = []
     then (Inr (PDict [(''error'', PStr ''No image provided'')], 400), w)
     else
     (case form rq ''query'' of
        None \<Rightarrow> (Inr (PDict [(''error'', PStr ''No query provided'')], 400), w)
      | Some query \<Rightarrow>
     if query = []
     then (Inr (PDict [(''error'', PStr ''No query provided'')], 400), w)
     else
       let w1 = w\<lparr>calls := calls w @ [ProcessImageAndQuery image_path query]\<rparr>
       in (case mm_process_image_and_query E (disk w1) image_path query of
             Inl e \<Rightarrow> (Inl e, w1)
           | Inr response_text \<Rightarrow>
               (Inr (PDict [(''response'', PStr response_text)], 200), w1))))"

definition generate_response :: "env \<Rightarrow> request \<Rightarrow> world \<Rightarrow> response \<times> world" where
  "generate_response E rq w =
     except_Exception ''An error occurred while generating the response.''
       (generate_response_body E rq w)"

subsection \<open>\<open>/api/voices\<close> and \<open>/api/voices_by_language\<close>\<close>

definition get_voices_body :: "env \<Rightarrow> world \<Rightarrow> (exn + response) \<times> world" where
  "get_voices_body E w =
     (let w1 = w\<lparr>calls := calls w @ [GetAvailableVoices]\<rparr>
      in (case mm_get_available_voices E of
            Inl e \<Rightarrow> (Inl e, w1)
          | Inr voices \<Rightarrow> (Inr (PDict (map (\<lambda>(voice_id, d). (voice_id, PDict d)) voices), 200), w1)))"

definition get_voices :: "env \<Rightarrow> world \<Rightarrow> response \<times> world" where
  "get_voices E w =
     except_Exception ''An error occurred while retrieving voices.'' (get_voices_body E w)"

text \<open>\<open>d[k] = v\<close>: the value of an existing key is replaced, a new key is put last.\<close>

fun dict_set :: "(string \<times> 'v) list \<Rightarrow> string \<Rightarrow> 'v \<Rightarrow> (string \<times> 'v) list" where
  "dict_set [] k v = [(k, v)]"
| "dict_set ((k', v') # kvs) k v =
     (if k' = k then (k, v) # kvs else (k', v') # dict_set kvs k v)"

text \<open>
  The inner loop: for every voice id of a language that is a key of the catalog, a copy
  of its descriptor with the id stored under \<open>id\<close>.
\<close>

fun voices_info_of :: "(string \<times> (string \<times> pyval) list) list \<Rightarrow> string list \<Rightarrow> pyval list" where
  "voices_info_of voices_data [] = []"
| "voices_info_of voices_data (voice_id # rest) =
     (case map_of voices_data voice_id of
        None \<Rightarrow> voices_info_of voices_data rest
      | Some d \<Rightarrow> PDict (dict_set d ''id'' (PStr voice_id)) # voices_info_of voices_data rest)"

definition get_voices_by_language_body :: "env \<Rightarrow> world \<Rightarrow> (exn + response) \<times> world" where
  "get_voices_by_language_body E w =
     (let w1 = w\<lparr>calls := calls w @ [GetVoicesByLanguage]\<rparr>
      in (case mm_get_voices_by_language E of
            Inl e \<Rightarrow> (Inl e, w1)
          | Inr voices_by_language \<Rightarrow>
              let w2 = w1\<lparr>calls := calls w1 @ [GetAvailableVoices]\<rparr>
              in (case mm_get_available_voices E of
                    Inl e \<Rightarrow> (Inl e, w2)
                  | Inr voices_data \<Rightarrow>
                      let response =
                            fold (\<lambda>(language, voice_ids) response.
                                    dict_set response language
                                      (PList (voices_info_of voices_data voice_ids)))
                              voices_by_language []
                      in (Inr (PDict response, 200), w2))))"

definition get_voices_by_language :: "env \<Rightarrow> world \<Rightarrow> response \<times> world" where
  "get_voices_by_language E w =
     except_Exception ''An error occurred while retrieving voices by language.''
       (get_voices_by_language_body E w)"

subsection \<open>\<open>/api/process\<close>\<close>

definition process_query_body :: "env \<Rightarrow> request \<Rightarrow> world \<Rightarrow> (exn + response) \<times> world" where
  "process_query_body E rq w =
     (case files rq ''image'' of
        None \<Rightarrow> (Inr (PDict [(''error'', PStr ''No image file provided'')], 400), w)
      | Some image_file \<Rightarrow>
     if filename image_file = []
     then (Inr (PDict [(''error'', PStr ''Empty image filename'')], 400), w)
     else
     (case files rq ''audio'' of
        None \<Rightarrow> (Inr (PDict [(''error'', PStr ''No audio file provided'')], 400), w)
      | Some audio_file \<Rightarrow>
     if filename audio_file = []
     then (Inr (PDict [(''error'', PStr ''Empty audio filename'')], 400), w)
     else
       let high_performance =
             (lower (case form rq ''high_performance'' of None \<Rightarrow> ''false'' | Some s \<Rightarrow> s) = ''true'');
           voice = (case form rq ''voice'' of None \<Rightarrow> ''af_heart'' | Some s \<Rightarrow> s)
       in (case py_float E (case form rq ''speed'' of None \<Rightarrow> PFloat (Fin 1) | Some s \<Rightarrow> PStr s) of
             Inl e \<Rightarrow> (Inl e, w)
           | Inr speed0 \<Rightarrow>
       let speed = (if high_performance then py_max speed0 speed_floor else speed0);
           image_filename =
             secure_filename E (uuid4 E (uuid_count w) @ ''_'' @ filename image_file);
           audio_filename =
             secure_filename E (uuid4 E (Suc (uuid_count w)) @ ''_'' @ filename audio_file);
           w1 = w\<lparr>uuid_count := Suc (Suc (uuid_count w))\<rparr>;
           image_path = os_path_join (UPLOAD_FOLDER E) image_filename;
           audio_path = os_path_join (UPLOAD_FOLDER E) audio_filename
       in (case file_save E image_path (content image_file) w1 of
             Inl e \<Rightarrow> (Inl e, w1)
           | Inr w2 \<Rightarrow>
          (case file_save E audio_path (content audio_file) w2 of
             Inl e \<Rightarrow> (Inl e, w2)
           | Inr w3 \<Rightarrow>
       let w4 = w3\<lparr>calls := calls w3 @ [TranscribeAudio audio_path]\<rparr>
       in (case mm_transcribe_audio E (disk w4) audio_path of
             Inl e \<Rightarrow> (Inl e, w4)
           | Inr transcription \<Rightarrow>
       let w5 = w4\<lparr>calls := calls w4 @ [ProcessImageAndQuery image_path transcription]\<rparr>
       in (case mm_process_image_and_query E (disk w5) image_path transcription of
             Inl e \<Rightarrow> (Inl e, w5)
           | Inr response_text \<Rightarrow>
       let w6 = w5\<lparr>calls := calls w5 @ [TextToSpeech (PStr response_text) (PStr voice) speed]\<rparr>;
           (r, disk') = mm_text_to_speech E (disk w6) (PStr response_text) (PStr voice) speed;
           w7 = w6\<lparr>disk := disk'\<rparr>
       in (case r of
             Inl e \<Rightarrow> (Inl e, w7)
           | Inr audio_response_path \<Rightarrow>
               (Inr (PDict [(''transcription'', PStr transcription),
                            (''response'', PStr response_text),
                            (''audio_response'', PStr audio_response_path)], 200), w7)))))))))"

definition process_query :: "env \<Rightarrow> request \<Rightarrow> world \<Rightarrow> response \<times> world" where
  "process_query E rq w =
     except_Exception ''An internal error occurred. Please try again later.''
       (process_query_body E rq w)"

subsection \<open>\<open>/api/health\<close>\<close>

definition health_check :: "world \<Rightarrow> response \<times> world" where
  "health_check w = ((PDict [(''status'', PStr ''ok'')], 200), w)"

section \<open>The client's request for synthesized audio\<close>

text \<open>
  \<open>generate_audio_response\<close> of the Gradio client. \<open>post\<close> is
  \<open>requests.post(TTS_API_URL, json=json_data)\<close>: the decoded response with its status
  code, or the exception the call raises. The result is the path handed to the audio
  widget, or None.
\<close>

definition generate_audio_response ::
  "(string \<rightharpoonup> string) \<Rightarrow> (string \<times> (string \<times> string) list) list \<Rightarrow>
   (pyval \<Rightarrow> exn + response) \<Rightarrow> string \<Rightarrow> string \<Rightarrow> string \<Rightarrow> pyfloat \<Rightarrow> string option" where
  "generate_audio_response config voices_options post response_text language voice_selection speed =
     (if response_text = [] \<or> startswith response_text ''Error'' \<or> startswith response_text ''Please''
      then None
      else
        let voice_id =
              (case map_of voices_options language of
                 None \<Rightarrow> ''af_heart''
               | Some voices \<Rightarrow>
                   (case map_of voices voice_selection of None \<Rightarrow> ''af_heart'' | Some v \<Rightarrow> v));
            json_data = PDict [(''text'', PStr response_text), (''voice'', PStr voice_id),
                               (''speed'', PFloat speed)]
        in (case post json_data of
              Inl e \<Rightarrow> None
            | Inr (result, status_code) \<Rightarrow>
                if status_code = 200
                then (case py_get result ''audio_response'' PNone of
                        Inl e \<Rightarrow> None
                      | Inr audio_file \<Rightarrow>
                          if truthy audio_file
                          then (case audio_file of
                                  PStr p \<Rightarrow> Some (os_path_join (upload_folder_of config) p)
                                | other \<Rightarrow> None)
                          else None)
                else None))"

section \<open>The voice catalog of the delegate\<close>

record voice_descriptor =
  vd_name :: string
  vd_gender :: string
  vd_language :: string

text \<open>
  Modelled from the spec: \<open>ModelManager.get_available_voices\<close>, whose module
  \<open>app/backend/utils/model_manager.py\<close> is not among the sources. The catalog maps a
  voice id to its descriptor, with the attributes display name, gender and language.
\<close>

definition available_voices ::
  "(string \<times> voice_descriptor) list \<Rightarrow> (string \<times> (string \<times> pyval) list) list" where
  "available_voices catalog =
     map (\<lambda>(voice_id, v). (voice_id, [(''name'', PStr (vd_name v)), (''gender'', PStr (vd_gender v)),
                                       (''language'', PStr (vd_language v))])) catalog"

text \<open>
  Modelled from the spec: one step of the grouping of \<open>ModelManager.get_voices_by_language\<close>
  (the module is not among the sources): the voice id is put last in the list of its
  language, and a language not seen before is put last with this one id.
\<close>

fun add_to_language :: "string \<Rightarrow> string \<Rightarrow> (string \<times> string list) list \<Rightarrow> (string \<times> string list) list" where
  "add_to_language lang voice_id [] = [(lang, [voice_id])]"
| "add_to_language lang voice_id ((lang', ids) # groups) =
     (if lang' = lang then (lang', ids @ [voice_id]) # groups
      else (lang', ids) # add_to_language lang voice_id groups)"

text \<open>
  Modelled from the spec: \<open>ModelManager.get_voices_by_language\<close> (the module is not among
  the sources), which returns the voices of the catalog grouped by language.
\<close>

definition voices_by_language_of :: "(string \<times> voice_descriptor) list \<Rightarrow> (string \<times> string list) list" where
  "voices_by_language_of catalog =
     fold (\<lambda>(voice_id, v) groups. add_to_language (vd_language v) voice_id groups) catalog []"

section \<open>Observations on a run and on a response\<close>

text \<open>The delegate operations a handler invoked: what it appended to the record of calls.\<close>

definition new_calls :: "world \<Rightarrow> world \<Rightarrow> call list" where
  "new_calls w w' = drop (length (calls w)) (calls w')"

text \<open>
  The path an upload is stored under: the expression of \<open>transcribe_audio\<close> and
  \<open>process_query\<close> for the file name and the path, with the \<open>n\<close>-th identifier.
\<close>

definition stored_path :: "env \<Rightarrow> nat \<Rightarrow> string \<Rightarrow> string" where
  "stored_path E n fname =
     os_path_join (UPLOAD_FOLDER E) (secure_filename E (uuid4 E n @ ''_'' @ fname))"

text \<open>The speed and the voice \<open>process_query\<close> reads from the form.\<close>

definition form_speed :: "request \<Rightarrow> pyval" where
  "form_speed rq = (case form rq ''speed'' of None \<Rightarrow> PFloat (Fin 1) | Some s \<Rightarrow> PStr s)"

definition form_voice :: "request \<Rightarrow> string" where
  "form_voice rq = (case form rq ''voice'' of None \<Rightarrow> ''af_heart'' | Some s \<Rightarrow> s)"

definition form_high_performance :: "request \<Rightarrow> bool" where
  "form_high_performance rq =
     (lower (case form rq ''high_performance'' of None \<Rightarrow> ''false'' | Some s \<Rightarrow> s) = ''true'')"

text \<open>
  Both files \<open>process_query\<close> requires are part of the request, under non-empty names.
\<close>

definition has_files :: "request \<Rightarrow> upload \<Rightarrow> upload \<Rightarrow> bool" where
  "has_files rq img aud =
     (files rq ''image'' = Some img \<and> filename img \<noteq> [] \<and>
      files rq ''audio'' = Some aud \<and> filename aud \<noteq> [])"

text \<open>The message of the \<open>except\<close> clause of \<open>process_query\<close>.\<close>

definition process_error :: string where
  "process_error = ''An internal error occurred. Please try again later.''"

text \<open>The message of the \<open>except\<close> clause of \<open>text_to_speech\<close>.\<close>

definition tts_error :: string where
  "tts_error = ''An error occurred during text-to-speech conversion.''"

text \<open>The speed \<open>text_to_speech\<close> passes on, for the parsed body and the requested speed.\<close>

definition json_speed :: "(string \<times> pyval) list \<Rightarrow> pyfloat \<Rightarrow> pyfloat" where
  "json_speed kvs requested =
     (if truthy (dict_get kvs ''high_performance'' (PBool False))
      then py_max requested speed_floor else requested)"

text \<open>The messages of the \<open>except\<close> clauses of the other handlers.\<close>

definition transcribe_error :: string where
  "transcribe_error = ''An error occurred during transcription.''"

definition generate_error :: string where
  "generate_error = ''An error occurred while generating the response.''"

definition voices_error :: string where
  "voices_error = ''An error occurred while retrieving voices.''"

definition voices_by_language_error :: string where
  "voices_by_language_error = ''An error occurred while retrieving voices by language.''"

text \<open>The name of the delegate operation a call invokes.\<close>

fun op_name :: "call \<Rightarrow> string" where
  "op_name (TranscribeAudio p) = ''transcribe_audio''"
| "op_name (ProcessImageAndQuery p q) = ''process_image_and_query''"
| "op_name (TextToSpeech t v s) = ''text_to_speech''"
| "op_name GetAvailableVoices = ''get_available_voices''"
| "op_name GetVoicesByLanguage = ''get_voices_by_language''"

text \<open>The status code and the body of the response a handler returns.\<close>

definition status_of :: "response \<times> world \<Rightarrow> nat" where
  "status_of r = snd (fst r)"

definition body_of :: "response \<times> world \<Rightarrow> pyval" where
  "body_of r = fst (fst r)"

text \<open>The path \<open>transcribe_audio\<close> reports under \<open>audio_path\<close>.\<close>

definition audio_path_of :: "response \<times> world \<Rightarrow> pyval" where
  "audio_path_of r =
     (case body_of r of PDict kvs \<Rightarrow> dict_get kvs ''audio_path'' PNone | other \<Rightarrow> PNone)"

text \<open>The error envelope of the \<open>except\<close> clause.\<close>

definition error_envelope :: "string \<Rightarrow> exn \<Rightarrow> response" where
  "error_envelope msg e = (PDict [(''error'', PStr msg), (''details'', PStr e)], 500)"

text \<open>The value under \<open>id\<close> of an entry of a per-language list.\<close>

definition entry_id :: "pyval \<Rightarrow> pyval" where
  "entry_id e =
     (case e of
        PDict kvs \<Rightarrow> (case map_of kvs ''id'' of None \<Rightarrow> PNone | Some v \<Rightarrow> v)
      | other \<Rightarrow> PNone)"

text \<open>The ids of all entries of the body of \<open>/api/voices_by_language\<close>, language after language.\<close>

definition flattened_ids :: "pyval \<Rightarrow> pyval list" where
  "flattened_ids body =
     (case body of
        PDict groups \<Rightarrow>
          concat (map (\<lambda>(lang, vs). case vs of PList es \<Rightarrow> map entry_id es | other \<Rightarrow> []) groups)
      | other \<Rightarrow> [])"

text \<open>The keys of the body of \<open>/api/voices\<close>.\<close>

definition catalog_ids :: "pyval \<Rightarrow> pyval list" where
  "catalog_ids body = (case body of PDict kvs \<Rightarrow> map (\<lambda>(k, d). PStr k) kvs | other \<Rightarrow> [])"

text \<open>The keys of a JSON object.\<close>

definition body_keys :: "pyval \<Rightarrow> string list" where
  "body_keys body = (case body of PDict kvs \<Rightarrow> map fst kvs | other \<Rightarrow> [])"

text \<open>
  The text of an identifier of \<open>uuid.uuid4()\<close>: 32 lowercase hexadecimal digits in
  groups of 8, 4, 4, 4 and 12, separated by hyphens.
\<close>

definition is_hex_digit :: "char \<Rightarrow> bool" where
  "is_hex_digit c = (c \<in> set ''0123456789abcdef'')"

definition uuid_shape :: "char \<Rightarrow> char" where
  "uuid_shape c = (if is_hex_digit c then CHR ''x'' else if c = CHR ''-'' then CHR ''-'' else CHR ''?'')"

definition is_uuid_text :: "string \<Rightarrow> bool" where
  "is_uuid_text u = (map uuid_shape u = ''xxxxxxxx-xxxx-xxxx-xxxx-xxxxxxxxxxxx'')"

section \<open>A concrete environment\<close>

text \<open>
  A delegate that transcribes every recording to the same question, answers it, and
  writes a small audio file into the upload directory; three voices in two languages.
\<close>

definition example_catalog :: "(string \<times> voice_descriptor) list" where
  "example_catalog =
     [(''af_heart'', \<lparr>vd_name = ''Heart'', vd_gender = ''Female'', vd_language = ''English''\<rparr>),
      (''ff_siwis'', \<lparr>vd_name = ''Siwis'', vd_gender = ''Female'', vd_language = ''French''\<rparr>),
      (''am_adam'', \<lparr>vd_name = ''Adam'', vd_gender = ''Male'', vd_language = ''English''\<rparr>)]"

definition example_env :: env where
  "example_env =
     \<lparr>UPLOAD_FOLDER = ''app/uploads'',
      uuid4 = (\<lambda>n. if n = 0 then ''0a1b2c3d-4e5f-4a6b-8c7d-9e0f1a2b3c4d''
                    else ''1b2c3d4e-5f6a-4b7c-9d8e-0f1a2b3c4d5e''),
      float_of_str = (\<lambda>s. if s = ''0.8'' then Inr (Fin (4 / 5))
                           else Inl (''could not convert string to float: '' @ [CHR 0x27] @ s @ [CHR 0x27])),
      float_of_int = (\<lambda>i. Inr (Fin (of_int i))),
      nfkd_ascii = (\<lambda>c. []),
      save_error = (\<lambda>p. None),
      mm_transcribe_audio = (\<lambda>d p. Inr ''what is this''),
      mm_process_image_and_query = (\<lambda>d p q. Inr ''a cat''),
      mm_text_to_speech = (\<lambda>d t v s. (Inr ''tts_1.wav'', d(''app/uploads/tts_1.wav'' \<mapsto> ''RIFF''))),
      mm_get_available_voices = Inr (available_voices example_catalog),
      mm_get_voices_by_language = Inr (voices_by_language_of example_catalog)\<rparr>"

definition empty_world :: world where
  "empty_world = \<lparr>disk = Map.empty, uuid_count = 0, calls = [], tracebacks = []\<rparr>"

definition json_request :: "pyval \<Rightarrow> request" where
  "json_request data = \<lparr>files = Map.empty, form = Map.empty, json = Inr data\<rparr>"

definition upload_request :: "(string \<rightharpoonup> upload) \<Rightarrow> (string \<rightharpoonup> string) \<Rightarrow> request" where
  "upload_request fs fm =
     \<lparr>files = fs, form = fm, json = Inl ''415 Unsupported Media Type''\<rparr>"


definition two_uploads :: "string \<rightharpoonup> upload" where
  "two_uploads = [''image'' \<mapsto> \<lparr>filename = ''cat.png'', content = ''PNG''\<rparr>,
                  ''audio'' \<mapsto> \<lparr>filename = ''question.wav'', content = ''RIFF''\<rparr>]"


text \<open>Requests with an unparseable speed: a body without text, and a form without files.\<close>

definition fast_no_text :: "(string \<times> pyval) list" where
  "fast_no_text = [(''speed'', PStr ''fast'')]"

definition fast_no_files :: request where
  "fast_no_files = upload_request Map.empty [''speed'' \<mapsto> ''fast'']"

definition fast_with_files :: request where
  "fast_with_files = upload_request two_uploads [''speed'' \<mapsto> ''fast'']"

text \<open>Delegates that fail: at the transcription and at the answer.\<close>

definition deaf_env :: env where
  "deaf_env = example_env\<lparr>mm_transcribe_audio := (\<lambda>d p. Inl ''model not loaded'')\<rparr>"

definition blind_env :: env where
  "blind_env = example_env\<lparr>mm_process_image_and_query := (\<lambda>d p q. Inl ''quota exceeded'')\<rparr>"

text \<open>A delegate whose synthesis returns a path and writes no file.\<close>

definition silent_env :: env where
  "silent_env = example_env\<lparr>mm_text_to_speech := (\<lambda>d t v s. (Inr ''tts_1.wav'', d))\<rparr>"

definition audio_only :: request where
  "audio_only =
     upload_request [''audio'' \<mapsto> \<lparr>filename = ''question.wav'', content = ''RIFF''\<rparr>] Map.empty"

text \<open>
  The client's \<open>requests.post\<close> served by \<open>text_to_speech\<close> with the example delegate, in
  the state with an empty disk.
\<close>

definition example_post :: "pyval \<Rightarrow> exn + response" where
  "example_post j = Inr (fst (text_to_speech example_env (json_request j) empty_world))"

text \<open>A form and a body that ask for high performance with the word \<open>yes\<close>.\<close>

definition yes_form :: "string \<rightharpoonup> string" where
  "yes_form = [''high_performance'' \<mapsto> ''yes'', ''speed'' \<mapsto> ''0.8'']"

definition hello_yes :: "(string \<times> pyval) list" where
  "hello_yes = [(''text'', PStr ''hello''), (''high_performance'', PStr ''yes''),
                (''speed'', PFloat (Fin (4 / 5)))]"

text \<open>A request whose recording is named with a single dot.\<close>

definition dot_named :: request where
  "dot_named = upload_request [''audio'' \<mapsto> \<lparr>filename = ''.'', content = ''RIFF''\<rparr>] Map.empty"

text \<open>Two uploads with the same original name, in one request and in two.\<close>

definition clip_pair :: request where
  "clip_pair =
     upload_request [''image'' \<mapsto> \<lparr>filename = ''clip.wav'', content = ''one''\<rparr>,
                     ''audio'' \<mapsto> \<lparr>filename = ''clip.wav'', content = ''two''\<rparr>] Map.empty"

definition clip_one :: request where
  "clip_one = upload_request [''audio'' \<mapsto> \<lparr>filename = ''clip.wav'', content = ''one''\<rparr>] Map.empty"

definition clip_two :: request where
  "clip_two = upload_request [''audio'' \<mapsto> \<lparr>filename = ''clip.wav'', content = ''two''\<rparr>] Map.empty"

text \<open>A delegate without catalog, and a disk that takes no file.\<close>

definition voiceless_env :: env where
  "voiceless_env = example_env\<lparr>mm_get_available_voices := Inl ''catalog unavailable''\<rparr>"

definition full_disk_env :: env where
  "full_disk_env = example_env\<lparr>save_error := (\<lambda>p. Some ''No space left on device'')\<rparr>"

text \<open>A question about an image that was uploaded before.\<close>

definition ask_request :: request where
  "ask_request =
     upload_request Map.empty [''image_path'' \<mapsto> ''app/uploads/cat.png'', ''query'' \<mapsto> ''what is this'']"

section \<open>Properties\<close>

subsection \<open>The runs of \<open>process_query\<close>, stage by stage\<close>

lemma new_calls_append: "calls w' = calls w @ cs \<Longrightarrow> new_calls w w' = cs"
  by (simp add: new_calls_def)

lemmas process_defs = process_query_def process_query_body_def except_Exception_def
  file_save_def Let_def stored_path_def form_speed_def form_voice_def form_high_performance_def
  error_envelope_def has_files_def process_error_def

lemma process_no_image:
  "files rq ''image'' = None \<Longrightarrow>
   process_query E rq w = ((PDict [(''error'', PStr ''No image file provided'')], 400), w)"
  by (simp add: process_defs)

lemma process_empty_image:
  "files rq ''image'' = Some img \<Longrightarrow> filename img = [] \<Longrightarrow>
   process_query E rq w = ((PDict [(''error'', PStr ''Empty image filename'')], 400), w)"
  by (simp add: process_defs)

lemma process_no_audio:
  "files rq ''image'' = Some img \<Longrightarrow> filename img \<noteq> [] \<Longrightarrow> files rq ''audio'' = None \<Longrightarrow>
   process_query E rq w = ((PDict [(''error'', PStr ''No audio file provided'')], 400), w)"
  by (simp add: process_defs)

lemma process_empty_audio:
  "files rq ''image'' = Some img \<Longrightarrow> filename img \<noteq> [] \<Longrightarrow> files rq ''audio'' = Some aud \<Longrightarrow>
   filename aud = [] \<Longrightarrow>
   process_query E rq w = ((PDict [(''error'', PStr ''Empty audio filename'')], 400), w)"
  by (simp add: process_defs)

lemma process_bad_speed:
  "has_files rq img aud \<Longrightarrow> py_float E (form_speed rq) = Inl e \<Longrightarrow>
   process_query E rq w =
     (error_envelope process_error e,
      w\<lparr>tracebacks := tracebacks w @ [e]\<rparr>)"
  by (simp add: process_defs)

lemma process_image_save_fails:
  "has_files rq img aud \<Longrightarrow> py_float E (form_speed rq) = Inr requested \<Longrightarrow>
   save_error E (stored_path E (uuid_count w) (filename img)) = Some e \<Longrightarrow>
   process_query E rq w =
     (error_envelope process_error e,
      w\<lparr>uuid_count := Suc (Suc (uuid_count w)), tracebacks := tracebacks w @ [e]\<rparr>)"
  by (simp add: process_defs)

lemma process_audio_save_fails:
  "has_files rq img aud \<Longrightarrow> py_float E (form_speed rq) = Inr requested \<Longrightarrow>
   save_error E (stored_path E (uuid_count w) (filename img)) = None \<Longrightarrow>
   save_error E (stored_path E (Suc (uuid_count w)) (filename aud)) = Some e \<Longrightarrow>
   process_query E rq w =
     (error_envelope process_error e,
      w\<lparr>uuid_count := Suc (Suc (uuid_count w)),
        disk := (disk w)(stored_path E (uuid_count w) (filename img) \<mapsto> content img),
        tracebacks := tracebacks w @ [e]\<rparr>)"
  by (simp add: process_defs)

lemma process_transcribe_raises:
  "has_files rq img aud \<Longrightarrow> py_float E (form_speed rq) = Inr requested \<Longrightarrow>
   ip = stored_path E (uuid_count w) (filename img) \<Longrightarrow>
   ap = stored_path E (Suc (uuid_count w)) (filename aud) \<Longrightarrow>
   save_error E ip = None \<Longrightarrow> save_error E ap = None \<Longrightarrow>
   d = (disk w)(ip \<mapsto> content img, ap \<mapsto> content aud) \<Longrightarrow>
   mm_transcribe_audio E d ap = Inl e \<Longrightarrow>
   process_query E rq w =
     (error_envelope process_error e,
      w\<lparr>uuid_count := Suc (Suc (uuid_count w)), disk := d,
        calls := calls w @ [TranscribeAudio ap],
        tracebacks := tracebacks w @ [e]\<rparr>)"
  by (simp add: process_defs)

lemma process_answer_raises:
  "has_files rq img aud \<Longrightarrow> py_float E (form_speed rq) = Inr requested \<Longrightarrow>
   ip = stored_path E (uuid_count w) (filename img) \<Longrightarrow>
   ap = stored_path E (Suc (uuid_count w)) (filename aud) \<Longrightarrow>
   save_error E ip = None \<Longrightarrow> save_error E ap = None \<Longrightarrow>
   d = (disk w)(ip \<mapsto> content img, ap \<mapsto> content aud) \<Longrightarrow>
   mm_transcribe_audio E d ap = Inr transcription \<Longrightarrow>
   mm_process_image_and_query E d ip transcription = Inl e \<Longrightarrow>
   process_query E rq w =
     (error_envelope process_error e,
      w\<lparr>uuid_count := Suc (Suc (uuid_count w)), disk := d,
        calls := calls w @ [TranscribeAudio ap, ProcessImageAndQuery ip transcription],
        tracebacks := tracebacks w @ [e]\<rparr>)"
  by (simp add: process_defs)

lemma process_synthesis_raises:
  "has_files rq img aud \<Longrightarrow> py_float E (form_speed rq) = Inr requested \<Longrightarrow>
   ip = stored_path E (uuid_count w) (filename img) \<Longrightarrow>
   ap = stored_path E (Suc (uuid_count w)) (filename aud) \<Longrightarrow>
   save_error E ip = None \<Longrightarrow> save_error E ap = None \<Longrightarrow>
   d = (disk w)(ip \<mapsto> content img, ap \<mapsto> content aud) \<Longrightarrow>
   mm_transcribe_audio E d ap = Inr transcription \<Longrightarrow>
   mm_process_image_and_query E d ip transcription = Inr response_text \<Longrightarrow>
   speed = (if form_high_performance rq then py_max requested speed_floor else requested) \<Longrightarrow>
   mm_text_to_speech E d (PStr response_text) (PStr (form_voice rq)) speed = (Inl e, d') \<Longrightarrow>
   process_query E rq w =
     (error_envelope process_error e,
      w\<lparr>uuid_count := Suc (Suc (uuid_count w)), disk := d',
        calls := calls w @ [TranscribeAudio ap, ProcessImageAndQuery ip transcription,
                            TextToSpeech (PStr response_text) (PStr (form_voice rq)) speed],
        tracebacks := tracebacks w @ [e]\<rparr>)"
  by (simp add: process_defs)

lemma process_succeeds:
  "has_files rq img aud \<Longrightarrow> py_float E (form_speed rq) = Inr requested \<Longrightarrow>
   ip = stored_path E (uuid_count w) (filename img) \<Longrightarrow>
   ap = stored_path E (Suc (uuid_count w)) (filename aud) \<Longrightarrow>
   save_error E ip = None \<Longrightarrow> save_error E ap = None \<Longrightarrow>
   d = (disk w)(ip \<mapsto> content img, ap \<mapsto> content aud) \<Longrightarrow>
   mm_transcribe_audio E d ap = Inr transcription \<Longrightarrow>
   mm_process_image_and_query E d ip transcription = Inr response_text \<Longrightarrow>
   speed = (if form_high_performance rq then py_max requested speed_floor else requested) \<Longrightarrow>
   mm_text_to_speech E d (PStr response_text) (PStr (form_voice rq)) speed = (Inr p, d') \<Longrightarrow>
   process_query E rq w =
     ((PDict [(''transcription'', PStr transcription), (''response'', PStr response_text),
              (''audio_response'', PStr p)], 200),
      w\<lparr>uuid_count := Suc (Suc (uuid_count w)), disk := d',
        calls := calls w @ [TranscribeAudio ap, ProcessImageAndQuery ip transcription,
                            TextToSpeech (PStr response_text) (PStr (form_voice rq)) speed]\<rparr>)"
  by (simp add: process_defs)

text \<open>Every run of \<open>process_query\<close> is one of eleven.\<close>

lemma process_query_cases:
  obtains
    (no_image) "files rq ''image'' = None"
      "process_query E rq w = ((PDict [(''error'', PStr ''No image file provided'')], 400), w)"
  | (empty_image) img where "files rq ''image'' = Some img" "filename img = []"
      "process_query E rq w = ((PDict [(''error'', PStr ''Empty image filename'')], 400), w)"
  | (no_audio) img where "files rq ''image'' = Some img" "filename img \<noteq> []"
      "files rq ''audio'' = None"
      "process_query E rq w = ((PDict [(''error'', PStr ''No audio file provided'')], 400), w)"
  | (empty_audio) img aud where "files rq ''image'' = Some img" "filename img \<noteq> []"
      "files rq ''audio'' = Some aud" "filename aud = []"
      "process_query E rq w = ((PDict [(''error'', PStr ''Empty audio filename'')], 400), w)"
  | (bad_speed) img aud e where "has_files rq img aud" "py_float E (form_speed rq) = Inl e"
      "process_query E rq w =
         (error_envelope process_error e, w\<lparr>tracebacks := tracebacks w @ [e]\<rparr>)"
  | (image_save_fails) img aud requested e where "has_files rq img aud"
      "py_float E (form_speed rq) = Inr requested"
      "save_error E (stored_path E (uuid_count w) (filename img)) = Some e"
      "process_query E rq w =
         (error_envelope process_error e,
          w\<lparr>uuid_count := Suc (Suc (uuid_count w)), tracebacks := tracebacks w @ [e]\<rparr>)"
  | (audio_save_fails) img aud requested e where "has_files rq img aud"
      "py_float E (form_speed rq) = Inr requested"
      "save_error E (stored_path E (uuid_count w) (filename img)) = None"
      "save_error E (stored_path E (Suc (uuid_count w)) (filename aud)) = Some e"
      "process_query E rq w =
         (error_envelope process_error e,
          w\<lparr>uuid_count := Suc (Suc (uuid_count w)),
            disk := (disk w)(stored_path E (uuid_count w) (filename img) \<mapsto> content img),
            tracebacks := tracebacks w @ [e]\<rparr>)"
  | (transcribe_raises) img aud requested ip ap d e where "has_files rq img aud"
      "py_float E (form_speed rq) = Inr requested"
      "ip = stored_path E (uuid_count w) (filename img)"
      "ap = stored_path E (Suc (uuid_count w)) (filename aud)"
      "save_error E ip = None" "save_error E ap = None"
      "d = (disk w)(ip \<mapsto> content img, ap \<mapsto> content aud)"
      "mm_transcribe_audio E d ap = Inl e"
      "process_query E rq w =
         (error_envelope process_error e,
          w\<lparr>uuid_count := Suc (Suc (uuid_count w)), disk := d,
            calls := calls w @ [TranscribeAudio ap],
            tracebacks := tracebacks w @ [e]\<rparr>)"
  | (answer_raises) img aud requested ip ap d transcription e where "has_files rq img aud"
      "py_float E (form_speed rq) = Inr requested"
      "ip = stored_path E (uuid_count w) (filename img)"
      "ap = stored_path E (Suc (uuid_count w)) (filename aud)"
      "save_error E ip = None" "save_error E ap = None"
      "d = (disk w)(ip \<mapsto> content img, ap \<mapsto> content aud)"
      "mm_transcribe_audio E d ap = Inr transcription"
      "mm_process_image_and_query E d ip transcription = Inl e"
      "process_query E rq w =
         (error_envelope process_error e,
          w\<lparr>uuid_count := Suc (Suc (uuid_count w)), disk := d,
            calls := calls w @ [TranscribeAudio ap, ProcessImageAndQuery ip transcription],
            tracebacks := tracebacks w @ [e]\<rparr>)"
  | (synthesis_raises) img aud requested ip ap d transcription response_text speed e d'
    where "has_files rq img aud"
      "py_float E (form_speed rq) = Inr requested"
      "ip = stored_path E (uuid_count w) (filename img)"
      "ap = stored_path E (Suc (uuid_count w)) (filename aud)"
      "save_error E ip = None" "save_error E ap = None"
      "d = (disk w)(ip \<mapsto> content img, ap \<mapsto> content aud)"
      "mm_transcribe_audio E d ap = Inr transcription"
      "mm_process_image_and_query E d ip transcription = Inr response_text"
      "speed = (if form_high_performance rq then py_max requested speed_floor else requested)"
      "mm_text_to_speech E d (PStr response_text) (PStr (form_voice rq)) speed = (Inl e, d')"
      "process_query E rq w =
         (error_envelope process_error e,
          w\<lparr>uuid_count := Suc (Suc (uuid_count w)), disk := d',
            calls := calls w @ [TranscribeAudio ap, ProcessImageAndQuery ip transcription,
                                TextToSpeech (PStr response_text) (PStr (form_voice rq)) speed],
            tracebacks := tracebacks w @ [e]\<rparr>)"
  | (succeeds) img aud requested ip ap d transcription response_text speed p d'
    where "has_files rq img aud"
      "py_float E (form_speed rq) = Inr requested"
      "ip = stored_path E (uuid_count w) (filename img)"
      "ap = stored_path E (Suc (uuid_count w)) (filename aud)"
      "save_error E ip = None" "save_error E ap = None"
      "d = (disk w)(ip \<mapsto> content img, ap \<mapsto> content aud)"
      "mm_transcribe_audio E d ap = Inr transcription"
      "mm_process_image_and_query E d ip transcription = Inr response_text"
      "speed = (if form_high_performance rq then py_max requested speed_floor else requested)"
      "mm_text_to_speech E d (PStr response_text) (PStr (form_voice rq)) speed = (Inr p, d')"
      "process_query E rq w =
         ((PDict [(''transcription'', PStr transcription), (''response'', PStr response_text),
                  (''audio_response'', PStr p)], 200),
          w\<lparr>uuid_count := Suc (Suc (uuid_count w)), disk := d',
            calls := calls w @ [TranscribeAudio ap, ProcessImageAndQuery ip transcription,
                                TextToSpeech (PStr response_text) (PStr (form_voice rq)) speed]\<rparr>)"
proof (cases "files rq ''image''")
  case None
  then show ?thesis using no_image process_no_image by blast
next
  case (Some img)
  note img = Some
  show ?thesis
  proof (cases "filename img = []")
    case True
    then show ?thesis using empty_image process_empty_image img by blast
  next
    case False
    note imgn = False
    show ?thesis
    proof (cases "files rq ''audio''")
      case None
      then show ?thesis using no_audio process_no_audio img imgn by blast
    next
      case (Some aud)
      note aud = Some
      show ?thesis
      proof (cases "filename aud = []")
        case True
        then show ?thesis using empty_audio process_empty_audio img imgn aud by blast
      next
        case False
        with img imgn aud have hf: "has_files rq img aud" by (simp add: has_files_def)
        show ?thesis
        proof (cases "py_float E (form_speed rq)")
          case (Inl e)
          then show ?thesis using bad_speed process_bad_speed hf by blast
        next
          case (Inr requested)
          note fl = Inr
          define ip where "ip = stored_path E (uuid_count w) (filename img)"
          define ap where "ap = stored_path E (Suc (uuid_count w)) (filename aud)"
          define d where "d = (disk w)(ip \<mapsto> content img, ap \<mapsto> content aud)"
          define speed where
            "speed = (if form_high_performance rq then py_max requested speed_floor else requested)"
          show ?thesis
          proof (cases "save_error E ip")
            case (Some e)
            then show ?thesis
              using image_save_fails [OF hf fl] process_image_save_fails [OF hf fl]
              unfolding ip_def by blast
          next
            case None
            note si = None
            show ?thesis
            proof (cases "save_error E ap")
              case (Some e)
              then show ?thesis
                using audio_save_fails [OF hf fl] process_audio_save_fails [OF hf fl] si
                unfolding ip_def ap_def by blast
            next
              case None
              note base = hf fl ip_def ap_def si None d_def
              show ?thesis
              proof (cases "mm_transcribe_audio E d ap")
                case (Inl e)
                show ?thesis
                  by (rule transcribe_raises [OF base Inl process_transcribe_raises [OF base Inl]])
              next
                case (Inr transcription)
                note tr = Inr
                show ?thesis
                proof (cases "mm_process_image_and_query E d ip transcription")
                  case (Inl e)
                  show ?thesis
                    by (rule answer_raises [OF base tr Inl process_answer_raises [OF base tr Inl]])
                next
                  case (Inr response_text)
                  note an = Inr
                  obtain r d' where syn:
                    "mm_text_to_speech E d (PStr response_text) (PStr (form_voice rq)) speed = (r, d')"
                    by (cases "mm_text_to_speech E d (PStr response_text) (PStr (form_voice rq)) speed")
                  show ?thesis
                  proof (cases r)
                    case (Inl e)
                    note s = syn [unfolded Inl]
                    show ?thesis
                      by (rule synthesis_raises [OF base tr an speed_def s
                            process_synthesis_raises [OF base tr an speed_def s]])
                  next
                    case (Inr p)
                    note s = syn [unfolded Inr]
                    show ?thesis
                      by (rule succeeds [OF base tr an speed_def s
                            process_succeeds [OF base tr an speed_def s]])
                  qed
                qed
              qed
            qed
          qed
        qed
      qed
    qed
  qed
qed

subsection \<open>The runs of \<open>text_to_speech\<close>\<close>

lemmas tts_defs = text_to_speech_def text_to_speech_body_def except_Exception_def py_get_def
  Let_def error_envelope_def tts_error_def json_speed_def

lemma tts_unreadable:
  "json rq = Inl e \<Longrightarrow>
   text_to_speech E rq w = (error_envelope tts_error e, w\<lparr>tracebacks := tracebacks w @ [e]\<rparr>)"
  by (simp add: tts_defs)

lemma tts_not_a_dict:
  "json rq = Inr data \<Longrightarrow> \<forall>kvs. data \<noteq> PDict kvs \<Longrightarrow>
   text_to_speech E rq w =
     (error_envelope tts_error (no_attribute_get data),
      w\<lparr>tracebacks := tracebacks w @ [no_attribute_get data]\<rparr>)"
  by (cases data) (simp_all add: tts_defs)

lemma tts_bad_speed:
  "json rq = Inr (PDict kvs) \<Longrightarrow>
   py_float E (dict_get kvs ''speed'' (PFloat (Fin 1))) = Inl e \<Longrightarrow>
   text_to_speech E rq w = (error_envelope tts_error e, w\<lparr>tracebacks := tracebacks w @ [e]\<rparr>)"
  by (simp add: tts_defs)

lemma tts_no_text:
  "json rq = Inr (PDict kvs) \<Longrightarrow>
   py_float E (dict_get kvs ''speed'' (PFloat (Fin 1))) = Inr requested \<Longrightarrow>
   \<not> truthy (dict_get kvs ''text'' PNone) \<Longrightarrow>
   text_to_speech E rq w = ((PDict [(''error'', PStr ''No text provided'')], 400), w)"
  by (simp add: tts_defs)

lemma tts_synthesis_raises:
  "json rq = Inr (PDict kvs) \<Longrightarrow>
   py_float E (dict_get kvs ''speed'' (PFloat (Fin 1))) = Inr requested \<Longrightarrow>
   truthy (dict_get kvs ''text'' PNone) \<Longrightarrow>
   c = TextToSpeech (dict_get kvs ''text'' PNone) (dict_get kvs ''voice'' (PStr ''af_heart''))
         (json_speed kvs requested) \<Longrightarrow>
   mm_text_to_speech E (disk w) (dict_get kvs ''text'' PNone)
     (dict_get kvs ''voice'' (PStr ''af_heart'')) (json_speed kvs requested) = (Inl e, d') \<Longrightarrow>
   text_to_speech E rq w =
     (error_envelope tts_error e,
      w\<lparr>disk := d', calls := calls w @ [c], tracebacks := tracebacks w @ [e]\<rparr>)"
  by (simp add: tts_defs)

lemma tts_file_missing:
  "json rq = Inr (PDict kvs) \<Longrightarrow>
   py_float E (dict_get kvs ''speed'' (PFloat (Fin 1))) = Inr requested \<Longrightarrow>
   truthy (dict_get kvs ''text'' PNone) \<Longrightarrow>
   c = TextToSpeech (dict_get kvs ''text'' PNone) (dict_get kvs ''voice'' (PStr ''af_heart''))
         (json_speed kvs requested) \<Longrightarrow>
   mm_text_to_speech E (disk w) (dict_get kvs ''text'' PNone)
     (dict_get kvs ''voice'' (PStr ''af_heart'')) (json_speed kvs requested) = (Inr p, d') \<Longrightarrow>
   missing_or_empty d' (os_path_join (UPLOAD_FOLDER E) p) \<Longrightarrow>
   text_to_speech E rq w =
     ((PDict [(''error'', PStr ''Audio generation failed. The audio file is missing or empty.'')],
       500),
      w\<lparr>disk := d', calls := calls w @ [c]\<rparr>)"
  by (simp add: tts_defs)

lemma tts_succeeds:
  "json rq = Inr (PDict kvs) \<Longrightarrow>
   py_float E (dict_get kvs ''speed'' (PFloat (Fin 1))) = Inr requested \<Longrightarrow>
   truthy (dict_get kvs ''text'' PNone) \<Longrightarrow>
   c = TextToSpeech (dict_get kvs ''text'' PNone) (dict_get kvs ''voice'' (PStr ''af_heart''))
         (json_speed kvs requested) \<Longrightarrow>
   mm_text_to_speech E (disk w) (dict_get kvs ''text'' PNone)
     (dict_get kvs ''voice'' (PStr ''af_heart'')) (json_speed kvs requested) = (Inr p, d') \<Longrightarrow>
   \<not> missing_or_empty d' (os_path_join (UPLOAD_FOLDER E) p) \<Longrightarrow>
   text_to_speech E rq w =
     ((PDict [(''audio_response'', PStr p)], 200), w\<lparr>disk := d', calls := calls w @ [c]\<rparr>)"
  by (simp add: tts_defs)

lemma text_to_speech_cases:
  obtains
    (unreadable) e where "json rq = Inl e"
      "text_to_speech E rq w =
         (error_envelope tts_error e, w\<lparr>tracebacks := tracebacks w @ [e]\<rparr>)"
  | (not_a_dict) data where "json rq = Inr data" "\<forall>kvs. data \<noteq> PDict kvs"
      "text_to_speech E rq w =
         (error_envelope tts_error (no_attribute_get data),
          w\<lparr>tracebacks := tracebacks w @ [no_attribute_get data]\<rparr>)"
  | (bad_speed) kvs e where "json rq = Inr (PDict kvs)"
      "py_float E (dict_get kvs ''speed'' (PFloat (Fin 1))) = Inl e"
      "text_to_speech E rq w =
         (error_envelope tts_error e, w\<lparr>tracebacks := tracebacks w @ [e]\<rparr>)"
  | (no_text) kvs requested where "json rq = Inr (PDict kvs)"
      "py_float E (dict_get kvs ''speed'' (PFloat (Fin 1))) = Inr requested"
      "\<not> truthy (dict_get kvs ''text'' PNone)"
      "text_to_speech E rq w = ((PDict [(''error'', PStr ''No text provided'')], 400), w)"
  | (synthesis_raises) kvs requested c e d' where "json rq = Inr (PDict kvs)"
      "py_float E (dict_get kvs ''speed'' (PFloat (Fin 1))) = Inr requested"
      "truthy (dict_get kvs ''text'' PNone)"
      "c = TextToSpeech (dict_get kvs ''text'' PNone) (dict_get kvs ''voice'' (PStr ''af_heart''))
             (json_speed kvs requested)"
      "mm_text_to_speech E (disk w) (dict_get kvs ''text'' PNone)
         (dict_get kvs ''voice'' (PStr ''af_heart'')) (json_speed kvs requested) = (Inl e, d')"
      "text_to_speech E rq w =
         (error_envelope tts_error e,
          w\<lparr>disk := d', calls := calls w @ [c], tracebacks := tracebacks w @ [e]\<rparr>)"
  | (file_missing) kvs requested c p d' where "json rq = Inr (PDict kvs)"
      "py_float E (dict_get kvs ''speed'' (PFloat (Fin 1))) = Inr requested"
      "truthy (dict_get kvs ''text'' PNone)"
      "c = TextToSpeech (dict_get kvs ''text'' PNone) (dict_get kvs ''voice'' (PStr ''af_heart''))
             (json_speed kvs requested)"
      "mm_text_to_speech E (disk w) (dict_get kvs ''text'' PNone)
         (dict_get kvs ''voice'' (PStr ''af_heart'')) (json_speed kvs requested) = (Inr p, d')"
      "missing_or_empty d' (os_path_join (UPLOAD_FOLDER E) p)"
      "text_to_speech E rq w =
         ((PDict [(''error'',
             PStr ''Audio generation failed. The audio file is missing or empty.'')], 500),
          w\<lparr>disk := d', calls := calls w @ [c]\<rparr>)"
  | (succeeds) kvs requested c p d' where "json rq = Inr (PDict kvs)"
      "py_float E (dict_get kvs ''speed'' (PFloat (Fin 1))) = Inr requested"
      "truthy (dict_get kvs ''text'' PNone)"
      "c = TextToSpeech (dict_get kvs ''text'' PNone) (dict_get kvs ''voice'' (PStr ''af_heart''))
             (json_speed kvs requested)"
      "mm_text_to_speech E (disk w) (dict_get kvs ''text'' PNone)
         (dict_get kvs ''voice'' (PStr ''af_heart'')) (json_speed kvs requested) = (Inr p, d')"
      "\<not> missing_or_empty d' (os_path_join (UPLOAD_FOLDER E) p)"
      "text_to_speech E rq w =
         ((PDict [(''audio_response'', PStr p)], 200), w\<lparr>disk := d', calls := calls w @ [c]\<rparr>)"
proof (cases "json rq")
  case (Inl e)
  show ?thesis by (rule unreadable [OF Inl tts_unreadable [OF Inl]])
next
  case (Inr data)
  show ?thesis
  proof (cases "\<exists>kvs. data = PDict kvs")
    case False
    then have nd: "\<forall>kvs. data \<noteq> PDict kvs" by simp
    show ?thesis by (rule not_a_dict [OF Inr nd tts_not_a_dict [OF Inr nd]])
  next
    case True
    then obtain kvs where "data = PDict kvs" by blast
    with Inr have js: "json rq = Inr (PDict kvs)" by simp
    show ?thesis
    proof (cases "py_float E (dict_get kvs ''speed'' (PFloat (Fin 1)))")
      case (Inl e)
      show ?thesis by (rule bad_speed [OF js Inl tts_bad_speed [OF js Inl]])
    next
      case (Inr requested)
      note fl = Inr
      show ?thesis
      proof (cases "truthy (dict_get kvs ''text'' PNone)")
        case False
        show ?thesis by (rule no_text [OF js fl False tts_no_text [OF js fl False]])
      next
        case True
        define c where "c = TextToSpeech (dict_get kvs ''text'' PNone)
          (dict_get kvs ''voice'' (PStr ''af_heart'')) (json_speed kvs requested)"
        obtain r d' where syn: "mm_text_to_speech E (disk w) (dict_get kvs ''text'' PNone)
             (dict_get kvs ''voice'' (PStr ''af_heart'')) (json_speed kvs requested) = (r, d')"
          by (cases "mm_text_to_speech E (disk w) (dict_get kvs ''text'' PNone)
             (dict_get kvs ''voice'' (PStr ''af_heart'')) (json_speed kvs requested)")
        show ?thesis
        proof (cases r)
          case (Inl e)
          note s = syn [unfolded Inl]
          show ?thesis
            by (rule synthesis_raises [OF js fl True c_def s tts_synthesis_raises [OF js fl True c_def s]])
        next
          case (Inr p)
          note s = syn [unfolded Inr]
          show ?thesis
          proof (cases "missing_or_empty d' (os_path_join (UPLOAD_FOLDER E) p)")
            case True
            note m = True
            show ?thesis
              by (rule file_missing [OF js fl \<open>truthy _\<close> c_def s m
                    tts_file_missing [OF js fl \<open>truthy _\<close> c_def s m]])
          next
            case False
            show ?thesis
              by (rule succeeds [OF js fl True c_def s False
                    tts_succeeds [OF js fl True c_def s False]])
          qed
        qed
      qed
    qed
  qed
qed

subsection \<open>The speed passed to the synthesis\<close>

lemma new_calls_self: "new_calls w w = []"
  by (simp add: new_calls_def)

lemma new_calls_tracebacks: "new_calls w (w\<lparr>tracebacks := t\<rparr>) = []"
  by (simp add: new_calls_def)


lemma tts_speed_passed:
  assumes js: "json rq = Inr (PDict kvs)"
    and fl: "py_float E (dict_get kvs ''speed'' (PFloat (Fin 1))) = Inr requested"
    and mem: "TextToSpeech t v s \<in> set (new_calls w (snd (text_to_speech E rq w)))"
  shows "s = json_speed kvs requested"
proof (cases rule: text_to_speech_cases [of rq E w])
  case (unreadable e)
  with js show ?thesis by simp
next
  case (not_a_dict data)
  with js show ?thesis by simp
next
  case (bad_speed kvs' e)
  with js fl show ?thesis by simp
next
  case (no_text kvs' requested')
  with mem show ?thesis by (simp add: new_calls_def)
next
  case (synthesis_raises kvs' requested' c e d')
  with js fl mem show ?thesis by (simp add: new_calls_def)
next
  case (file_missing kvs' requested' c p d')
  with js fl mem show ?thesis by (simp add: new_calls_def)
next
  case (succeeds kvs' requested' c p d')
  with js fl mem show ?thesis by (simp add: new_calls_def)
qed

lemma process_speed_passed:
  assumes fl: "py_float E (form_speed rq) = Inr requested"
    and mem: "TextToSpeech t v s \<in> set (new_calls w (snd (process_query E rq w)))"
  shows "s = (if form_high_performance rq then py_max requested speed_floor else requested)"
proof (cases rule: process_query_cases [of rq E w])
  case no_image
  with mem show ?thesis by (simp add: new_calls_def)
next
  case (empty_image img)
  with mem show ?thesis by (simp add: new_calls_def)
next
  case (no_audio img)
  with mem show ?thesis by (simp add: new_calls_def)
next
  case (empty_audio img aud)
  with mem show ?thesis by (simp add: new_calls_def)
next
  case (bad_speed img aud e)
  with mem show ?thesis by (simp add: new_calls_def)
next
  case (image_save_fails img aud requested e)
  with mem show ?thesis by (simp add: new_calls_def)
next
  case (audio_save_fails img aud requested e)
  with mem show ?thesis by (simp add: new_calls_def)
next
  case (transcribe_raises img aud requested ip ap d e)
  with mem show ?thesis by (simp add: new_calls_def)
next
  case (answer_raises img aud requested ip ap d transcription e)
  with mem show ?thesis by (simp add: new_calls_def)
next
  case (synthesis_raises img aud requested' ip ap d transcription response_text speed e d')
  with fl mem show ?thesis by (simp add: new_calls_def)
next
  case (succeeds img aud requested' ip ap d transcription response_text speed p d')
  with fl mem show ?thesis by (simp add: new_calls_def)
qed



lemma example_process_run:
  assumes "has_files rq img aud" and "py_float example_env (form_speed rq) = Inr requested"
    and "ip = stored_path example_env (uuid_count w) (filename img)"
    and "ap = stored_path example_env (Suc (uuid_count w)) (filename aud)"
    and "speed = (if form_high_performance rq then py_max requested speed_floor else requested)"
  shows "process_query example_env rq w =
     ((PDict [(''transcription'', PStr ''what is this''), (''response'', PStr ''a cat''),
              (''audio_response'', PStr ''tts_1.wav'')], 200),
      w\<lparr>uuid_count := Suc (Suc (uuid_count w)),
        disk := (disk w)(ip \<mapsto> content img, ap \<mapsto> content aud, ''app/uploads/tts_1.wav'' \<mapsto> ''RIFF''),
        calls := calls w @ [TranscribeAudio ap, ProcessImageAndQuery ip ''what is this'',
                            TextToSpeech (PStr ''a cat'') (PStr (form_voice rq)) speed]\<rparr>)"
  by (rule process_succeeds [OF assms(1,2,3,4) _ _ refl _ _ assms(5)])
     (simp_all add: example_env_def)

lemma two_uploads_has_files:
  "has_files (upload_request two_uploads fm)
     \<lparr>filename = ''cat.png'', content = ''PNG''\<rparr> \<lparr>filename = ''question.wav'', content = ''RIFF''\<rparr>"
  by (simp add: has_files_def upload_request_def two_uploads_def)

lemma lower_TRUE: "lower ''TRUE'' = ''true''"
  by code_simp


lemma speed_floor_raises: "py_max (Fin (4 / 5)) speed_floor = speed_floor"
  by (simp add: py_max_def speed_floor_def)


subsection \<open>The runs of \<open>transcribe_audio\<close> and \<open>generate_response\<close>\<close>

lemmas transcribe_defs = transcribe_audio_def transcribe_audio_body_def except_Exception_def
  file_save_def Let_def stored_path_def error_envelope_def transcribe_error_def

lemma transcribe_no_audio:
  "files rq ''audio'' = None \<Longrightarrow>
   transcribe_audio E rq w = ((PDict [(''error'', PStr ''No audio file provided'')], 400), w)"
  by (simp add: transcribe_defs)

lemma transcribe_empty_audio:
  "files rq ''audio'' = Some aud \<Longrightarrow> filename aud = [] \<Longrightarrow>
   transcribe_audio E rq w = ((PDict [(''error'', PStr ''Empty audio filename'')], 400), w)"
  by (simp add: transcribe_defs)

lemma transcribe_save_fails:
  "files rq ''audio'' = Some aud \<Longrightarrow> filename aud \<noteq> [] \<Longrightarrow>
   ap = stored_path E (uuid_count w) (filename aud) \<Longrightarrow> save_error E ap = Some e \<Longrightarrow>
   transcribe_audio E rq w =
     (error_envelope transcribe_error e,
      w\<lparr>uuid_count := Suc (uuid_count w), tracebacks := tracebacks w @ [e]\<rparr>)"
  by (simp add: transcribe_defs)

lemma transcribe_raises:
  "files rq ''audio'' = Some aud \<Longrightarrow> filename aud \<noteq> [] \<Longrightarrow>
   ap = stored_path E (uuid_count w) (filename aud) \<Longrightarrow> save_error E ap = None \<Longrightarrow>
   d = (disk w)(ap \<mapsto> content aud) \<Longrightarrow> mm_transcribe_audio E d ap = Inl e \<Longrightarrow>
   transcribe_audio E rq w =
     (error_envelope transcribe_error e,
      w\<lparr>uuid_count := Suc (uuid_count w), disk := d, calls := calls w @ [TranscribeAudio ap],
        tracebacks := tracebacks w @ [e]\<rparr>)"
  by (simp add: transcribe_defs)

lemma transcribe_succeeds:
  "files rq ''audio'' = Some aud \<Longrightarrow> filename aud \<noteq> [] \<Longrightarrow>
   ap = stored_path E (uuid_count w) (filename aud) \<Longrightarrow> save_error E ap = None \<Longrightarrow>
   d = (disk w)(ap \<mapsto> content aud) \<Longrightarrow> mm_transcribe_audio E d ap = Inr transcription \<Longrightarrow>
   transcribe_audio E rq w =
     ((PDict [(''transcription'', PStr transcription), (''audio_path'', PStr ap)], 200),
      w\<lparr>uuid_count := Suc (uuid_count w), disk := d, calls := calls w @ [TranscribeAudio ap]\<rparr>)"
  by (simp add: transcribe_defs)

lemma transcribe_audio_cases:
  obtains
    (no_audio) "files rq ''audio'' = None"
      "transcribe_audio E rq w = ((PDict [(''error'', PStr ''No audio file provided'')], 400), w)"
  | (empty_audio) aud where "files rq ''audio'' = Some aud" "filename aud = []"
      "transcribe_audio E rq w = ((PDict [(''error'', PStr ''Empty audio filename'')], 400), w)"
  | (save_fails) aud ap e where "files rq ''audio'' = Some aud" "filename aud \<noteq> []"
      "ap = stored_path E (uuid_count w) (filename aud)" "save_error E ap = Some e"
      "transcribe_audio E rq w =
         (error_envelope transcribe_error e,
          w\<lparr>uuid_count := Suc (uuid_count w), tracebacks := tracebacks w @ [e]\<rparr>)"
  | (raises) aud ap d e where "files rq ''audio'' = Some aud" "filename aud \<noteq> []"
      "ap = stored_path E (uuid_count w) (filename aud)" "save_error E ap = None"
      "d = (disk w)(ap \<mapsto> content aud)" "mm_transcribe_audio E d ap = Inl e"
      "transcribe_audio E rq w =
         (error_envelope transcribe_error e,
          w\<lparr>uuid_count := Suc (uuid_count w), disk := d, calls := calls w @ [TranscribeAudio ap],
            tracebacks := tracebacks w @ [e]\<rparr>)"
  | (succeeds) aud ap d transcription where "files rq ''audio'' = Some aud" "filename aud \<noteq> []"
      "ap = stored_path E (uuid_count w) (filename aud)" "save_error E ap = None"
      "d = (disk w)(ap \<mapsto> content aud)" "mm_transcribe_audio E d ap = Inr transcription"
      "transcribe_audio E rq w =
         ((PDict [(''transcription'', PStr transcription), (''audio_path'', PStr ap)], 200),
          w\<lparr>uuid_count := Suc (uuid_count w), disk := d,
            calls := calls w @ [TranscribeAudio ap]\<rparr>)"
proof (cases "files rq ''audio''")
  case None
  show ?thesis by (rule no_audio [OF None transcribe_no_audio [OF None]])
next
  case (Some aud)
  show ?thesis
  proof (cases "filename aud = []")
    case True
    show ?thesis by (rule empty_audio [OF Some True transcribe_empty_audio [OF Some True]])
  next
    case False
    define ap where "ap = stored_path E (uuid_count w) (filename aud)"
    define d where "d = (disk w)(ap \<mapsto> content aud)"
    note base = Some False ap_def
    show ?thesis
    proof (cases "save_error E ap")
      case (Some e)
      show ?thesis by (rule save_fails [OF base Some transcribe_save_fails [OF base Some]])
    next
      case None
      show ?thesis
      proof (cases "mm_transcribe_audio E d ap")
        case (Inl e)
        show ?thesis by (rule raises [OF base None d_def Inl transcribe_raises [OF base None d_def Inl]])
      next
        case (Inr t)
        show ?thesis
          by (rule succeeds [OF base None d_def Inr transcribe_succeeds [OF base None d_def Inr]])
      qed
    qed
  qed
qed

lemmas generate_defs = generate_response_def generate_response_body_def except_Exception_def
  Let_def error_envelope_def generate_error_def

lemma generate_no_image:
  "form rq ''image_path'' = None \<or> form rq ''image_path'' = Some [] \<Longrightarrow>
   generate_response E rq w = ((PDict [(''error'', PStr ''No image provided'')], 400), w)"
  by (auto simp add: generate_defs)

lemma generate_no_query:
  "form rq ''image_path'' = Some image_path \<Longrightarrow> image_path \<noteq> [] \<Longrightarrow>
   form rq ''query'' = None \<or> form rq ''query'' = Some [] \<Longrightarrow>
   generate_response E rq w = ((PDict [(''error'', PStr ''No query provided'')], 400), w)"
  by (auto simp add: generate_defs)

lemma generate_raises:
  "form rq ''image_path'' = Some image_path \<Longrightarrow> image_path \<noteq> [] \<Longrightarrow>
   form rq ''query'' = Some query \<Longrightarrow> query \<noteq> [] \<Longrightarrow>
   mm_process_image_and_query E (disk w) image_path query = Inl e \<Longrightarrow>
   generate_response E rq w =
     (error_envelope generate_error e,
      w\<lparr>calls := calls w @ [ProcessImageAndQuery image_path query],
        tracebacks := tracebacks w @ [e]\<rparr>)"
  by (simp add: generate_defs)

lemma generate_succeeds:
  "form rq ''image_path'' = Some image_path \<Longrightarrow> image_path \<noteq> [] \<Longrightarrow>
   form rq ''query'' = Some query \<Longrightarrow> query \<noteq> [] \<Longrightarrow>
   mm_process_image_and_query E (disk w) image_path query = Inr response_text \<Longrightarrow>
   generate_response E rq w =
     ((PDict [(''response'', PStr response_text)], 200),
      w\<lparr>calls := calls w @ [ProcessImageAndQuery image_path query]\<rparr>)"
  by (simp add: generate_defs)

lemma generate_response_cases:
  obtains
    (no_image) "form rq ''image_path'' = None \<or> form rq ''image_path'' = Some []"
      "generate_response E rq w = ((PDict [(''error'', PStr ''No image provided'')], 400), w)"
  | (no_query) image_path where "form rq ''image_path'' = Some image_path" "image_path \<noteq> []"
      "form rq ''query'' = None \<or> form rq ''query'' = Some []"
      "generate_response E rq w = ((PDict [(''error'', PStr ''No query provided'')], 400), w)"
  | (raises) image_path query e where "form rq ''image_path'' = Some image_path"
      "image_path \<noteq> []" "form rq ''query'' = Some query" "query \<noteq> []"
      "mm_process_image_and_query E (disk w) image_path query = Inl e"
      "generate_response E rq w =
         (error_envelope generate_error e,
          w\<lparr>calls := calls w @ [ProcessImageAndQuery image_path query],
            tracebacks := tracebacks w @ [e]\<rparr>)"
  | (succeeds) image_path query response_text where "form rq ''image_path'' = Some image_path"
      "image_path \<noteq> []" "form rq ''query'' = Some query" "query \<noteq> []"
      "mm_process_image_and_query E (disk w) image_path query = Inr response_text"
      "generate_response E rq w =
         ((PDict [(''response'', PStr response_text)], 200),
          w\<lparr>calls := calls w @ [ProcessImageAndQuery image_path query]\<rparr>)"
proof (cases "form rq ''image_path'' = None \<or> form rq ''image_path'' = Some []")
  case True
  show ?thesis by (rule no_image [OF True generate_no_image [OF True]])
next
  case False
  then obtain image_path where ip: "form rq ''image_path'' = Some image_path" "image_path \<noteq> []"
    by (cases "form rq ''image_path''") auto
  show ?thesis
  proof (cases "form rq ''query'' = None \<or> form rq ''query'' = Some []")
    case True
    show ?thesis by (rule no_query [OF ip True generate_no_query [OF ip True]])
  next
    case False
    then obtain query where q: "form rq ''query'' = Some query" "query \<noteq> []"
      by (cases "form rq ''query''") auto
    show ?thesis
    proof (cases "mm_process_image_and_query E (disk w) image_path query")
      case (Inl e)
      show ?thesis by (rule raises [OF ip q Inl generate_raises [OF ip q Inl]])
    next
      case (Inr r)
      show ?thesis by (rule succeeds [OF ip q Inr generate_succeeds [OF ip q Inr]])
    qed
  qed
qed

subsection \<open>The runs of \<open>get_voices\<close> and \<open>get_voices_by_language\<close>\<close>

lemmas voices_defs = get_voices_def get_voices_body_def get_voices_by_language_def
  get_voices_by_language_body_def except_Exception_def Let_def error_envelope_def
  voices_error_def voices_by_language_error_def

lemma get_voices_raises:
  "mm_get_available_voices E = Inl e \<Longrightarrow>
   get_voices E w =
     (error_envelope voices_error e,
      w\<lparr>calls := calls w @ [GetAvailableVoices], tracebacks := tracebacks w @ [e]\<rparr>)"
  by (simp add: voices_defs)

lemma get_voices_succeeds:
  "mm_get_available_voices E = Inr voices \<Longrightarrow>
   get_voices E w =
     ((PDict (map (\<lambda>(voice_id, d). (voice_id, PDict d)) voices), 200),
      w\<lparr>calls := calls w @ [GetAvailableVoices]\<rparr>)"
  by (simp add: voices_defs)

lemma by_language_grouping_raises:
  "mm_get_voices_by_language E = Inl e \<Longrightarrow>
   get_voices_by_language E w =
     (error_envelope voices_by_language_error e,
      w\<lparr>calls := calls w @ [GetVoicesByLanguage], tracebacks := tracebacks w @ [e]\<rparr>)"
  by (simp add: voices_defs)

lemma by_language_catalog_raises:
  "mm_get_voices_by_language E = Inr groups \<Longrightarrow> mm_get_available_voices E = Inl e \<Longrightarrow>
   get_voices_by_language E w =
     (error_envelope voices_by_language_error e,
      w\<lparr>calls := calls w @ [GetVoicesByLanguage, GetAvailableVoices],
        tracebacks := tracebacks w @ [e]\<rparr>)"
  by (simp add: voices_defs)

lemma by_language_succeeds:
  "mm_get_voices_by_language E = Inr groups \<Longrightarrow> mm_get_available_voices E = Inr voices_data \<Longrightarrow>
   get_voices_by_language E w =
     ((PDict (fold (\<lambda>(lang, voice_ids) response.
                      dict_set response lang (PList (voices_info_of voices_data voice_ids)))
                groups []), 200),
      w\<lparr>calls := calls w @ [GetVoicesByLanguage, GetAvailableVoices]\<rparr>)"
  by (simp add: voices_defs)

subsection \<open>Requests that omit a required input\<close>

lemma status_400 [simp]: "status_of ((b, 400), w) = 400"
  by (simp add: status_of_def)

lemma envelope_status: "status_of (error_envelope msg e, w) = 500"
  by (simp add: status_of_def error_envelope_def)

lemma envelope_keys: "body_keys (body_of (error_envelope msg e, w)) = [''error'', ''details'']"
  by (simp add: body_of_def body_keys_def error_envelope_def)

lemma error_only_keys: "body_keys (body_of ((PDict [(''error'', m)], n), w)) = [''error'']"
  by (simp add: body_of_def body_keys_def)

lemma transcribe_rejects:
  assumes "files rq ''audio'' = None \<or> (\<exists>aud. files rq ''audio'' = Some aud \<and> filename aud = [])"
  shows "status_of (transcribe_audio E rq w) = 400 \<and>
         body_keys (body_of (transcribe_audio E rq w)) = [''error''] \<and>
         snd (transcribe_audio E rq w) = w"
  using assms transcribe_no_audio [of rq E w] transcribe_empty_audio [of rq _ E w]
  by (auto simp add: error_only_keys)

lemma generate_rejects:
  assumes "form rq ''image_path'' = None \<or> form rq ''image_path'' = Some [] \<or>
           form rq ''query'' = None \<or> form rq ''query'' = Some []"
  shows "status_of (generate_response E rq w) = 400 \<and>
         body_keys (body_of (generate_response E rq w)) = [''error''] \<and>
         snd (generate_response E rq w) = w"
proof (cases rule: generate_response_cases [of rq E w])
  case no_image
  then show ?thesis by (simp add: error_only_keys)
next
  case (no_query image_path)
  then show ?thesis by (simp add: error_only_keys)
next
  case (raises image_path query e)
  with assms show ?thesis by simp
next
  case (succeeds image_path query response_text)
  with assms show ?thesis by simp
qed

lemma process_rejects:
  assumes "files rq ''image'' = None \<or> (\<exists>img. files rq ''image'' = Some img \<and> filename img = []) \<or>
           files rq ''audio'' = None \<or> (\<exists>aud. files rq ''audio'' = Some aud \<and> filename aud = [])"
  shows "status_of (process_query E rq w) = 400 \<and>
         body_keys (body_of (process_query E rq w)) = [''error''] \<and>
         snd (process_query E rq w) = w"
proof (cases rule: process_query_cases [of rq E w])
  case no_image
  then show ?thesis by (simp add: error_only_keys)
next
  case (empty_image img)
  then show ?thesis by (simp add: error_only_keys)
next
  case (no_audio img)
  then show ?thesis by (simp add: error_only_keys)
next
  case (empty_audio img aud)
  then show ?thesis by (simp add: error_only_keys)
next
  case (bad_speed img aud e)
  with assms show ?thesis by (auto simp add: has_files_def)
next
  case (image_save_fails img aud requested e)
  with assms show ?thesis by (auto simp add: has_files_def)
next
  case (audio_save_fails img aud requested e)
  with assms show ?thesis by (auto simp add: has_files_def)
next
  case (transcribe_raises img aud requested ip ap d e)
  with assms show ?thesis by (auto simp add: has_files_def)
next
  case (answer_raises img aud requested ip ap d transcription e)
  with assms show ?thesis by (auto simp add: has_files_def)
next
  case (synthesis_raises img aud requested' ip ap d transcription response_text speed e d')
  with assms show ?thesis by (auto simp add: has_files_def)
next
  case (succeeds img aud requested' ip ap d transcription response_text speed p d')
  with assms show ?thesis by (auto simp add: has_files_def)
qed

lemma tts_without_text_no_calls:
  assumes "\<not> (\<exists>kvs. json rq = Inr (PDict kvs) \<and> truthy (dict_get kvs ''text'' PNone))"
  shows "new_calls w (snd (text_to_speech E rq w)) = []"
proof (cases rule: text_to_speech_cases [of rq E w])
  case (unreadable e)
  then show ?thesis by (simp add: new_calls_def)
next
  case (not_a_dict data)
  then show ?thesis by (simp add: new_calls_def)
next
  case (bad_speed kvs e)
  then show ?thesis by (simp add: new_calls_def)
next
  case (no_text kvs requested)
  then show ?thesis by (simp add: new_calls_def)
next
  case (synthesis_raises kvs requested c e d')
  with assms show ?thesis by simp
next
  case (file_missing kvs requested c p d')
  with assms show ?thesis by simp
next
  case (succeeds kvs requested c p d')
  with assms show ?thesis by simp
qed

lemma tts_rejects:
  assumes "json rq = Inr (PDict kvs)" and "\<not> truthy (dict_get kvs ''text'' PNone)"
    and "py_float E (dict_get kvs ''speed'' (PFloat (Fin 1))) = Inr requested"
  shows "status_of (text_to_speech E rq w) = 400 \<and>
         body_keys (body_of (text_to_speech E rq w)) = [''error''] \<and>
         snd (text_to_speech E rq w) = w"
  by (simp add: tts_no_text [OF assms(1,3,2)] error_only_keys)

text \<open>
  C2, as the code has it. A request that omits a required file or field is answered
  with status 400 and a body that holds an error message only, and leaves the state as
  it was, so that no delegate operation is invoked and nothing is stored: by
  \<open>transcribe_audio\<close> without an audio file or with an empty audio file name, by
  \<open>generate_response\<close> without image path or query, by \<open>process_query\<close> without image or
  audio file or with an empty name. \<open>text_to_speech\<close> never invokes the delegate unless
  the body is a JSON object with a text, and answers a JSON object without text with
  the same 400 if its speed is absent or converts to a float.
\<close>

theorem missing_input_rejected_without_delegate:
  "((files rq ''audio'' = None \<or> (\<exists>aud. files rq ''audio'' = Some aud \<and> filename aud = [])) \<longrightarrow>
      status_of (transcribe_audio E rq w) = 400 \<and>
      body_keys (body_of (transcribe_audio E rq w)) = [''error''] \<and>
      snd (transcribe_audio E rq w) = w) \<and>
   ((form rq ''image_path'' = None \<or> form rq ''image_path'' = Some [] \<or>
     form rq ''query'' = None \<or> form rq ''query'' = Some []) \<longrightarrow>
      status_of (generate_response E rq w) = 400 \<and>
      body_keys (body_of (generate_response E rq w)) = [''error''] \<and>
      snd (generate_response E rq w) = w) \<and>
   ((files rq ''image'' = None \<or> (\<exists>img. files rq ''image'' = Some img \<and> filename img = []) \<or>
     files rq ''audio'' = None \<or> (\<exists>aud. files rq ''audio'' = Some aud \<and> filename aud = [])) \<longrightarrow>
      status_of (process_query E rq w) = 400 \<and>
      body_keys (body_of (process_query E rq w)) = [''error''] \<and>
      snd (process_query E rq w) = w) \<and>
   (\<not> (\<exists>kvs. json rq = Inr (PDict kvs) \<and> truthy (dict_get kvs ''text'' PNone)) \<longrightarrow>
      new_calls w (snd (text_to_speech E rq w)) = []) \<and>
   (\<forall>kvs requested.
      json rq = Inr (PDict kvs) \<and> \<not> truthy (dict_get kvs ''text'' PNone) \<and>
      py_float E (dict_get kvs ''speed'' (PFloat (Fin 1))) = Inr requested \<longrightarrow>
      status_of (text_to_speech E rq w) = 400 \<and>
      body_keys (body_of (text_to_speech E rq w)) = [''error''] \<and>
      snd (text_to_speech E rq w) = w)"
proof (intro conjI allI impI)
  fix kvs requested
  assume "json rq = Inr (PDict kvs) \<and> \<not> truthy (dict_get kvs ''text'' PNone) \<and>
      py_float E (dict_get kvs ''speed'' (PFloat (Fin 1))) = Inr requested"
  then have *: "status_of (text_to_speech E rq w) = 400 \<and>
      body_keys (body_of (text_to_speech E rq w)) = [''error''] \<and>
      snd (text_to_speech E rq w) = w"
    using tts_rejects by blast
  from * show "status_of (text_to_speech E rq w) = 400" by simp
  from * show "body_keys (body_of (text_to_speech E rq w)) = [''error'']" by simp
  from * show "snd (text_to_speech E rq w) = w" by simp
qed (simp_all add: transcribe_rejects generate_rejects process_rejects tts_without_text_no_calls)

text \<open>
  The same request without files and without fields is rejected by the three handlers
  that read files or the form; the empty JSON object is rejected by \<open>text_to_speech\<close>.
\<close>

theorem missing_input_rejected_without_delegate_witness:
  "files (upload_request Map.empty Map.empty) ''audio'' = None \<and>
   status_of (transcribe_audio example_env (upload_request Map.empty Map.empty) empty_world) = 400 \<and>
   form (upload_request Map.empty Map.empty) ''image_path'' = None \<and>
   status_of (generate_response example_env (upload_request Map.empty Map.empty) empty_world) = 400 \<and>
   files (upload_request Map.empty Map.empty) ''image'' = None \<and>
   status_of (process_query example_env (upload_request Map.empty Map.empty) empty_world) = 400 \<and>
   snd (process_query example_env (upload_request Map.empty Map.empty) empty_world) = empty_world \<and>
   json (json_request (PDict [])) = Inr (PDict []) \<and>
   \<not> truthy (dict_get [] ''text'' PNone) \<and>
   py_float example_env (dict_get [] ''speed'' (PFloat (Fin 1))) = Inr (Fin 1) \<and>
   status_of (text_to_speech example_env (json_request (PDict [])) empty_world) = 400 \<and>
   new_calls empty_world (snd (text_to_speech example_env (json_request (PDict [])) empty_world)) = []"
proof -
  have a: "files (upload_request Map.empty Map.empty) ''audio'' = None"
    "form (upload_request Map.empty Map.empty) ''image_path'' = None"
    "files (upload_request Map.empty Map.empty) ''image'' = None"
    by (simp_all add: upload_request_def)
  have b: "json (json_request (PDict [])) = Inr (PDict [])"
    "\<not> truthy (dict_get [] ''text'' PNone)"
    "py_float example_env (dict_get [] ''speed'' (PFloat (Fin 1))) = Inr (Fin 1)"
    by (simp_all add: json_request_def dict_get_def py_float_def)
  have c: "\<not> (\<exists>kvs. json (json_request (PDict [])) = Inr (PDict kvs) \<and>
                truthy (dict_get kvs ''text'' PNone))"
    by (simp add: json_request_def dict_get_def)
  note main = missing_input_rejected_without_delegate [of _ example_env empty_world]
  note files_or_form = main [of "upload_request Map.empty Map.empty"]
  note object = main [of "json_request (PDict [])"]
  have t: "status_of (transcribe_audio example_env (upload_request Map.empty Map.empty) empty_world) = 400"
    using files_or_form [THEN conjunct1] a(1) by blast
  have g: "status_of (generate_response example_env (upload_request Map.empty Map.empty) empty_world) = 400"
    using files_or_form [THEN conjunct2, THEN conjunct1] a(2) by blast
  have p: "status_of (process_query example_env (upload_request Map.empty Map.empty) empty_world) = 400 \<and>
     snd (process_query example_env (upload_request Map.empty Map.empty) empty_world) = empty_world"
    using files_or_form [THEN conjunct2, THEN conjunct2, THEN conjunct1] a(3) by blast
  have n: "new_calls empty_world
      (snd (text_to_speech example_env (json_request (PDict [])) empty_world)) = []"
    using object [THEN conjunct2, THEN conjunct2, THEN conjunct2, THEN conjunct1] c by blast
  have s: "status_of (text_to_speech example_env (json_request (PDict [])) empty_world) = 400"
    using object [THEN conjunct2, THEN conjunct2, THEN conjunct2, THEN conjunct2] b by blast
  from a b t g p n s show ?thesis by blast
qed

text \<open>
  C2 as stated fails: the body \<open>{speed: "fast"}\<close> has no text, and \<open>text_to_speech\<close> answers
  it with status 500, since the speed is converted before the text is looked at.
\<close>

theorem missing_text_answered_500_counterexample:
  "json (json_request (PDict fast_no_text)) = Inr (PDict fast_no_text) \<and>
   map_of fast_no_text ''text'' = None \<and>
   status_of (text_to_speech example_env (json_request (PDict fast_no_text)) empty_world) = 500"
proof -
  have "py_float example_env (dict_get fast_no_text ''speed'' (PFloat (Fin 1))) =
          Inl (''could not convert string to float: '' @ [CHR 0x27] @ ''fast'' @ [CHR 0x27])"
    by (simp add: fast_no_text_def dict_get_def py_float_def example_env_def)
  then show ?thesis
    by (simp add: tts_bad_speed [of _ fast_no_text] json_request_def envelope_status)
       (simp add: fast_no_text_def)
qed

subsection \<open>A speed that does not convert to a float\<close>

lemma tts_unparseable_speed:
  assumes "json rq = Inr (PDict kvs)" and "map_of kvs ''speed'' = Some v" and "py_float E v = Inl e"
  shows "fst (text_to_speech E rq w) = error_envelope tts_error e \<and>
         status_of (text_to_speech E rq w) = 500 \<and>
         new_calls w (snd (text_to_speech E rq w)) = []"
proof -
  from assms(2,3) have "py_float E (dict_get kvs ''speed'' (PFloat (Fin 1))) = Inl e"
    by (simp add: dict_get_def)
  from tts_bad_speed [OF assms(1) this] show ?thesis
    by (simp add: envelope_status new_calls_def)
qed

lemma process_unparseable_speed:
  assumes "form rq ''speed'' = Some s" and "py_float E (PStr s) = Inl e" and "has_files rq img aud"
  shows "fst (process_query E rq w) = error_envelope process_error e \<and>
         status_of (process_query E rq w) = 500 \<and>
         new_calls w (snd (process_query E rq w)) = [] \<and>
         disk (snd (process_query E rq w)) = disk w"
proof -
  from assms(1,2) have "py_float E (form_speed rq) = Inl e"
    by (simp add: form_speed_def)
  from process_bad_speed [OF assms(3) this] show ?thesis
    by (simp add: envelope_status new_calls_def)
qed

lemma no_files_rejects:
  assumes "\<not> (\<exists>img aud. has_files rq img aud)"
  shows "files rq ''image'' = None \<or> (\<exists>img. files rq ''image'' = Some img \<and> filename img = []) \<or>
         files rq ''audio'' = None \<or> (\<exists>aud. files rq ''audio'' = Some aud \<and> filename aud = [])"
  using assms by (cases "files rq ''image''"; cases "files rq ''audio''") (auto simp add: has_files_def)

text \<open>
  C10, as the code has it. A speed that is present and does not convert to a float
  makes \<open>text_to_speech\<close> answer with status 500 and the envelope of its message and the
  exception text, whatever else the body holds. \<open>process_query\<close> does the same if both
  files are part of the request under non-empty names; if not, its file checks come
  first and the answer is status 400. In neither case is a delegate operation invoked.
\<close>

theorem unparseable_speed_answered:
  "(\<forall>kvs v e. json rq = Inr (PDict kvs) \<and> map_of kvs ''speed'' = Some v \<and> py_float E v = Inl e \<longrightarrow>
      fst (text_to_speech E rq w) = error_envelope tts_error e \<and>
      status_of (text_to_speech E rq w) = 500 \<and>
      new_calls w (snd (text_to_speech E rq w)) = []) \<and>
   (\<forall>s e img aud. form rq ''speed'' = Some s \<and> py_float E (PStr s) = Inl e \<and> has_files rq img aud \<longrightarrow>
      fst (process_query E rq w) = error_envelope process_error e \<and>
      status_of (process_query E rq w) = 500 \<and>
      new_calls w (snd (process_query E rq w)) = []) \<and>
   (\<forall>s e. form rq ''speed'' = Some s \<and> py_float E (PStr s) = Inl e \<and>
      \<not> (\<exists>img aud. has_files rq img aud) \<longrightarrow>
      status_of (process_query E rq w) = 400 \<and>
      snd (process_query E rq w) = w)"
proof (intro conjI allI impI)
  fix kvs v e
  assume h: "json rq = Inr (PDict kvs) \<and> map_of kvs ''speed'' = Some v \<and> py_float E v = Inl e"
  then have *: "fst (text_to_speech E rq w) = error_envelope tts_error e \<and>
         status_of (text_to_speech E rq w) = 500 \<and>
         new_calls w (snd (text_to_speech E rq w)) = []"
    using tts_unparseable_speed by blast
  from * show "fst (text_to_speech E rq w) = error_envelope tts_error e" by simp
  from * show "status_of (text_to_speech E rq w) = 500" by simp
  from * show "new_calls w (snd (text_to_speech E rq w)) = []" by simp
next
  fix s e img aud
  assume h: "form rq ''speed'' = Some s \<and> py_float E (PStr s) = Inl e \<and> has_files rq img aud"
  then have *: "fst (process_query E rq w) = error_envelope process_error e \<and>
         status_of (process_query E rq w) = 500 \<and>
         new_calls w (snd (process_query E rq w)) = [] \<and>
         disk (snd (process_query E rq w)) = disk w"
    using process_unparseable_speed by blast
  from * show "fst (process_query E rq w) = error_envelope process_error e" by simp
  from * show "status_of (process_query E rq w) = 500" by simp
  from * show "new_calls w (snd (process_query E rq w)) = []" by simp
next
  fix s e
  assume h: "form rq ''speed'' = Some s \<and> py_float E (PStr s) = Inl e \<and>
      \<not> (\<exists>img aud. has_files rq img aud)"
  then have *: "status_of (process_query E rq w) = 400 \<and>
         body_keys (body_of (process_query E rq w)) = [''error''] \<and>
         snd (process_query E rq w) = w"
    using process_rejects [OF no_files_rejects] by blast
  from * show "status_of (process_query E rq w) = 400" by simp
  from * show "snd (process_query E rq w) = w" by simp
qed

lemma fast_is_no_float:
  "py_float example_env (PStr ''fast'') =
     Inl (''could not convert string to float: '' @ [CHR 0x27] @ ''fast'' @ [CHR 0x27])"
  by (simp add: py_float_def example_env_def)

lemma fast_with_files_has_files:
  "has_files fast_with_files
     \<lparr>filename = ''cat.png'', content = ''PNG''\<rparr> \<lparr>filename = ''question.wav'', content = ''RIFF''\<rparr>"
  unfolding fast_with_files_def by (rule two_uploads_has_files)

lemma fast_no_files_has_none: "\<not> (\<exists>img aud. has_files fast_no_files img aud)"
  by (simp add: has_files_def fast_no_files_def upload_request_def)

theorem unparseable_speed_answered_witness:
  "json (json_request (PDict fast_no_text)) = Inr (PDict fast_no_text) \<and>
   map_of fast_no_text ''speed'' = Some (PStr ''fast'') \<and>
   status_of (text_to_speech example_env (json_request (PDict fast_no_text)) empty_world) = 500 \<and>
   form fast_with_files ''speed'' = Some ''fast'' \<and>
   status_of (process_query example_env fast_with_files empty_world) = 500 \<and>
   new_calls empty_world (snd (process_query example_env fast_with_files empty_world)) = [] \<and>
   form fast_no_files ''speed'' = Some ''fast'' \<and>
   status_of (process_query example_env fast_no_files empty_world) = 400"
proof -
  have a: "json (json_request (PDict fast_no_text)) = Inr (PDict fast_no_text)"
    "map_of fast_no_text ''speed'' = Some (PStr ''fast'')"
    "form fast_with_files ''speed'' = Some ''fast''"
    "form fast_no_files ''speed'' = Some ''fast''"
    by (simp_all add: json_request_def fast_no_text_def fast_with_files_def fast_no_files_def
        upload_request_def)
  note main = unparseable_speed_answered [of _ example_env empty_world]
  have t: "status_of (text_to_speech example_env (json_request (PDict fast_no_text)) empty_world) = 500"
    using main [of "json_request (PDict fast_no_text)", THEN conjunct1] a(1,2) fast_is_no_float
    by blast
  have p: "status_of (process_query example_env fast_with_files empty_world) = 500 \<and>
     new_calls empty_world (snd (process_query example_env fast_with_files empty_world)) = []"
    using main [of fast_with_files, THEN conjunct2, THEN conjunct1] a(3) fast_is_no_float
      fast_with_files_has_files by blast
  have q: "status_of (process_query example_env fast_no_files empty_world) = 400"
    using main [of fast_no_files, THEN conjunct2, THEN conjunct2] a(4) fast_is_no_float
      fast_no_files_has_none by blast
  from a t p q show ?thesis by blast
qed

text \<open>
  C10 as stated fails: a form with the speed \<open>fast\<close> and no files is answered by
  \<open>process_query\<close> with status 400, not 500.
\<close>

theorem unparseable_speed_answered_400_counterexample:
  "form fast_no_files ''speed'' = Some ''fast'' \<and>
   py_float example_env (PStr ''fast'') =
     Inl (''could not convert string to float: '' @ [CHR 0x27] @ ''fast'' @ [CHR 0x27]) \<and>
   fst (process_query example_env fast_no_files empty_world) =
     (PDict [(''error'', PStr ''No image file provided'')], 400)"
  by (simp add: fast_is_no_float process_no_image fast_no_files_def upload_request_def)

subsection \<open>Exceptions at the handler boundary\<close>

lemma except_Exception_Inl:
  "except_Exception msg (Inl e, w') = (error_envelope msg e, w'\<lparr>tracebacks := tracebacks w' @ [e]\<rparr>)"
  by (simp add: except_Exception_def error_envelope_def)

lemma except_Exception_Inr: "except_Exception msg (Inr r, w') = (r, w')"
  by (simp add: except_Exception_def)

lemma distinct_op_names_process:
  "distinct (map op_name (new_calls w (snd (process_query E rq w))))"
  by (cases rule: process_query_cases [of rq E w]) (simp_all add: new_calls_def)

lemma distinct_op_names_tts:
  "distinct (map op_name (new_calls w (snd (text_to_speech E rq w))))"
  by (cases rule: text_to_speech_cases [of rq E w]) (simp_all add: new_calls_def)

lemma distinct_op_names_transcribe:
  "distinct (map op_name (new_calls w (snd (transcribe_audio E rq w))))"
  by (cases rule: transcribe_audio_cases [of rq E w]) (simp_all add: new_calls_def)

lemma distinct_op_names_generate:
  "distinct (map op_name (new_calls w (snd (generate_response E rq w))))"
  by (cases rule: generate_response_cases [of rq E w]) (simp_all add: new_calls_def)

lemma distinct_op_names_voices:
  "distinct (map op_name (new_calls w (snd (get_voices E w))))"
  by (cases "mm_get_available_voices E")
     (simp_all add: get_voices_raises get_voices_succeeds new_calls_def)

lemma distinct_op_names_by_language:
  "distinct (map op_name (new_calls w (snd (get_voices_by_language E w))))"
  by (cases "mm_get_voices_by_language E"; cases "mm_get_available_voices E")
     (simp_all add: by_language_grouping_raises by_language_catalog_raises by_language_succeeds
        new_calls_def)

lemma transcribe_save_raises_500:
  "\<forall>aud e.
       files rq ''audio'' = Some aud \<and>
       filename aud \<noteq> [] \<and>
       save_error E (stored_path E (uuid_count w) (filename aud)) = Some e \<longrightarrow>
       fst (transcribe_audio E rq w) =
         (PDict [(''error'', PStr ''An error occurred during transcription.''), (''details'', PStr e)], 500) \<and>
       tracebacks (snd (transcribe_audio E rq w)) = tracebacks w @ [e] \<and>
       new_calls w (snd (transcribe_audio E rq w)) =
         []"
proof (intro allI impI)
  fix aud e
  assume h: "files rq ''audio'' = Some aud \<and>
      filename aud \<noteq> [] \<and>
      save_error E (stored_path E (uuid_count w) (filename aud)) = Some e"
  note h1 = h [THEN conjunct1]
  note h2 = h [THEN conjunct2, THEN conjunct1]
  note h3 = h [THEN conjunct2, THEN conjunct2]
  note run = transcribe_save_fails [OF h1 h2 refl h3]
  show "fst (transcribe_audio E rq w) =
      (PDict [(''error'', PStr ''An error occurred during transcription.''), (''details'', PStr e)], 500) \<and>
    tracebacks (snd (transcribe_audio E rq w)) = tracebacks w @ [e] \<and>
    new_calls w (snd (transcribe_audio E rq w)) =
      []"
    by (simp add: run error_envelope_def transcribe_error_def new_calls_def)
qed

lemma transcribe_delegate_raises_500:
  "\<forall>aud e.
       files rq ''audio'' = Some aud \<and>
       filename aud \<noteq> [] \<and>
       save_error E (stored_path E (uuid_count w) (filename aud)) = None \<and>
       mm_transcribe_audio E ((disk w)(stored_path E (uuid_count w) (filename aud) \<mapsto> content aud)) (stored_path E (uuid_count w) (filename aud)) = Inl e \<longrightarrow>
       fst (transcribe_audio E rq w) =
         (PDict [(''error'', PStr ''An error occurred during transcription.''), (''details'', PStr e)], 500) \<and>
       tracebacks (snd (transcribe_audio E rq w)) = tracebacks w @ [e] \<and>
       new_calls w (snd (transcribe_audio E rq w)) =
         [TranscribeAudio (stored_path E (uuid_count w) (filename aud))]"
proof (intro allI impI)
  fix aud e
  assume h: "files rq ''audio'' = Some aud \<and>
      filename aud \<noteq> [] \<and>
      save_error E (stored_path E (uuid_count w) (filename aud)) = None \<and>
      mm_transcribe_audio E ((disk w)(stored_path E (uuid_count w) (filename aud) \<mapsto> content aud)) (stored_path E (uuid_count w) (filename aud)) = Inl e"
  note h1 = h [THEN conjunct1]
  note h2 = h [THEN conjunct2, THEN conjunct1]
  note h3 = h [THEN conjunct2, THEN conjunct2, THEN conjunct1]
  note h4 = h [THEN conjunct2, THEN conjunct2, THEN conjunct2]
  note run = transcribe_raises [OF h1 h2 refl h3 refl h4]
  show "fst (transcribe_audio E rq w) =
      (PDict [(''error'', PStr ''An error occurred during transcription.''), (''details'', PStr e)], 500) \<and>
    tracebacks (snd (transcribe_audio E rq w)) = tracebacks w @ [e] \<and>
    new_calls w (snd (transcribe_audio E rq w)) =
      [TranscribeAudio (stored_path E (uuid_count w) (filename aud))]"
    by (simp add: run error_envelope_def transcribe_error_def new_calls_def)
qed

lemma generate_delegate_raises_500:
  "\<forall>image_path query e.
       form rq ''image_path'' = Some image_path \<and>
       image_path \<noteq> [] \<and>
       form rq ''query'' = Some query \<and>
       query \<noteq> [] \<and>
       mm_process_image_and_query E (disk w) image_path query = Inl e \<longrightarrow>
       fst (generate_response E rq w) =
         (PDict [(''error'', PStr ''An error occurred while generating the response.''), (''details'', PStr e)], 500) \<and>
       tracebacks (snd (generate_response E rq w)) = tracebacks w @ [e] \<and>
       new_calls w (snd (generate_response E rq w)) =
         [ProcessImageAndQuery image_path query]"
proof (intro allI impI)
  fix image_path query e
  assume h: "form rq ''image_path'' = Some image_path \<and>
      image_path \<noteq> [] \<and>
      form rq ''query'' = Some query \<and>
      query \<noteq> [] \<and>
      mm_process_image_and_query E (disk w) image_path query = Inl e"
  note h1 = h [THEN conjunct1]
  note h2 = h [THEN conjunct2, THEN conjunct1]
  note h3 = h [THEN conjunct2, THEN conjunct2, THEN conjunct1]
  note h4 = h [THEN conjunct2, THEN conjunct2, THEN conjunct2, THEN conjunct1]
  note h5 = h [THEN conjunct2, THEN conjunct2, THEN conjunct2, THEN conjunct2]
  note run = generate_raises [OF h1 h2 h3 h4 h5]
  show "fst (generate_response E rq w) =
      (PDict [(''error'', PStr ''An error occurred while generating the response.''), (''details'', PStr e)], 500) \<and>
    tracebacks (snd (generate_response E rq w)) = tracebacks w @ [e] \<and>
    new_calls w (snd (generate_response E rq w)) =
      [ProcessImageAndQuery image_path query]"
    by (simp add: run error_envelope_def generate_error_def new_calls_def)
qed

lemma tts_json_raises_500:
  "\<forall>e.
       json rq = Inl e \<longrightarrow>
       fst (text_to_speech E rq w) =
         (PDict [(''error'', PStr ''An error occurred during text-to-speech conversion.''), (''details'', PStr e)], 500) \<and>
       tracebacks (snd (text_to_speech E rq w)) = tracebacks w @ [e] \<and>
       new_calls w (snd (text_to_speech E rq w)) =
         []"
proof (intro allI impI)
  fix e
  assume h: "json rq = Inl e"
  note h1 = h
  note run = tts_unreadable [OF h1]
  show "fst (text_to_speech E rq w) =
      (PDict [(''error'', PStr ''An error occurred during text-to-speech conversion.''), (''details'', PStr e)], 500) \<and>
    tracebacks (snd (text_to_speech E rq w)) = tracebacks w @ [e] \<and>
    new_calls w (snd (text_to_speech E rq w)) =
      []"
    by (simp add: run error_envelope_def tts_error_def new_calls_def)
qed

lemma tts_get_raises_500:
  "\<forall>data.
       json rq = Inr data \<and>
       (\<forall>kvs. data \<noteq> PDict kvs) \<longrightarrow>
       fst (text_to_speech E rq w) =
         (PDict [(''error'', PStr ''An error occurred during text-to-speech conversion.''), (''details'', PStr (no_attribute_get data))], 500) \<and>
       tracebacks (snd (text_to_speech E rq w)) = tracebacks w @ [(no_attribute_get data)] \<and>
       new_calls w (snd (text_to_speech E rq w)) =
         []"
proof (intro allI impI)
  fix data
  assume h: "json rq = Inr data \<and>
      (\<forall>kvs. data \<noteq> PDict kvs)"
  note h1 = h [THEN conjunct1]
  note h2 = h [THEN conjunct2]
  note run = tts_not_a_dict [OF h1 h2]
  show "fst (text_to_speech E rq w) =
      (PDict [(''error'', PStr ''An error occurred during text-to-speech conversion.''), (''details'', PStr (no_attribute_get data))], 500) \<and>
    tracebacks (snd (text_to_speech E rq w)) = tracebacks w @ [(no_attribute_get data)] \<and>
    new_calls w (snd (text_to_speech E rq w)) =
      []"
    by (simp add: run error_envelope_def tts_error_def new_calls_def)
qed

lemma tts_float_raises_500:
  "\<forall>kvs e.
       json rq = Inr (PDict kvs) \<and>
       py_float E (dict_get kvs ''speed'' (PFloat (Fin 1))) = Inl e \<longrightarrow>
       fst (text_to_speech E rq w) =
         (PDict [(''error'', PStr ''An error occurred during text-to-speech conversion.''), (''details'', PStr e)], 500) \<and>
       tracebacks (snd (text_to_speech E rq w)) = tracebacks w @ [e] \<and>
       new_calls w (snd (text_to_speech E rq w)) =
         []"
proof (intro allI impI)
  fix kvs e
  assume h: "json rq = Inr (PDict kvs) \<and>
      py_float E (dict_get kvs ''speed'' (PFloat (Fin 1))) = Inl e"
  note h1 = h [THEN conjunct1]
  note h2 = h [THEN conjunct2]
  note run = tts_bad_speed [OF h1 h2]
  show "fst (text_to_speech E rq w) =
      (PDict [(''error'', PStr ''An error occurred during text-to-speech conversion.''), (''details'', PStr e)], 500) \<and>
    tracebacks (snd (text_to_speech E rq w)) = tracebacks w @ [e] \<and>
    new_calls w (snd (text_to_speech E rq w)) =
      []"
    by (simp add: run error_envelope_def tts_error_def new_calls_def)
qed

lemma tts_delegate_raises_500:
  "\<forall>kvs requested e d'.
       json rq = Inr (PDict kvs) \<and>
       py_float E (dict_get kvs ''speed'' (PFloat (Fin 1))) = Inr requested \<and>
       truthy (dict_get kvs ''text'' PNone) \<and>
       mm_text_to_speech E (disk w) (dict_get kvs ''text'' PNone) (dict_get kvs ''voice'' (PStr ''af_heart'')) (json_speed kvs requested) = (Inl e, d') \<longrightarrow>
       fst (text_to_speech E rq w) =
         (PDict [(''error'', PStr ''An error occurred during text-to-speech conversion.''), (''details'', PStr e)], 500) \<and>
       tracebacks (snd (text_to_speech E rq w)) = tracebacks w @ [e] \<and>
       new_calls w (snd (text_to_speech E rq w)) =
         [TextToSpeech (dict_get kvs ''text'' PNone) (dict_get kvs ''voice'' (PStr ''af_heart'')) (json_speed kvs requested)]"
proof (intro allI impI)
  fix kvs requested e d'
  assume h: "json rq = Inr (PDict kvs) \<and>
      py_float E (dict_get kvs ''speed'' (PFloat (Fin 1))) = Inr requested \<and>
      truthy (dict_get kvs ''text'' PNone) \<and>
      mm_text_to_speech E (disk w) (dict_get kvs ''text'' PNone) (dict_get kvs ''voice'' (PStr ''af_heart'')) (json_speed kvs requested) = (Inl e, d')"
  note h1 = h [THEN conjunct1]
  note h2 = h [THEN conjunct2, THEN conjunct1]
  note h3 = h [THEN conjunct2, THEN conjunct2, THEN conjunct1]
  note h4 = h [THEN conjunct2, THEN conjunct2, THEN conjunct2]
  note run = tts_synthesis_raises [OF h1 h2 h3 refl h4]
  show "fst (text_to_speech E rq w) =
      (PDict [(''error'', PStr ''An error occurred during text-to-speech conversion.''), (''details'', PStr e)], 500) \<and>
    tracebacks (snd (text_to_speech E rq w)) = tracebacks w @ [e] \<and>
    new_calls w (snd (text_to_speech E rq w)) =
      [TextToSpeech (dict_get kvs ''text'' PNone) (dict_get kvs ''voice'' (PStr ''af_heart'')) (json_speed kvs requested)]"
    by (simp add: run error_envelope_def tts_error_def new_calls_def)
qed

lemma voices_delegate_raises_500:
  "\<forall>e.
       mm_get_available_voices E = Inl e \<longrightarrow>
       fst (get_voices E w) =
         (PDict [(''error'', PStr ''An error occurred while retrieving voices.''), (''details'', PStr e)], 500) \<and>
       tracebacks (snd (get_voices E w)) = tracebacks w @ [e] \<and>
       new_calls w (snd (get_voices E w)) =
         [GetAvailableVoices]"
proof (intro allI impI)
  fix e
  assume h: "mm_get_available_voices E = Inl e"
  note h1 = h
  note run = get_voices_raises [OF h1]
  show "fst (get_voices E w) =
      (PDict [(''error'', PStr ''An error occurred while retrieving voices.''), (''details'', PStr e)], 500) \<and>
    tracebacks (snd (get_voices E w)) = tracebacks w @ [e] \<and>
    new_calls w (snd (get_voices E w)) =
      [GetAvailableVoices]"
    by (simp add: run error_envelope_def voices_error_def new_calls_def)
qed

lemma by_language_grouping_raises_500:
  "\<forall>e.
       mm_get_voices_by_language E = Inl e \<longrightarrow>
       fst (get_voices_by_language E w) =
         (PDict [(''error'', PStr ''An error occurred while retrieving voices by language.''), (''details'', PStr e)], 500) \<and>
       tracebacks (snd (get_voices_by_language E w)) = tracebacks w @ [e] \<and>
       new_calls w (snd (get_voices_by_language E w)) =
         [GetVoicesByLanguage]"
proof (intro allI impI)
  fix e
  assume h: "mm_get_voices_by_language E = Inl e"
  note h1 = h
  note run = by_language_grouping_raises [OF h1]
  show "fst (get_voices_by_language E w) =
      (PDict [(''error'', PStr ''An error occurred while retrieving voices by language.''), (''details'', PStr e)], 500) \<and>
    tracebacks (snd (get_voices_by_language E w)) = tracebacks w @ [e] \<and>
    new_calls w (snd (get_voices_by_language E w)) =
      [GetVoicesByLanguage]"
    by (simp add: run error_envelope_def voices_by_language_error_def new_calls_def)
qed

lemma by_language_catalog_raises_500:
  "\<forall>groups e.
       mm_get_voices_by_language E = Inr groups \<and>
       mm_get_available_voices E = Inl e \<longrightarrow>
       fst (get_voices_by_language E w) =
         (PDict [(''error'', PStr ''An error occurred while retrieving voices by language.''), (''details'', PStr e)], 500) \<and>
       tracebacks (snd (get_voices_by_language E w)) = tracebacks w @ [e] \<and>
       new_calls w (snd (get_voices_by_language E w)) =
         [GetVoicesByLanguage,
          GetAvailableVoices]"
proof (intro allI impI)
  fix groups e
  assume h: "mm_get_voices_by_language E = Inr groups \<and>
      mm_get_available_voices E = Inl e"
  note h1 = h [THEN conjunct1]
  note h2 = h [THEN conjunct2]
  note run = by_language_catalog_raises [OF h1 h2]
  show "fst (get_voices_by_language E w) =
      (PDict [(''error'', PStr ''An error occurred while retrieving voices by language.''), (''details'', PStr e)], 500) \<and>
    tracebacks (snd (get_voices_by_language E w)) = tracebacks w @ [e] \<and>
    new_calls w (snd (get_voices_by_language E w)) =
      [GetVoicesByLanguage,
       GetAvailableVoices]"
    by (simp add: run error_envelope_def voices_by_language_error_def new_calls_def)
qed

lemma process_float_raises_500:
  "\<forall>img aud e.
       has_files rq img aud \<and>
       py_float E (form_speed rq) = Inl e \<longrightarrow>
       fst (process_query E rq w) =
         (PDict [(''error'', PStr ''An internal error occurred. Please try again later.''), (''details'', PStr e)], 500) \<and>
       tracebacks (snd (process_query E rq w)) = tracebacks w @ [e] \<and>
       new_calls w (snd (process_query E rq w)) =
         []"
proof (intro allI impI)
  fix img aud e
  assume h: "has_files rq img aud \<and>
      py_float E (form_speed rq) = Inl e"
  note h1 = h [THEN conjunct1]
  note h2 = h [THEN conjunct2]
  note run = process_bad_speed [OF h1 h2]
  show "fst (process_query E rq w) =
      (PDict [(''error'', PStr ''An internal error occurred. Please try again later.''), (''details'', PStr e)], 500) \<and>
    tracebacks (snd (process_query E rq w)) = tracebacks w @ [e] \<and>
    new_calls w (snd (process_query E rq w)) =
      []"
    by (simp add: run error_envelope_def process_error_def new_calls_def)
qed

lemma process_image_save_raises_500:
  "\<forall>img aud requested e.
       has_files rq img aud \<and>
       py_float E (form_speed rq) = Inr requested \<and>
       save_error E (stored_path E (uuid_count w) (filename img)) = Some e \<longrightarrow>
       fst (process_query E rq w) =
         (PDict [(''error'', PStr ''An internal error occurred. Please try again later.''), (''details'', PStr e)], 500) \<and>
       tracebacks (snd (process_query E rq w)) = tracebacks w @ [e] \<and>
       new_calls w (snd (process_query E rq w)) =
         []"
proof (intro allI impI)
  fix img aud requested e
  assume h: "has_files rq img aud \<and>
      py_float E (form_speed rq) = Inr requested \<and>
      save_error E (stored_path E (uuid_count w) (filename img)) = Some e"
  note h1 = h [THEN conjunct1]
  note h2 = h [THEN conjunct2, THEN conjunct1]
  note h3 = h [THEN conjunct2, THEN conjunct2]
  note run = process_image_save_fails [OF h1 h2 h3]
  show "fst (process_query E rq w) =
      (PDict [(''error'', PStr ''An internal error occurred. Please try again later.''), (''details'', PStr e)], 500) \<and>
    tracebacks (snd (process_query E rq w)) = tracebacks w @ [e] \<and>
    new_calls w (snd (process_query E rq w)) =
      []"
    by (simp add: run error_envelope_def process_error_def new_calls_def)
qed

lemma process_audio_save_raises_500:
  "\<forall>img aud requested e.
       has_files rq img aud \<and>
       py_float E (form_speed rq) = Inr requested \<and>
       save_error E (stored_path E (uuid_count w) (filename img)) = None \<and>
       save_error E (stored_path E (Suc (uuid_count w)) (filename aud)) = Some e \<longrightarrow>
       fst (process_query E rq w) =
         (PDict [(''error'', PStr ''An internal error occurred. Please try again later.''), (''details'', PStr e)], 500) \<and>
       tracebacks (snd (process_query E rq w)) = tracebacks w @ [e] \<and>
       new_calls w (snd (process_query E rq w)) =
         []"
proof (intro allI impI)
  fix img aud requested e
  assume h: "has_files rq img aud \<and>
      py_float E (form_speed rq) = Inr requested \<and>
      save_error E (stored_path E (uuid_count w) (filename img)) = None \<and>
      save_error E (stored_path E (Suc (uuid_count w)) (filename aud)) = Some e"
  note h1 = h [THEN conjunct1]
  note h2 = h [THEN conjunct2, THEN conjunct1]
  note h3 = h [THEN conjunct2, THEN conjunct2, THEN conjunct1]
  note h4 = h [THEN conjunct2, THEN conjunct2, THEN conjunct2]
  note run = process_audio_save_fails [OF h1 h2 h3 h4]
  show "fst (process_query E rq w) =
      (PDict [(''error'', PStr ''An internal error occurred. Please try again later.''), (''details'', PStr e)], 500) \<and>
    tracebacks (snd (process_query E rq w)) = tracebacks w @ [e] \<and>
    new_calls w (snd (process_query E rq w)) =
      []"
    by (simp add: run error_envelope_def process_error_def new_calls_def)
qed

lemma process_transcribe_raises_500:
  "\<forall>img aud requested e.
       has_files rq img aud \<and>
       py_float E (form_speed rq) = Inr requested \<and>
       save_error E (stored_path E (uuid_count w) (filename img)) = None \<and>
       save_error E (stored_path E (Suc (uuid_count w)) (filename aud)) = None \<and>
       mm_transcribe_audio E ((disk w)(stored_path E (uuid_count w) (filename img) \<mapsto> content img, stored_path E (Suc (uuid_count w)) (filename aud) \<mapsto> content aud)) (stored_path E (Suc (uuid_count w)) (filename aud)) = Inl e \<longrightarrow>
       fst (process_query E rq w) =
         (PDict [(''error'', PStr ''An internal error occurred. Please try again later.''), (''details'', PStr e)], 500) \<and>
       tracebacks (snd (process_query E rq w)) = tracebacks w @ [e] \<and>
       new_calls w (snd (process_query E rq w)) =
         [TranscribeAudio (stored_path E (Suc (uuid_count w)) (filename aud))]"
proof (intro allI impI)
  fix img aud requested e
  assume h: "has_files rq img aud \<and>
      py_float E (form_speed rq) = Inr requested \<and>
      save_error E (stored_path E (uuid_count w) (filename img)) = None \<and>
      save_error E (stored_path E (Suc (uuid_count w)) (filename aud)) = None \<and>
      mm_transcribe_audio E ((disk w)(stored_path E (uuid_count w) (filename img) \<mapsto> content img, stored_path E (Suc (uuid_count w)) (filename aud) \<mapsto> content aud)) (stored_path E (Suc (uuid_count w)) (filename aud)) = Inl e"
  note h1 = h [THEN conjunct1]
  note h2 = h [THEN conjunct2, THEN conjunct1]
  note h3 = h [THEN conjunct2, THEN conjunct2, THEN conjunct1]
  note h4 = h [THEN conjunct2, THEN conjunct2, THEN conjunct2, THEN conjunct1]
  note h5 = h [THEN conjunct2, THEN conjunct2, THEN conjunct2, THEN conjunct2]
  note run = process_transcribe_raises [OF h1 h2 refl refl h3 h4 refl h5]
  show "fst (process_query E rq w) =
      (PDict [(''error'', PStr ''An internal error occurred. Please try again later.''), (''details'', PStr e)], 500) \<and>
    tracebacks (snd (process_query E rq w)) = tracebacks w @ [e] \<and>
    new_calls w (snd (process_query E rq w)) =
      [TranscribeAudio (stored_path E (Suc (uuid_count w)) (filename aud))]"
    by (simp add: run error_envelope_def process_error_def new_calls_def)
qed

lemma process_answer_raises_500:
  "\<forall>img aud requested t e.
       has_files rq img aud \<and>
       py_float E (form_speed rq) = Inr requested \<and>
       save_error E (stored_path E (uuid_count w) (filename img)) = None \<and>
       save_error E (stored_path E (Suc (uuid_count w)) (filename aud)) = None \<and>
       mm_transcribe_audio E ((disk w)(stored_path E (uuid_count w) (filename img) \<mapsto> content img, stored_path E (Suc (uuid_count w)) (filename aud) \<mapsto> content aud)) (stored_path E (Suc (uuid_count w)) (filename aud)) = Inr t \<and>
       mm_process_image_and_query E ((disk w)(stored_path E (uuid_count w) (filename img) \<mapsto> content img, stored_path E (Suc (uuid_count w)) (filename aud) \<mapsto> content aud)) (stored_path E (uuid_count w) (filename img)) t = Inl e \<longrightarrow>
       fst (process_query E rq w) =
         (PDict [(''error'', PStr ''An internal error occurred. Please try again later.''), (''details'', PStr e)], 500) \<and>
       tracebacks (snd (process_query E rq w)) = tracebacks w @ [e] \<and>
       new_calls w (snd (process_query E rq w)) =
         [TranscribeAudio (stored_path E (Suc (uuid_count w)) (filename aud)),
          ProcessImageAndQuery (stored_path E (uuid_count w) (filename img)) t]"
proof (intro allI impI)
  fix img aud requested t e
  assume h: "has_files rq img aud \<and>
      py_float E (form_speed rq) = Inr requested \<and>
      save_error E (stored_path E (uuid_count w) (filename img)) = None \<and>
      save_error E (stored_path E (Suc (uuid_count w)) (filename aud)) = None \<and>
      mm_transcribe_audio E ((disk w)(stored_path E (uuid_count w) (filename img) \<mapsto> content img, stored_path E (Suc (uuid_count w)) (filename aud) \<mapsto> content aud)) (stored_path E (Suc (uuid_count w)) (filename aud)) = Inr t \<and>
      mm_process_image_and_query E ((disk w)(stored_path E (uuid_count w) (filename img) \<mapsto> content img, stored_path E (Suc (uuid_count w)) (filename aud) \<mapsto> content aud)) (stored_path E (uuid_count w) (filename img)) t = Inl e"
  note h1 = h [THEN conjunct1]
  note h2 = h [THEN conjunct2, THEN conjunct1]
  note h3 = h [THEN conjunct2, THEN conjunct2, THEN conjunct1]
  note h4 = h [THEN conjunct2, THEN conjunct2, THEN conjunct2, THEN conjunct1]
  note h5 = h [THEN conjunct2, THEN conjunct2, THEN conjunct2, THEN conjunct2, THEN conjunct1]
  note h6 = h [THEN conjunct2, THEN conjunct2, THEN conjunct2, THEN conjunct2, THEN conjunct2]
  note run = process_answer_raises [OF h1 h2 refl refl h3 h4 refl h5 h6]
  show "fst (process_query E rq w) =
      (PDict [(''error'', PStr ''An internal error occurred. Please try again later.''), (''details'', PStr e)], 500) \<and>
    tracebacks (snd (process_query E rq w)) = tracebacks w @ [e] \<and>
    new_calls w (snd (process_query E rq w)) =
      [TranscribeAudio (stored_path E (Suc (uuid_count w)) (filename aud)),
       ProcessImageAndQuery (stored_path E (uuid_count w) (filename img)) t]"
    by (simp add: run error_envelope_def process_error_def new_calls_def)
qed

lemma process_synthesis_raises_500:
  "\<forall>img aud requested t r e d'.
       has_files rq img aud \<and>
       py_float E (form_speed rq) = Inr requested \<and>
       save_error E (stored_path E (uuid_count w) (filename img)) = None \<and>
       save_error E (stored_path E (Suc (uuid_count w)) (filename aud)) = None \<and>
       mm_transcribe_audio E ((disk w)(stored_path E (uuid_count w) (filename img) \<mapsto> content img, stored_path E (Suc (uuid_count w)) (filename aud) \<mapsto> content aud)) (stored_path E (Suc (uuid_count w)) (filename aud)) = Inr t \<and>
       mm_process_image_and_query E ((disk w)(stored_path E (uuid_count w) (filename img) \<mapsto> content img, stored_path E (Suc (uuid_count w)) (filename aud) \<mapsto> content aud)) (stored_path E (uuid_count w) (filename img)) t = Inr r \<and>
       mm_text_to_speech E ((disk w)(stored_path E (uuid_count w) (filename img) \<mapsto> content img, stored_path E (Suc (uuid_count w)) (filename aud) \<mapsto> content aud)) (PStr r) (PStr (form_voice rq)) (if form_high_performance rq then py_max requested speed_floor else requested) = (Inl e, d') \<longrightarrow>
       fst (process_query E rq w) =
         (PDict [(''error'', PStr ''An internal error occurred. Please try again later.''), (''details'', PStr e)], 500) \<and>
       tracebacks (snd (process_query E rq w)) = tracebacks w @ [e] \<and>
       new_calls w (snd (process_query E rq w)) =
         [TranscribeAudio (stored_path E (Suc (uuid_count w)) (filename aud)),
          ProcessImageAndQuery (stored_path E (uuid_count w) (filename img)) t,
          TextToSpeech (PStr r) (PStr (form_voice rq)) (if form_high_performance rq then py_max requested speed_floor else requested)]"
proof (intro allI impI)
  fix img aud requested t r e d'
  assume h: "has_files rq img aud \<and>
      py_float E (form_speed rq) = Inr requested \<and>
      save_error E (stored_path E (uuid_count w) (filename img)) = None \<and>
      save_error E (stored_path E (Suc (uuid_count w)) (filename aud)) = None \<and>
      mm_transcribe_audio E ((disk w)(stored_path E (uuid_count w) (filename img) \<mapsto> content img, stored_path E (Suc (uuid_count w)) (filename aud) \<mapsto> content aud)) (stored_path E (Suc (uuid_count w)) (filename aud)) = Inr t \<and>
      mm_process_image_and_query E ((disk w)(stored_path E (uuid_count w) (filename img) \<mapsto> content img, stored_path E (Suc (uuid_count w)) (filename aud) \<mapsto> content aud)) (stored_path E (uuid_count w) (filename img)) t = Inr r \<and>
      mm_text_to_speech E ((disk w)(stored_path E (uuid_count w) (filename img) \<mapsto> content img, stored_path E (Suc (uuid_count w)) (filename aud) \<mapsto> content aud)) (PStr r) (PStr (form_voice rq)) (if form_high_performance rq then py_max requested speed_floor else requested) = (Inl e, d')"
  note h1 = h [THEN conjunct1]
  note h2 = h [THEN conjunct2, THEN conjunct1]
  note h3 = h [THEN conjunct2, THEN conjunct2, THEN conjunct1]
  note h4 = h [THEN conjunct2, THEN conjunct2, THEN conjunct2, THEN conjunct1]
  note h5 = h [THEN conjunct2, THEN conjunct2, THEN conjunct2, THEN conjunct2, THEN conjunct1]
  note h6 = h [THEN conjunct2, THEN conjunct2, THEN conjunct2, THEN conjunct2, THEN conjunct2, THEN conjunct1]
  note h7 = h [THEN conjunct2, THEN conjunct2, THEN conjunct2, THEN conjunct2, THEN conjunct2, THEN conjunct2]
  note run = process_synthesis_raises [OF h1 h2 refl refl h3 h4 refl h5 h6 refl h7]
  show "fst (process_query E rq w) =
      (PDict [(''error'', PStr ''An internal error occurred. Please try again later.''), (''details'', PStr e)], 500) \<and>
    tracebacks (snd (process_query E rq w)) = tracebacks w @ [e] \<and>
    new_calls w (snd (process_query E rq w)) =
      [TranscribeAudio (stored_path E (Suc (uuid_count w)) (filename aud)),
       ProcessImageAndQuery (stored_path E (uuid_count w) (filename img)) t,
       TextToSpeech (PStr r) (PStr (form_voice rq)) (if form_high_performance rq then py_max requested speed_floor else requested)]"
    by (simp add: run error_envelope_def process_error_def new_calls_def)
qed

lemma transcribe_audio_raises_or_not:
  "tracebacks (snd (transcribe_audio E rq w)) = tracebacks w \<or>
    (\<exists>e. tracebacks (snd (transcribe_audio E rq w)) = tracebacks w @ [e] \<and>
         fst (transcribe_audio E rq w) =
           (PDict [(''error'', PStr ''An error occurred during transcription.''), (''details'', PStr e)], 500))"
  by (cases rule: transcribe_audio_cases [of rq E w])
     (simp_all add: error_envelope_def transcribe_error_def)

lemma generate_response_raises_or_not:
  "tracebacks (snd (generate_response E rq w)) = tracebacks w \<or>
    (\<exists>e. tracebacks (snd (generate_response E rq w)) = tracebacks w @ [e] \<and>
         fst (generate_response E rq w) =
           (PDict [(''error'', PStr ''An error occurred while generating the response.''), (''details'', PStr e)], 500))"
  by (cases rule: generate_response_cases [of rq E w])
     (simp_all add: error_envelope_def generate_error_def)

lemma text_to_speech_raises_or_not:
  "tracebacks (snd (text_to_speech E rq w)) = tracebacks w \<or>
    (\<exists>e. tracebacks (snd (text_to_speech E rq w)) = tracebacks w @ [e] \<and>
         fst (text_to_speech E rq w) =
           (PDict [(''error'', PStr ''An error occurred during text-to-speech conversion.''), (''details'', PStr e)], 500))"
  by (cases rule: text_to_speech_cases [of rq E w])
     (simp_all add: error_envelope_def tts_error_def)

lemma get_voices_raises_or_not:
  "tracebacks (snd (get_voices E w)) = tracebacks w \<or>
    (\<exists>e. tracebacks (snd (get_voices E w)) = tracebacks w @ [e] \<and>
         fst (get_voices E w) =
           (PDict [(''error'', PStr ''An error occurred while retrieving voices.''), (''details'', PStr e)], 500))"
  by (cases "mm_get_available_voices E")
     (simp_all add: get_voices_raises get_voices_succeeds error_envelope_def voices_error_def)

lemma get_voices_by_language_raises_or_not:
  "tracebacks (snd (get_voices_by_language E w)) = tracebacks w \<or>
    (\<exists>e. tracebacks (snd (get_voices_by_language E w)) = tracebacks w @ [e] \<and>
         fst (get_voices_by_language E w) =
           (PDict [(''error'', PStr ''An error occurred while retrieving voices by language.''), (''details'', PStr e)], 500))"
  by (cases "mm_get_voices_by_language E"; cases "mm_get_available_voices E")
     (simp_all add: by_language_grouping_raises by_language_catalog_raises by_language_succeeds
        error_envelope_def voices_by_language_error_def)

lemma process_query_raises_or_not:
  "tracebacks (snd (process_query E rq w)) = tracebacks w \<or>
    (\<exists>e. tracebacks (snd (process_query E rq w)) = tracebacks w @ [e] \<and>
         fst (process_query E rq w) =
           (PDict [(''error'', PStr ''An internal error occurred. Please try again later.''), (''details'', PStr e)], 500))"
  by (cases rule: process_query_cases [of rq E w])
     (simp_all add: error_envelope_def process_error_def)

text \<open>
  C7. Every operation of a handler body that can raise is caught at the handler boundary.
  For each of them -- \<open>request.json\<close>, \<open>data.get\<close> on a body that is no
  dictionary, \<open>float\<close> on the speed, \<open>FileStorage.save\<close> of an upload, and each
  call of the Capability Delegate -- in each of the six handlers with a \<open>try\<close> block:
  when the operation raises \<open>e\<close>, the handler answers status 500 with the body
  \<open>{error: <the handler's fixed message>, details: str(e)}\<close>, the trace of \<open>e\<close> is
  the one thing printed, and the delegate calls made are exactly those before and including
  the raising one, so nothing runs after the failure and nothing is tried again.
  Conversely every run of a handler either prints no trace, or prints exactly one and answers
  that envelope for it: a handler always returns a response. In no run is an operation of the
  delegate called twice.
\<close>

theorem exceptions_become_error_envelopes:
  "(\<forall>aud e.
      files rq ''audio'' = Some aud \<and>
      filename aud \<noteq> [] \<and>
      save_error E (stored_path E (uuid_count w) (filename aud)) = Some e \<longrightarrow>
      fst (transcribe_audio E rq w) =
        (PDict [(''error'', PStr ''An error occurred during transcription.''), (''details'', PStr e)], 500) \<and>
      tracebacks (snd (transcribe_audio E rq w)) = tracebacks w @ [e] \<and>
      new_calls w (snd (transcribe_audio E rq w)) =
        []) \<and>
   (\<forall>aud e.
      files rq ''audio'' = Some aud \<and>
      filename aud \<noteq> [] \<and>
      save_error E (stored_path E (uuid_count w) (filename aud)) = None \<and>
      mm_transcribe_audio E ((disk w)(stored_path E (uuid_count w) (filename aud) \<mapsto> content aud)) (stored_path E (uuid_count w) (filename aud)) = Inl e \<longrightarrow>
      fst (transcribe_audio E rq w) =
        (PDict [(''error'', PStr ''An error occurred during transcription.''), (''details'', PStr e)], 500) \<and>
      tracebacks (snd (transcribe_audio E rq w)) = tracebacks w @ [e] \<and>
      new_calls w (snd (transcribe_audio E rq w)) =
        [TranscribeAudio (stored_path E (uuid_count w) (filename aud))]) \<and>
   (\<forall>image_path query e.
      form rq ''image_path'' = Some image_path \<and>
      image_path \<noteq> [] \<and>
      form rq ''query'' = Some query \<and>
      query \<noteq> [] \<and>
      mm_process_image_and_query E (disk w) image_path query = Inl e \<longrightarrow>
      fst (generate_response E rq w) =
        (PDict [(''error'', PStr ''An error occurred while generating the response.''), (''details'', PStr e)], 500) \<and>
      tracebacks (snd (generate_response E rq w)) = tracebacks w @ [e] \<and>
      new_calls w (snd (generate_response E rq w)) =
        [ProcessImageAndQuery image_path query]) \<and>
   (\<forall>e.
      json rq = Inl e \<longrightarrow>
      fst (text_to_speech E rq w) =
        (PDict [(''error'', PStr ''An error occurred during text-to-speech conversion.''), (''details'', PStr e)], 500) \<and>
      tracebacks (snd (text_to_speech E rq w)) = tracebacks w @ [e] \<and>
      new_calls w (snd (text_to_speech E rq w)) =
        []) \<and>
   (\<forall>data.
      json rq = Inr data \<and>
      (\<forall>kvs. data \<noteq> PDict kvs) \<longrightarrow>
      fst (text_to_speech E rq w) =
        (PDict [(''error'', PStr ''An error occurred during text-to-speech conversion.''), (''details'', PStr (no_attribute_get data))], 500) \<and>
      tracebacks (snd (text_to_speech E rq w)) = tracebacks w @ [(no_attribute_get data)] \<and>
      new_calls w (snd (text_to_speech E rq w)) =
        []) \<and>
   (\<forall>kvs e.
      json rq = Inr (PDict kvs) \<and>
      py_float E (dict_get kvs ''speed'' (PFloat (Fin 1))) = Inl e \<longrightarrow>
      fst (text_to_speech E rq w) =
        (PDict [(''error'', PStr ''An error occurred during text-to-speech conversion.''), (''details'', PStr e)], 500) \<and>
      tracebacks (snd (text_to_speech E rq w)) = tracebacks w @ [e] \<and>
      new_calls w (snd (text_to_speech E rq w)) =
        []) \<and>
   (\<forall>kvs requested e d'.
      json rq = Inr (PDict kvs) \<and>
      py_float E (dict_get kvs ''speed'' (PFloat (Fin 1))) = Inr requested \<and>
      truthy (dict_get kvs ''text'' PNone) \<and>
      mm_text_to_speech E (disk w) (dict_get kvs ''text'' PNone) (dict_get kvs ''voice'' (PStr ''af_heart'')) (json_speed kvs requested) = (Inl e, d') \<longrightarrow>
      fst (text_to_speech E rq w) =
        (PDict [(''error'', PStr ''An error occurred during text-to-speech conversion.''), (''details'', PStr e)], 500) \<and>
      tracebacks (snd (text_to_speech E rq w)) = tracebacks w @ [e] \<and>
      new_calls w (snd (text_to_speech E rq w)) =
        [TextToSpeech (dict_get kvs ''text'' PNone) (dict_get kvs ''voice'' (PStr ''af_heart'')) (json_speed kvs requested)]) \<and>
   (\<forall>e.
      mm_get_available_voices E = Inl e \<longrightarrow>
      fst (get_voices E w) =
        (PDict [(''error'', PStr ''An error occurred while retrieving voices.''), (''details'', PStr e)], 500) \<and>
      tracebacks (snd (get_voices E w)) = tracebacks w @ [e] \<and>
      new_calls w (snd (get_voices E w)) =
        [GetAvailableVoices]) \<and>
   (\<forall>e.
      mm_get_voices_by_language E = Inl e \<longrightarrow>
      fst (get_voices_by_language E w) =
        (PDict [(''error'', PStr ''An error occurred while retrieving voices by language.''), (''details'', PStr e)], 500) \<and>
      tracebacks (snd (get_voices_by_language E w)) = tracebacks w @ [e] \<and>
      new_calls w (snd (get_voices_by_language E w)) =
        [GetVoicesByLanguage]) \<and>
   (\<forall>groups e.
      mm_get_voices_by_language E = Inr groups \<and>
      mm_get_available_voices E = Inl e \<longrightarrow>
      fst (get_voices_by_language E w) =
        (PDict [(''error'', PStr ''An error occurred while retrieving voices by language.''), (''details'', PStr e)], 500) \<and>
      tracebacks (snd (get_voices_by_language E w)) = tracebacks w @ [e] \<and>
      new_calls w (snd (get_voices_by_language E w)) =
        [GetVoicesByLanguage,
         GetAvailableVoices]) \<and>
   (\<forall>img aud e.
      has_files rq img aud \<and>
      py_float E (form_speed rq) = Inl e \<longrightarrow>
      fst (process_query E rq w) =
        (PDict [(''error'', PStr ''An internal error occurred. Please try again later.''), (''details'', PStr e)], 500) \<and>
      tracebacks (snd (process_query E rq w)) = tracebacks w @ [e] \<and>
      new_calls w (snd (process_query E rq w)) =
        []) \<and>
   (\<forall>img aud requested e.
      has_files rq img aud \<and>
      py_float E (form_speed rq) = Inr requested \<and>
      save_error E (stored_path E (uuid_count w) (filename img)) = Some e \<longrightarrow>
      fst (process_query E rq w) =
        (PDict [(''error'', PStr ''An internal error occurred. Please try again later.''), (''details'', PStr e)], 500) \<and>
      tracebacks (snd (process_query E rq w)) = tracebacks w @ [e] \<and>
      new_calls w (snd (process_query E rq w)) =
        []) \<and>
   (\<forall>img aud requested e.
      has_files rq img aud \<and>
      py_float E (form_speed rq) = Inr requested \<and>
      save_error E (stored_path E (uuid_count w) (filename img)) = None \<and>
      save_error E (stored_path E (Suc (uuid_count w)) (filename aud)) = Some e \<longrightarrow>
      fst (process_query E rq w) =
        (PDict [(''error'', PStr ''An internal error occurred. Please try again later.''), (''details'', PStr e)], 500) \<and>
      tracebacks (snd (process_query E rq w)) = tracebacks w @ [e] \<and>
      new_calls w (snd (process_query E rq w)) =
        []) \<and>
   (\<forall>img aud requested e.
      has_files rq img aud \<and>
      py_float E (form_speed rq) = Inr requested \<and>
      save_error E (stored_path E (uuid_count w) (filename img)) = None \<and>
      save_error E (stored_path E (Suc (uuid_count w)) (filename aud)) = None \<and>
      mm_transcribe_audio E ((disk w)(stored_path E (uuid_count w) (filename img) \<mapsto> content img, stored_path E (Suc (uuid_count w)) (filename aud) \<mapsto> content aud)) (stored_path E (Suc (uuid_count w)) (filename aud)) = Inl e \<longrightarrow>
      fst (process_query E rq w) =
        (PDict [(''error'', PStr ''An internal error occurred. Please try again later.''), (''details'', PStr e)], 500) \<and>
      tracebacks (snd (process_query E rq w)) = tracebacks w @ [e] \<and>
      new_calls w (snd (process_query E rq w)) =
        [TranscribeAudio (stored_path E (Suc (uuid_count w)) (filename aud))]) \<and>
   (\<forall>img aud requested t e.
      has_files rq img aud \<and>
      py_float E (form_speed rq) = Inr requested \<and>
      save_error E (stored_path E (uuid_count w) (filename img)) = None \<and>
      save_error E (stored_path E (Suc (uuid_count w)) (filename aud)) = None \<and>
      mm_transcribe_audio E ((disk w)(stored_path E (uuid_count w) (filename img) \<mapsto> content img, stored_path E (Suc (uuid_count w)) (filename aud) \<mapsto> content aud)) (stored_path E (Suc (uuid_count w)) (filename aud)) = Inr t \<and>
      mm_process_image_and_query E ((disk w)(stored_path E (uuid_count w) (filename img) \<mapsto> content img, stored_path E (Suc (uuid_count w)) (filename aud) \<mapsto> content aud)) (stored_path E (uuid_count w) (filename img)) t = Inl e \<longrightarrow>
      fst (process_query E rq w) =
        (PDict [(''error'', PStr ''An internal error occurred. Please try again later.''), (''details'', PStr e)], 500) \<and>
      tracebacks (snd (process_query E rq w)) = tracebacks w @ [e] \<and>
      new_calls w (snd (process_query E rq w)) =
        [TranscribeAudio (stored_path E (Suc (uuid_count w)) (filename aud)),
         ProcessImageAndQuery (stored_path E (uuid_count w) (filename img)) t]) \<and>
   (\<forall>img aud requested t r e d'.
      has_files rq img aud \<and>
      py_float E (form_speed rq) = Inr requested \<and>
      save_error E (stored_path E (uuid_count w) (filename img)) = None \<and>
      save_error E (stored_path E (Suc (uuid_count w)) (filename aud)) = None \<and>
      mm_transcribe_audio E ((disk w)(stored_path E (uuid_count w) (filename img) \<mapsto> content img, stored_path E (Suc (uuid_count w)) (filename aud) \<mapsto> content aud)) (stored_path E (Suc (uuid_count w)) (filename aud)) = Inr t \<and>
      mm_process_image_and_query E ((disk w)(stored_path E (uuid_count w) (filename img) \<mapsto> content img, stored_path E (Suc (uuid_count w)) (filename aud) \<mapsto> content aud)) (stored_path E (uuid_count w) (filename img)) t = Inr r \<and>
      mm_text_to_speech E ((disk w)(stored_path E (uuid_count w) (filename img) \<mapsto> content img, stored_path E (Suc (uuid_count w)) (filename aud) \<mapsto> content aud)) (PStr r) (PStr (form_voice rq)) (if form_high_performance rq then py_max requested speed_floor else requested) = (Inl e, d') \<longrightarrow>
      fst (process_query E rq w) =
        (PDict [(''error'', PStr ''An internal error occurred. Please try again later.''), (''details'', PStr e)], 500) \<and>
      tracebacks (snd (process_query E rq w)) = tracebacks w @ [e] \<and>
      new_calls w (snd (process_query E rq w)) =
        [TranscribeAudio (stored_path E (Suc (uuid_count w)) (filename aud)),
         ProcessImageAndQuery (stored_path E (uuid_count w) (filename img)) t,
         TextToSpeech (PStr r) (PStr (form_voice rq)) (if form_high_performance rq then py_max requested speed_floor else requested)]) \<and>
   (tracebacks (snd (transcribe_audio E rq w)) = tracebacks w \<or>
    (\<exists>e. tracebacks (snd (transcribe_audio E rq w)) = tracebacks w @ [e] \<and>
         fst (transcribe_audio E rq w) =
           (PDict [(''error'', PStr ''An error occurred during transcription.''), (''details'', PStr e)], 500))) \<and>
   (tracebacks (snd (generate_response E rq w)) = tracebacks w \<or>
    (\<exists>e. tracebacks (snd (generate_response E rq w)) = tracebacks w @ [e] \<and>
         fst (generate_response E rq w) =
           (PDict [(''error'', PStr ''An error occurred while generating the response.''), (''details'', PStr e)], 500))) \<and>
   (tracebacks (snd (text_to_speech E rq w)) = tracebacks w \<or>
    (\<exists>e. tracebacks (snd (text_to_speech E rq w)) = tracebacks w @ [e] \<and>
         fst (text_to_speech E rq w) =
           (PDict [(''error'', PStr ''An error occurred during text-to-speech conversion.''), (''details'', PStr e)], 500))) \<and>
   (tracebacks (snd (get_voices E w)) = tracebacks w \<or>
    (\<exists>e. tracebacks (snd (get_voices E w)) = tracebacks w @ [e] \<and>
         fst (get_voices E w) =
           (PDict [(''error'', PStr ''An error occurred while retrieving voices.''), (''details'', PStr e)], 500))) \<and>
   (tracebacks (snd (get_voices_by_language E w)) = tracebacks w \<or>
    (\<exists>e. tracebacks (snd (get_voices_by_language E w)) = tracebacks w @ [e] \<and>
         fst (get_voices_by_language E w) =
           (PDict [(''error'', PStr ''An error occurred while retrieving voices by language.''), (''details'', PStr e)], 500))) \<and>
   (tracebacks (snd (process_query E rq w)) = tracebacks w \<or>
    (\<exists>e. tracebacks (snd (process_query E rq w)) = tracebacks w @ [e] \<and>
         fst (process_query E rq w) =
           (PDict [(''error'', PStr ''An internal error occurred. Please try again later.''), (''details'', PStr e)], 500))) \<and>
   distinct (map op_name (new_calls w (snd (transcribe_audio E rq w)))) \<and>
   distinct (map op_name (new_calls w (snd (generate_response E rq w)))) \<and>
   distinct (map op_name (new_calls w (snd (text_to_speech E rq w)))) \<and>
   distinct (map op_name (new_calls w (snd (get_voices E w)))) \<and>
   distinct (map op_name (new_calls w (snd (get_voices_by_language E w)))) \<and>
   distinct (map op_name (new_calls w (snd (process_query E rq w))))"
  by (intro conjI)
     (rule transcribe_save_raises_500
        transcribe_delegate_raises_500
        generate_delegate_raises_500
        tts_json_raises_500
        tts_get_raises_500
        tts_float_raises_500
        tts_delegate_raises_500
        voices_delegate_raises_500
        by_language_grouping_raises_500
        by_language_catalog_raises_500
        process_float_raises_500
        process_image_save_raises_500
        process_audio_save_raises_500
        process_transcribe_raises_500
        process_answer_raises_500
        process_synthesis_raises_500
        transcribe_audio_raises_or_not
        generate_response_raises_or_not
        text_to_speech_raises_or_not
        get_voices_raises_or_not
        get_voices_by_language_raises_or_not
        process_query_raises_or_not
        distinct_op_names_transcribe
        distinct_op_names_generate
        distinct_op_names_tts
        distinct_op_names_voices
        distinct_op_names_by_language
        distinct_op_names_process)+

theorem exceptions_become_error_envelopes_witness:
  "mm_transcribe_audio deaf_env ((disk empty_world)(stored_path deaf_env (uuid_count empty_world) (filename \<lparr>filename = ''question.wav'', content = ''RIFF''\<rparr>) \<mapsto> content \<lparr>filename = ''question.wav'', content = ''RIFF''\<rparr>)) (stored_path deaf_env (uuid_count empty_world) (filename \<lparr>filename = ''question.wav'', content = ''RIFF''\<rparr>)) = Inl ''model not loaded'' \<and>
   fst (transcribe_audio deaf_env audio_only empty_world) =
     (PDict [(''error'', PStr ''An error occurred during transcription.''), (''details'', PStr ''model not loaded'')], 500) \<and>
   tracebacks (snd (transcribe_audio deaf_env audio_only empty_world)) = [''model not loaded''] \<and>
   new_calls empty_world (snd (transcribe_audio deaf_env audio_only empty_world)) =
     [TranscribeAudio (stored_path deaf_env 0 ''question.wav'')] \<and>
   mm_process_image_and_query blind_env (disk empty_world) ''app/uploads/cat.png'' ''what is this'' = Inl ''quota exceeded'' \<and>
   fst (generate_response blind_env ask_request empty_world) =
     (PDict [(''error'', PStr ''An error occurred while generating the response.''), (''details'', PStr ''quota exceeded'')], 500) \<and>
   tracebacks (snd (generate_response blind_env ask_request empty_world)) = [''quota exceeded''] \<and>
   new_calls empty_world (snd (generate_response blind_env ask_request empty_world)) =
     [ProcessImageAndQuery ''app/uploads/cat.png'' ''what is this''] \<and>
   json audio_only = Inl ''415 Unsupported Media Type'' \<and>
   fst (text_to_speech example_env audio_only empty_world) =
     (PDict [(''error'', PStr ''An error occurred during text-to-speech conversion.''), (''details'', PStr ''415 Unsupported Media Type'')], 500) \<and>
   tracebacks (snd (text_to_speech example_env audio_only empty_world)) = [''415 Unsupported Media Type''] \<and>
   new_calls empty_world (snd (text_to_speech example_env audio_only empty_world)) =
     [] \<and>
   py_float example_env (dict_get fast_no_text ''speed'' (PFloat (Fin 1))) = Inl (''could not convert string to float: '' @ [CHR 0x27] @ ''fast'' @ [CHR 0x27]) \<and>
   fst (text_to_speech example_env (json_request (PDict fast_no_text)) empty_world) =
     (PDict [(''error'', PStr ''An error occurred during text-to-speech conversion.''), (''details'', PStr (''could not convert string to float: '' @ [CHR 0x27] @ ''fast'' @ [CHR 0x27]))], 500) \<and>
   tracebacks (snd (text_to_speech example_env (json_request (PDict fast_no_text)) empty_world)) = [(''could not convert string to float: '' @ [CHR 0x27] @ ''fast'' @ [CHR 0x27])] \<and>
   new_calls empty_world (snd (text_to_speech example_env (json_request (PDict fast_no_text)) empty_world)) =
     [] \<and>
   mm_get_available_voices voiceless_env = Inl ''catalog unavailable'' \<and>
   fst (get_voices voiceless_env empty_world) =
     (PDict [(''error'', PStr ''An error occurred while retrieving voices.''), (''details'', PStr ''catalog unavailable'')], 500) \<and>
   tracebacks (snd (get_voices voiceless_env empty_world)) = [''catalog unavailable''] \<and>
   new_calls empty_world (snd (get_voices voiceless_env empty_world)) =
     [GetAvailableVoices] \<and>
   mm_get_voices_by_language voiceless_env = Inr (voices_by_language_of example_catalog) \<and>
   fst (get_voices_by_language voiceless_env empty_world) =
     (PDict [(''error'', PStr ''An error occurred while retrieving voices by language.''), (''details'', PStr ''catalog unavailable'')], 500) \<and>
   tracebacks (snd (get_voices_by_language voiceless_env empty_world)) = [''catalog unavailable''] \<and>
   new_calls empty_world (snd (get_voices_by_language voiceless_env empty_world)) =
     [GetVoicesByLanguage,
        GetAvailableVoices] \<and>
   save_error full_disk_env (stored_path full_disk_env (uuid_count empty_world) (filename \<lparr>filename = ''cat.png'', content = ''PNG''\<rparr>)) = Some ''No space left on device'' \<and>
   fst (process_query full_disk_env (upload_request two_uploads Map.empty) empty_world) =
     (PDict [(''error'', PStr ''An internal error occurred. Please try again later.''), (''details'', PStr ''No space left on device'')], 500) \<and>
   tracebacks (snd (process_query full_disk_env (upload_request two_uploads Map.empty) empty_world)) = [''No space left on device''] \<and>
   new_calls empty_world (snd (process_query full_disk_env (upload_request two_uploads Map.empty) empty_world)) =
     [] \<and>
   mm_process_image_and_query blind_env ((disk empty_world)(stored_path blind_env (uuid_count empty_world) (filename \<lparr>filename = ''cat.png'', content = ''PNG''\<rparr>) \<mapsto> content \<lparr>filename = ''cat.png'', content = ''PNG''\<rparr>, stored_path blind_env (Suc (uuid_count empty_world)) (filename \<lparr>filename = ''question.wav'', content = ''RIFF''\<rparr>) \<mapsto> content \<lparr>filename = ''question.wav'', content = ''RIFF''\<rparr>)) (stored_path blind_env (uuid_count empty_world) (filename \<lparr>filename = ''cat.png'', content = ''PNG''\<rparr>)) ''what is this'' = Inl ''quota exceeded'' \<and>
   fst (process_query blind_env (upload_request two_uploads Map.empty) empty_world) =
     (PDict [(''error'', PStr ''An internal error occurred. Please try again later.''), (''details'', PStr ''quota exceeded'')], 500) \<and>
   tracebacks (snd (process_query blind_env (upload_request two_uploads Map.empty) empty_world)) = [''quota exceeded''] \<and>
   new_calls empty_world (snd (process_query blind_env (upload_request two_uploads Map.empty) empty_world)) =
     [TranscribeAudio (stored_path blind_env (Suc 0) ''question.wav''),
        ProcessImageAndQuery (stored_path blind_env 0 ''cat.png'') ''what is this'']"
proof -
  note main = exceptions_become_error_envelopes
  have a_h:
    "files audio_only ''audio'' = Some \<lparr>filename = ''question.wav'', content = ''RIFF''\<rparr>"
    "filename \<lparr>filename = ''question.wav'', content = ''RIFF''\<rparr> \<noteq> []"
    "save_error deaf_env (stored_path deaf_env (uuid_count empty_world) (filename \<lparr>filename = ''question.wav'', content = ''RIFF''\<rparr>)) = None"
    "mm_transcribe_audio deaf_env ((disk empty_world)(stored_path deaf_env (uuid_count empty_world) (filename \<lparr>filename = ''question.wav'', content = ''RIFF''\<rparr>) \<mapsto> content \<lparr>filename = ''question.wav'', content = ''RIFF''\<rparr>)) (stored_path deaf_env (uuid_count empty_world) (filename \<lparr>filename = ''question.wav'', content = ''RIFF''\<rparr>)) = Inl ''model not loaded''"
    by (simp_all add: audio_only_def upload_request_def deaf_env_def example_env_def)
  note a = main [where E = deaf_env and w = empty_world and rq = "audio_only",
      THEN conjunct2, THEN conjunct1, rule_format,
      OF conjI [OF a_h(1) conjI [OF a_h(2) conjI [OF a_h(3) a_h(4)]]]]
  have a_r:
    "fst (transcribe_audio deaf_env audio_only empty_world) =
     (PDict [(''error'', PStr ''An error occurred during transcription.''), (''details'', PStr ''model not loaded'')], 500)"
    "tracebacks (snd (transcribe_audio deaf_env audio_only empty_world)) = [''model not loaded'']"
    "new_calls empty_world (snd (transcribe_audio deaf_env audio_only empty_world)) =
     [TranscribeAudio (stored_path deaf_env 0 ''question.wav'')]"
    using a by (simp_all add: empty_world_def)
  have b_h:
    "form ask_request ''image_path'' = Some ''app/uploads/cat.png''"
    "''app/uploads/cat.png'' \<noteq> []"
    "form ask_request ''query'' = Some ''what is this''"
    "''what is this'' \<noteq> []"
    "mm_process_image_and_query blind_env (disk empty_world) ''app/uploads/cat.png'' ''what is this'' = Inl ''quota exceeded''"
    by (simp_all add: ask_request_def upload_request_def blind_env_def)
  note b = main [where E = blind_env and w = empty_world and rq = "ask_request",
      THEN conjunct2, THEN conjunct2, THEN conjunct1, rule_format,
      OF conjI [OF b_h(1) conjI [OF b_h(2) conjI [OF b_h(3) conjI [OF b_h(4) b_h(5)]]]]]
  have b_r:
    "fst (generate_response blind_env ask_request empty_world) =
     (PDict [(''error'', PStr ''An error occurred while generating the response.''), (''details'', PStr ''quota exceeded'')], 500)"
    "tracebacks (snd (generate_response blind_env ask_request empty_world)) = [''quota exceeded'']"
    "new_calls empty_world (snd (generate_response blind_env ask_request empty_world)) =
     [ProcessImageAndQuery ''app/uploads/cat.png'' ''what is this'']"
    using b by (simp_all add: empty_world_def)
  have c_h:
    "json audio_only = Inl ''415 Unsupported Media Type''"
    by (simp_all add: audio_only_def upload_request_def)
  note c = main [where E = example_env and w = empty_world and rq = "audio_only",
      THEN conjunct2, THEN conjunct2, THEN conjunct2, THEN conjunct1, rule_format,
      OF c_h]
  have c_r:
    "fst (text_to_speech example_env audio_only empty_world) =
     (PDict [(''error'', PStr ''An error occurred during text-to-speech conversion.''), (''details'', PStr ''415 Unsupported Media Type'')], 500)"
    "tracebacks (snd (text_to_speech example_env audio_only empty_world)) = [''415 Unsupported Media Type'']"
    "new_calls empty_world (snd (text_to_speech example_env audio_only empty_world)) =
     []"
    using c by (simp_all add: empty_world_def)
  have d_h:
    "json (json_request (PDict fast_no_text)) = Inr (PDict fast_no_text)"
    "py_float example_env (dict_get fast_no_text ''speed'' (PFloat (Fin 1))) = Inl (''could not convert string to float: '' @ [CHR 0x27] @ ''fast'' @ [CHR 0x27])"
    by (simp_all add: json_request_def fast_no_text_def dict_get_def py_float_def example_env_def)
  note d = main [where E = example_env and w = empty_world and rq = "(json_request (PDict fast_no_text))",
      THEN conjunct2, THEN conjunct2, THEN conjunct2, THEN conjunct2, THEN conjunct2, THEN conjunct1, rule_format,
      OF conjI [OF d_h(1) d_h(2)]]
  have d_r:
    "fst (text_to_speech example_env (json_request (PDict fast_no_text)) empty_world) =
     (PDict [(''error'', PStr ''An error occurred during text-to-speech conversion.''), (''details'', PStr (''could not convert string to float: '' @ [CHR 0x27] @ ''fast'' @ [CHR 0x27]))], 500)"
    "tracebacks (snd (text_to_speech example_env (json_request (PDict fast_no_text)) empty_world)) = [(''could not convert string to float: '' @ [CHR 0x27] @ ''fast'' @ [CHR 0x27])]"
    "new_calls empty_world (snd (text_to_speech example_env (json_request (PDict fast_no_text)) empty_world)) =
     []"
    using d by (simp_all add: empty_world_def)
  have e_h:
    "mm_get_available_voices voiceless_env = Inl ''catalog unavailable''"
    by (simp_all add: voiceless_env_def)
  note e = main [where E = voiceless_env and w = empty_world,
      THEN conjunct2, THEN conjunct2, THEN conjunct2, THEN conjunct2, THEN conjunct2, THEN conjunct2, THEN conjunct2, THEN conjunct1, rule_format,
      OF e_h]
  have e_r:
    "fst (get_voices voiceless_env empty_world) =
     (PDict [(''error'', PStr ''An error occurred while retrieving voices.''), (''details'', PStr ''catalog unavailable'')], 500)"
    "tracebacks (snd (get_voices voiceless_env empty_world)) = [''catalog unavailable'']"
    "new_calls empty_world (snd (get_voices voiceless_env empty_world)) =
     [GetAvailableVoices]"
    using e by (simp_all add: empty_world_def)
  have f_h:
    "mm_get_voices_by_language voiceless_env = Inr (voices_by_language_of example_catalog)"
    "mm_get_available_voices voiceless_env = Inl ''catalog unavailable''"
    by (simp_all add: voiceless_env_def example_env_def)
  note f = main [where E = voiceless_env and w = empty_world,
      THEN conjunct2, THEN conjunct2, THEN conjunct2, THEN conjunct2, THEN conjunct2, THEN conjunct2, THEN conjunct2, THEN conjunct2, THEN conjunct2, THEN conjunct1, rule_format,
      OF conjI [OF f_h(1) f_h(2)]]
  have f_r:
    "fst (get_voices_by_language voiceless_env empty_world) =
     (PDict [(''error'', PStr ''An error occurred while retrieving voices by language.''), (''details'', PStr ''catalog unavailable'')], 500)"
    "tracebacks (snd (get_voices_by_language voiceless_env empty_world)) = [''catalog unavailable'']"
    "new_calls empty_world (snd (get_voices_by_language voiceless_env empty_world)) =
     [GetVoicesByLanguage,
        GetAvailableVoices]"
    using f by (simp_all add: empty_world_def)
  have g_h:
    "has_files (upload_request two_uploads Map.empty) \<lparr>filename = ''cat.png'', content = ''PNG''\<rparr> \<lparr>filename = ''question.wav'', content = ''RIFF''\<rparr>"
    "py_float full_disk_env (form_speed (upload_request two_uploads Map.empty)) = Inr (Fin 1)"
    "save_error full_disk_env (stored_path full_disk_env (uuid_count empty_world) (filename \<lparr>filename = ''cat.png'', content = ''PNG''\<rparr>)) = Some ''No space left on device''"
    by (simp_all add: has_files_def two_uploads_def upload_request_def form_speed_def py_float_def full_disk_env_def)
  note g = main [where E = full_disk_env and w = empty_world and rq = "(upload_request two_uploads Map.empty)",
      THEN conjunct2, THEN conjunct2, THEN conjunct2, THEN conjunct2, THEN conjunct2, THEN conjunct2, THEN conjunct2, THEN conjunct2, THEN conjunct2, THEN conjunct2, THEN conjunct2, THEN conjunct1, rule_format,
      OF conjI [OF g_h(1) conjI [OF g_h(2) g_h(3)]]]
  have g_r:
    "fst (process_query full_disk_env (upload_request two_uploads Map.empty) empty_world) =
     (PDict [(''error'', PStr ''An internal error occurred. Please try again later.''), (''details'', PStr ''No space left on device'')], 500)"
    "tracebacks (snd (process_query full_disk_env (upload_request two_uploads Map.empty) empty_world)) = [''No space left on device'']"
    "new_calls empty_world (snd (process_query full_disk_env (upload_request two_uploads Map.empty) empty_world)) =
     []"
    using g by (simp_all add: empty_world_def)
  have h_h:
    "has_files (upload_request two_uploads Map.empty) \<lparr>filename = ''cat.png'', content = ''PNG''\<rparr> \<lparr>filename = ''question.wav'', content = ''RIFF''\<rparr>"
    "py_float blind_env (form_speed (upload_request two_uploads Map.empty)) = Inr (Fin 1)"
    "save_error blind_env (stored_path blind_env (uuid_count empty_world) (filename \<lparr>filename = ''cat.png'', content = ''PNG''\<rparr>)) = None"
    "save_error blind_env (stored_path blind_env (Suc (uuid_count empty_world)) (filename \<lparr>filename = ''question.wav'', content = ''RIFF''\<rparr>)) = None"
    "mm_transcribe_audio blind_env ((disk empty_world)(stored_path blind_env (uuid_count empty_world) (filename \<lparr>filename = ''cat.png'', content = ''PNG''\<rparr>) \<mapsto> content \<lparr>filename = ''cat.png'', content = ''PNG''\<rparr>, stored_path blind_env (Suc (uuid_count empty_world)) (filename \<lparr>filename = ''question.wav'', content = ''RIFF''\<rparr>) \<mapsto> content \<lparr>filename = ''question.wav'', content = ''RIFF''\<rparr>)) (stored_path blind_env (Suc (uuid_count empty_world)) (filename \<lparr>filename = ''question.wav'', content = ''RIFF''\<rparr>)) = Inr ''what is this''"
    "mm_process_image_and_query blind_env ((disk empty_world)(stored_path blind_env (uuid_count empty_world) (filename \<lparr>filename = ''cat.png'', content = ''PNG''\<rparr>) \<mapsto> content \<lparr>filename = ''cat.png'', content = ''PNG''\<rparr>, stored_path blind_env (Suc (uuid_count empty_world)) (filename \<lparr>filename = ''question.wav'', content = ''RIFF''\<rparr>) \<mapsto> content \<lparr>filename = ''question.wav'', content = ''RIFF''\<rparr>)) (stored_path blind_env (uuid_count empty_world) (filename \<lparr>filename = ''cat.png'', content = ''PNG''\<rparr>)) ''what is this'' = Inl ''quota exceeded''"
    by (simp_all add: has_files_def two_uploads_def upload_request_def form_speed_def py_float_def blind_env_def example_env_def)
  note h = main [where E = blind_env and w = empty_world and rq = "(upload_request two_uploads Map.empty)",
      THEN conjunct2, THEN conjunct2, THEN conjunct2, THEN conjunct2, THEN conjunct2, THEN conjunct2, THEN conjunct2, THEN conjunct2, THEN conjunct2, THEN conjunct2, THEN conjunct2, THEN conjunct2, THEN conjunct2, THEN conjunct2, THEN conjunct1, rule_format,
      OF conjI [OF h_h(1) conjI [OF h_h(2) conjI [OF h_h(3) conjI [OF h_h(4) conjI [OF h_h(5) h_h(6)]]]]]]
  have h_r:
    "fst (process_query blind_env (upload_request two_uploads Map.empty) empty_world) =
     (PDict [(''error'', PStr ''An internal error occurred. Please try again later.''), (''details'', PStr ''quota exceeded'')], 500)"
    "tracebacks (snd (process_query blind_env (upload_request two_uploads Map.empty) empty_world)) = [''quota exceeded'']"
    "new_calls empty_world (snd (process_query blind_env (upload_request two_uploads Map.empty) empty_world)) =
     [TranscribeAudio (stored_path blind_env (Suc 0) ''question.wav''),
        ProcessImageAndQuery (stored_path blind_env 0 ''cat.png'') ''what is this'']"
    using h by (simp_all add: empty_world_def)
  from a_h(4) a_r b_h(5) b_r c_h c_r d_h(2) d_r e_h e_r f_h(1) f_r g_h(3) g_r h_h(6) h_r
  show ?thesis by (intro conjI)
qed

subsection \<open>The three stages of \<open>process_query\<close>\<close>

text \<open>
  C5. Once both uploads are stored, \<open>process_query\<close> invokes the transcription on the
  stored recording, then the answer on the stored image and the transcription, then
  the synthesis on the answer, in this order. If a stage raises \<open>e\<close>, the stages after it
  are not invoked and the response is status 500 with the fixed message and the text
  of \<open>e\<close> and nothing else: no transcription and no answer. The disk is as the uploads
  (and the synthesis, once it ran) left it: the handler removes nothing. If no stage
  raises, the response is status 200 with the three results.
\<close>

theorem process_stages_in_sequence:
  assumes "has_files rq img aud"
    and "py_float E (form_speed rq) = Inr requested"
    and "ip = stored_path E (uuid_count w) (filename img)"
    and "ap = stored_path E (Suc (uuid_count w)) (filename aud)"
    and "save_error E ip = None" and "save_error E ap = None"
    and "d = (disk w)(ip \<mapsto> content img, ap \<mapsto> content aud)"
    and "speed = (if form_high_performance rq then py_max requested speed_floor else requested)"
  shows
   "(\<forall>e. mm_transcribe_audio E d ap = Inl e \<longrightarrow>
       fst (process_query E rq w) =
         (PDict [(''error'', PStr ''An internal error occurred. Please try again later.''),
                 (''details'', PStr e)], 500) \<and>
       new_calls w (snd (process_query E rq w)) = [TranscribeAudio ap] \<and>
       disk (snd (process_query E rq w)) = d) \<and>
    (\<forall>t e. mm_transcribe_audio E d ap = Inr t \<and>
       mm_process_image_and_query E d ip t = Inl e \<longrightarrow>
       fst (process_query E rq w) =
         (PDict [(''error'', PStr ''An internal error occurred. Please try again later.''),
                 (''details'', PStr e)], 500) \<and>
       new_calls w (snd (process_query E rq w)) = [TranscribeAudio ap, ProcessImageAndQuery ip t] \<and>
       disk (snd (process_query E rq w)) = d) \<and>
    (\<forall>t r e d'. mm_transcribe_audio E d ap = Inr t \<and>
       mm_process_image_and_query E d ip t = Inr r \<and>
       mm_text_to_speech E d (PStr r) (PStr (form_voice rq)) speed = (Inl e, d') \<longrightarrow>
       fst (process_query E rq w) =
         (PDict [(''error'', PStr ''An internal error occurred. Please try again later.''),
                 (''details'', PStr e)], 500) \<and>
       new_calls w (snd (process_query E rq w)) =
         [TranscribeAudio ap, ProcessImageAndQuery ip t,
          TextToSpeech (PStr r) (PStr (form_voice rq)) speed] \<and>
       disk (snd (process_query E rq w)) = d') \<and>
    (\<forall>t r p d'. mm_transcribe_audio E d ap = Inr t \<and>
       mm_process_image_and_query E d ip t = Inr r \<and>
       mm_text_to_speech E d (PStr r) (PStr (form_voice rq)) speed = (Inr p, d') \<longrightarrow>
       fst (process_query E rq w) =
         (PDict [(''transcription'', PStr t), (''response'', PStr r),
                 (''audio_response'', PStr p)], 200) \<and>
       new_calls w (snd (process_query E rq w)) =
         [TranscribeAudio ap, ProcessImageAndQuery ip t,
          TextToSpeech (PStr r) (PStr (form_voice rq)) speed] \<and>
       disk (snd (process_query E rq w)) = d')"
proof (intro conjI allI impI)
  fix e assume "mm_transcribe_audio E d ap = Inl e"
  note run = process_transcribe_raises [OF assms(1-7) this]
  show "fst (process_query E rq w) =
         (PDict [(''error'', PStr ''An internal error occurred. Please try again later.''),
                 (''details'', PStr e)], 500)"
    by (simp add: run error_envelope_def process_error_def)
  show "new_calls w (snd (process_query E rq w)) = [TranscribeAudio ap]"
    by (simp add: run new_calls_def)
  show "disk (snd (process_query E rq w)) = d"
    by (simp add: run)
next
  fix t e assume "mm_transcribe_audio E d ap = Inr t \<and> mm_process_image_and_query E d ip t = Inl e"
  then have a: "mm_transcribe_audio E d ap = Inr t" and b: "mm_process_image_and_query E d ip t = Inl e"
    by simp_all
  note run = process_answer_raises [OF assms(1-7) a b]
  show "fst (process_query E rq w) =
         (PDict [(''error'', PStr ''An internal error occurred. Please try again later.''),
                 (''details'', PStr e)], 500)"
    by (simp add: run error_envelope_def process_error_def)
  show "new_calls w (snd (process_query E rq w)) = [TranscribeAudio ap, ProcessImageAndQuery ip t]"
    by (simp add: run new_calls_def)
  show "disk (snd (process_query E rq w)) = d"
    by (simp add: run)
next
  fix t r e d'
  assume "mm_transcribe_audio E d ap = Inr t \<and> mm_process_image_and_query E d ip t = Inr r \<and>
       mm_text_to_speech E d (PStr r) (PStr (form_voice rq)) speed = (Inl e, d')"
  then have a: "mm_transcribe_audio E d ap = Inr t" and b: "mm_process_image_and_query E d ip t = Inr r"
    and c: "mm_text_to_speech E d (PStr r) (PStr (form_voice rq)) speed = (Inl e, d')"
    by simp_all
  note run = process_synthesis_raises [OF assms(1-7) a b assms(8) c]
  show "fst (process_query E rq w) =
         (PDict [(''error'', PStr ''An internal error occurred. Please try again later.''),
                 (''details'', PStr e)], 500)"
    by (simp add: run error_envelope_def process_error_def)
  show "new_calls w (snd (process_query E rq w)) =
         [TranscribeAudio ap, ProcessImageAndQuery ip t,
          TextToSpeech (PStr r) (PStr (form_voice rq)) speed]"
    by (simp add: run new_calls_def)
  show "disk (snd (process_query E rq w)) = d'"
    by (simp add: run)
next
  fix t r p d'
  assume "mm_transcribe_audio E d ap = Inr t \<and> mm_process_image_and_query E d ip t = Inr r \<and>
       mm_text_to_speech E d (PStr r) (PStr (form_voice rq)) speed = (Inr p, d')"
  then have a: "mm_transcribe_audio E d ap = Inr t" and b: "mm_process_image_and_query E d ip t = Inr r"
    and c: "mm_text_to_speech E d (PStr r) (PStr (form_voice rq)) speed = (Inr p, d')"
    by simp_all
  note run = process_succeeds [OF assms(1-7) a b assms(8) c]
  show "fst (process_query E rq w) =
         (PDict [(''transcription'', PStr t), (''response'', PStr r),
                 (''audio_response'', PStr p)], 200)"
    by (simp add: run)
  show "new_calls w (snd (process_query E rq w)) =
         [TranscribeAudio ap, ProcessImageAndQuery ip t,
          TextToSpeech (PStr r) (PStr (form_voice rq)) speed]"
    by (simp add: run new_calls_def)
  show "disk (snd (process_query E rq w)) = d'"
    by (simp add: run)
qed

text \<open>
  A delegate that raises at the answer: the transcription and the answer were invoked,
  the synthesis was not, and the stored recording is still on disk.
\<close>

theorem process_stages_in_sequence_witness:
  "has_files (upload_request two_uploads Map.empty)
     \<lparr>filename = ''cat.png'', content = ''PNG''\<rparr> \<lparr>filename = ''question.wav'', content = ''RIFF''\<rparr> \<and>
   py_float blind_env (form_speed (upload_request two_uploads Map.empty)) = Inr (Fin 1) \<and>
   save_error blind_env (stored_path blind_env 0 ''cat.png'') = None \<and>
   save_error blind_env (stored_path blind_env 1 ''question.wav'') = None \<and>
   fst (process_query blind_env (upload_request two_uploads Map.empty) empty_world) =
     (PDict [(''error'', PStr ''An internal error occurred. Please try again later.''),
             (''details'', PStr ''quota exceeded'')], 500) \<and>
   new_calls empty_world (snd (process_query blind_env (upload_request two_uploads Map.empty) empty_world)) =
     [TranscribeAudio (stored_path blind_env 1 ''question.wav''),
      ProcessImageAndQuery (stored_path blind_env 0 ''cat.png'') ''what is this''] \<and>
   disk (snd (process_query blind_env (upload_request two_uploads Map.empty) empty_world))
     (stored_path blind_env 1 ''question.wav'') = Some ''RIFF''"
proof -
  let ?rq = "upload_request two_uploads Map.empty"
  let ?ip = "stored_path blind_env 0 ''cat.png''"
  let ?ap = "stored_path blind_env 1 ''question.wav''"
  let ?d = "(disk empty_world)(?ip \<mapsto> ''PNG'', ?ap \<mapsto> ''RIFF'')"
  have fl: "py_float blind_env (form_speed ?rq) = Inr (Fin 1)"
    by (simp add: form_speed_def upload_request_def py_float_def)
  have sv: "save_error blind_env ?ip = None" "save_error blind_env ?ap = None"
    by (simp_all add: blind_env_def example_env_def)
  have tr: "mm_transcribe_audio blind_env ?d ?ap = Inr ''what is this''"
    by (simp add: blind_env_def example_env_def)
  have an: "mm_process_image_and_query blind_env ?d ?ip ''what is this'' = Inl ''quota exceeded''"
    by (simp add: blind_env_def)
  have ip: "?ip = stored_path blind_env (uuid_count empty_world) (filename \<lparr>filename = ''cat.png'', content = ''PNG''\<rparr>)"
    by (simp add: empty_world_def)
  have ap: "?ap = stored_path blind_env (Suc (uuid_count empty_world))
      (filename \<lparr>filename = ''question.wav'', content = ''RIFF''\<rparr>)"
    by (simp add: empty_world_def)
  have d: "?d = (disk empty_world)(?ip \<mapsto> content \<lparr>filename = ''cat.png'', content = ''PNG''\<rparr>,
       ?ap \<mapsto> content \<lparr>filename = ''question.wav'', content = ''RIFF''\<rparr>)"
    by simp
  from process_stages_in_sequence [OF two_uploads_has_files fl ip ap sv d refl,
      THEN conjunct2, THEN conjunct1, rule_format, of "''what is this''" "''quota exceeded''"]
    tr an
  have "fst (process_query blind_env ?rq empty_world) =
     (PDict [(''error'', PStr ''An internal error occurred. Please try again later.''),
             (''details'', PStr ''quota exceeded'')], 500) \<and>
     new_calls empty_world (snd (process_query blind_env ?rq empty_world)) =
       [TranscribeAudio ?ap, ProcessImageAndQuery ?ip ''what is this''] \<and>
     disk (snd (process_query blind_env ?rq empty_world)) = ?d"
    by blast
  with two_uploads_has_files [of Map.empty] fl sv show ?thesis by simp
qed

subsection \<open>The check of the synthesized file\<close>

lemma silent_paths:
  "stored_path silent_env 0 ''cat.png'' =
     ''app/uploads/0a1b2c3d-4e5f-4a6b-8c7d-9e0f1a2b3c4d_cat.png''"
  "stored_path silent_env 1 ''question.wav'' =
     ''app/uploads/1b2c3d4e-5f6a-4b7c-9d8e-0f1a2b3c4d5e_question.wav''"
  "stored_path silent_env (Suc 0) ''question.wav'' =
     ''app/uploads/1b2c3d4e-5f6a-4b7c-9d8e-0f1a2b3c4d5e_question.wav''"
  "os_path_join (UPLOAD_FOLDER silent_env) ''tts_1.wav'' = ''app/uploads/tts_1.wav''"
  by code_simp+

lemma silent_process_run_any:
  assumes "has_files rq img aud" and "py_float silent_env (form_speed rq) = Inr requested"
    and "ip = stored_path silent_env (uuid_count w) (filename img)"
    and "ap = stored_path silent_env (Suc (uuid_count w)) (filename aud)"
    and "speed = (if form_high_performance rq then py_max requested speed_floor else requested)"
  shows "process_query silent_env rq w =
     ((PDict [(''transcription'', PStr ''what is this''), (''response'', PStr ''a cat''),
              (''audio_response'', PStr ''tts_1.wav'')], 200),
      w\<lparr>uuid_count := Suc (Suc (uuid_count w)),
        disk := (disk w)(ip \<mapsto> content img, ap \<mapsto> content aud),
        calls := calls w @ [TranscribeAudio ap, ProcessImageAndQuery ip ''what is this'',
                            TextToSpeech (PStr ''a cat'') (PStr (form_voice rq)) speed]\<rparr>)"
  by (rule process_succeeds [OF assms(1,2,3,4) _ _ refl _ _ assms(5)])
     (simp_all add: silent_env_def example_env_def)

lemma silent_process_run:
  "process_query silent_env (upload_request two_uploads Map.empty) empty_world =
     ((PDict [(''transcription'', PStr ''what is this''), (''response'', PStr ''a cat''),
              (''audio_response'', PStr ''tts_1.wav'')], 200),
      \<lparr>disk = [stored_path silent_env 0 ''cat.png'' \<mapsto> ''PNG'',
               stored_path silent_env 1 ''question.wav'' \<mapsto> ''RIFF''],
       uuid_count = 2,
       calls = [TranscribeAudio (stored_path silent_env 1 ''question.wav''),
                ProcessImageAndQuery (stored_path silent_env 0 ''cat.png'') ''what is this'',
                TextToSpeech (PStr ''a cat'') (PStr ''af_heart'') (Fin 1)],
       tracebacks = []\<rparr>)"
proof -
  have fl: "py_float silent_env (form_speed (upload_request two_uploads Map.empty)) = Inr (Fin 1)"
    by (simp add: form_speed_def upload_request_def py_float_def)
  show ?thesis
    unfolding silent_process_run_any [OF two_uploads_has_files fl refl refl refl]
    by (simp add: empty_world_def form_voice_def form_high_performance_def upload_request_def
        lower_def)
qed

text \<open>
  C3 fails for \<open>process_query\<close>. With a delegate whose synthesis returns a path and
  writes no file, \<open>process_query\<close> answers with status 200 and that path, although no
  file is stored under it in the upload directory; \<open>text_to_speech\<close>, which makes the
  check, answers the same delegate with status 500.
\<close>

theorem process_query_returns_unverified_audio:
  "fst (process_query silent_env (upload_request two_uploads Map.empty) empty_world) =
     (PDict [(''transcription'', PStr ''what is this''), (''response'', PStr ''a cat''),
             (''audio_response'', PStr ''tts_1.wav'')], 200) \<and>
   missing_or_empty
     (disk (snd (process_query silent_env (upload_request two_uploads Map.empty) empty_world)))
     (os_path_join (UPLOAD_FOLDER silent_env) ''tts_1.wav'') \<and>
   fst (text_to_speech silent_env (json_request (PDict [(''text'', PStr ''a cat'')])) empty_world) =
     (PDict [(''error'', PStr ''Audio generation failed. The audio file is missing or empty.'')],
      500)"
proof -
  have "missing_or_empty
     (disk (snd (process_query silent_env (upload_request two_uploads Map.empty) empty_world)))
     (os_path_join (UPLOAD_FOLDER silent_env) ''tts_1.wav'')"
    unfolding silent_process_run by (simp add: silent_paths missing_or_empty_def)
  moreover have "fst (text_to_speech silent_env (json_request (PDict [(''text'', PStr ''a cat'')]))
       empty_world) =
     (PDict [(''error'', PStr ''Audio generation failed. The audio file is missing or empty.'')],
      500)"
    by (simp add: tts_defs json_request_def dict_get_def py_float_def silent_env_def
        example_env_def empty_world_def missing_or_empty_def)
  ultimately show ?thesis by (simp add: silent_process_run)
qed

subsection \<open>The path checked and the path returned\<close>

lemma tts_ok_run:
  assumes "status_of (text_to_speech E rq w) = 200"
  shows "\<exists>kvs requested p d'.
     json rq = Inr (PDict kvs) \<and>
     py_float E (dict_get kvs ''speed'' (PFloat (Fin 1))) = Inr requested \<and>
     mm_text_to_speech E (disk w) (dict_get kvs ''text'' PNone)
       (dict_get kvs ''voice'' (PStr ''af_heart'')) (json_speed kvs requested) = (Inr p, d') \<and>
     body_of (text_to_speech E rq w) = PDict [(''audio_response'', PStr p)] \<and>
     disk (snd (text_to_speech E rq w)) = d' \<and>
     \<not> missing_or_empty d' (os_path_join (UPLOAD_FOLDER E) p)"
proof (cases rule: text_to_speech_cases [of rq E w])
  case (unreadable e)
  with assms show ?thesis by (simp add: envelope_status)
next
  case (not_a_dict data)
  with assms show ?thesis by (simp add: envelope_status)
next
  case (bad_speed kvs e)
  with assms show ?thesis by (simp add: envelope_status)
next
  case (no_text kvs requested)
  with assms show ?thesis by simp
next
  case (synthesis_raises kvs requested c e d')
  with assms show ?thesis by (simp add: envelope_status)
next
  case (file_missing kvs requested c p d')
  with assms show ?thesis by (simp add: status_of_def)
next
  case (succeeds kvs requested c p d')
  then show ?thesis by (simp add: body_of_def)
qed

lemma client_rejoins:
  assumes "\<not> (response_text = [] \<or> startswith response_text ''Error'' \<or>
              startswith response_text ''Please'')"
    and "\<forall>voice_id. post (PDict [(''text'', PStr response_text), (''voice'', PStr voice_id),
                                   (''speed'', PFloat speed)]) =
           Inr (PDict [(''audio_response'', PStr p)], 200)"
  shows "generate_audio_response config voices_options post response_text lang voice_selection speed =
           (if p = [] then None else Some (os_path_join (upload_folder_of config) p))"
  using assms
  by (simp add: generate_audio_response_def Let_def py_get_def dict_get_def)

text \<open>
  C8. When \<open>text_to_speech\<close> answers with status 200, the delegate returned a path \<open>p\<close>,
  the file the handler found present and not empty is the one at the upload directory
  joined with \<open>p\<close>, and the body holds \<open>p\<close> itself under \<open>audio_response\<close>. The client, given
  such a response, joins its own upload directory with \<open>p\<close> to get the path of the file
  (and gives up on an empty \<open>p\<close>).
\<close>

theorem synthesized_path_checked_joined_returned_raw:
  "(status_of (text_to_speech E rq w) = 200 \<longrightarrow>
      (\<exists>kvs requested p d'.
         json rq = Inr (PDict kvs) \<and>
         py_float E (dict_get kvs ''speed'' (PFloat (Fin 1))) = Inr requested \<and>
         mm_text_to_speech E (disk w) (dict_get kvs ''text'' PNone)
           (dict_get kvs ''voice'' (PStr ''af_heart'')) (json_speed kvs requested) = (Inr p, d') \<and>
         body_of (text_to_speech E rq w) = PDict [(''audio_response'', PStr p)] \<and>
         disk (snd (text_to_speech E rq w)) = d' \<and>
         \<not> missing_or_empty d' (os_path_join (UPLOAD_FOLDER E) p))) \<and>
   (\<forall>p. \<not> (response_text = [] \<or> startswith response_text ''Error'' \<or>
            startswith response_text ''Please'') \<and>
        (\<forall>voice_id. post (PDict [(''text'', PStr response_text), (''voice'', PStr voice_id),
                                   (''speed'', PFloat speed)]) =
           Inr (PDict [(''audio_response'', PStr p)], 200)) \<longrightarrow>
        generate_audio_response config voices_options post response_text lang voice_selection speed =
          (if p = [] then None else Some (os_path_join (upload_folder_of config) p)))"
  using tts_ok_run [of E rq w]
    client_rejoins [of response_text post speed _ config voices_options lang voice_selection]
  by blast

text \<open>
  With the example delegate the body holds \<open>tts_1.wav\<close>, the file checked is
  \<open>app/uploads/tts_1.wav\<close>, and that is the path the client arrives at.
\<close>

lemma example_tts_run:
  assumes "truthy (dict_get kvs ''text'' PNone)"
    and "py_float example_env (dict_get kvs ''speed'' (PFloat (Fin 1))) = Inr requested"
  shows "text_to_speech example_env (json_request (PDict kvs)) w =
     ((PDict [(''audio_response'', PStr ''tts_1.wav'')], 200),
      w\<lparr>disk := (disk w)(''app/uploads/tts_1.wav'' \<mapsto> ''RIFF''),
        calls := calls w @ [TextToSpeech (dict_get kvs ''text'' PNone)
                  (dict_get kvs ''voice'' (PStr ''af_heart'')) (json_speed kvs requested)]\<rparr>)"
  by (rule tts_succeeds [OF _ assms(2,1) refl])
     (simp_all add: json_request_def example_env_def missing_or_empty_def os_path_join_def
        startswith_def)

lemma example_post_answers:
  "example_post (PDict [(''text'', PStr ''a cat''), (''voice'', PStr voice_id),
                        (''speed'', PFloat (Fin 1))]) =
     Inr (PDict [(''audio_response'', PStr ''tts_1.wav'')], 200)"
  unfolding example_post_def
  by (subst example_tts_run [where requested = "Fin 1"])
     (simp_all add: dict_get_def py_float_def)

theorem synthesized_path_checked_joined_returned_raw_witness:
  "status_of (text_to_speech example_env (json_request (PDict [(''text'', PStr ''a cat'')])) empty_world)
     = 200 \<and>
   body_of (text_to_speech example_env (json_request (PDict [(''text'', PStr ''a cat'')])) empty_world)
     = PDict [(''audio_response'', PStr ''tts_1.wav'')] \<and>
   \<not> missing_or_empty
       (disk (snd (text_to_speech example_env (json_request (PDict [(''text'', PStr ''a cat'')]))
                    empty_world)))
       (os_path_join (UPLOAD_FOLDER example_env) ''tts_1.wav'') \<and>
   \<not> (''a cat'' = [] \<or> startswith ''a cat'' ''Error'' \<or> startswith ''a cat'' ''Please'') \<and>
   generate_audio_response Map.empty [] example_post ''a cat'' ''English'' ''Heart (Female)'' (Fin 1)
     = Some ''app/uploads/tts_1.wav''"
proof -
  let ?rq = "json_request (PDict [(''text'', PStr ''a cat'')])"
  have run: "text_to_speech example_env ?rq empty_world =
     ((PDict [(''audio_response'', PStr ''tts_1.wav'')], 200),
      empty_world\<lparr>disk := (disk empty_world)(''app/uploads/tts_1.wav'' \<mapsto> ''RIFF''),
        calls := calls empty_world @ [TextToSpeech (PStr ''a cat'') (PStr ''af_heart'') (Fin 1)]\<rparr>)"
    by (subst example_tts_run [where requested = "Fin 1"])
       (simp_all add: dict_get_def py_float_def json_speed_def)
  have ok: "status_of (text_to_speech example_env ?rq empty_world) = 200"
    by (simp add: run status_of_def)
  have guard: "\<not> (''a cat'' = [] \<or> startswith ''a cat'' ''Error'' \<or> startswith ''a cat'' ''Please'')"
    by (simp add: startswith_def)
  note main = synthesized_path_checked_joined_returned_raw
    [of example_env ?rq empty_world "''a cat''" example_post "Fin 1" Map.empty "[]"
        "''English''" "''Heart (Female)''"]
  from main [THEN conjunct1, rule_format, OF ok]
  obtain kvs requested p d' where
    syn: "json ?rq = Inr (PDict kvs)"
      "mm_text_to_speech example_env (disk empty_world) (dict_get kvs ''text'' PNone)
         (dict_get kvs ''voice'' (PStr ''af_heart'')) (json_speed kvs requested) = (Inr p, d')"
    and b: "body_of (text_to_speech example_env ?rq empty_world) = PDict [(''audio_response'', PStr p)]"
    and c: "disk (snd (text_to_speech example_env ?rq empty_world)) = d'"
      "\<not> missing_or_empty d' (os_path_join (UPLOAD_FOLDER example_env) p)"
    by blast
  from syn(2) have p: "p = ''tts_1.wav''"
    by (simp add: example_env_def)
  have client: "generate_audio_response Map.empty [] example_post ''a cat'' ''English''
      ''Heart (Female)'' (Fin 1) = Some ''app/uploads/tts_1.wav''"
    using main [THEN conjunct2, rule_format, of "''tts_1.wav''"] guard example_post_answers
    by (simp add: upload_folder_of_def os_path_join_def startswith_def)
  from ok b c p guard client show ?thesis by simp
qed

subsection \<open>The two readings of the high-performance flag\<close>

lemma float_gt_irrefl: "\<not> float_gt a a"
  by (cases a) simp_all

lemma py_max_below: "float_gt m a \<Longrightarrow> py_max a m = m \<and> m \<noteq> a"
  using float_gt_irrefl by (auto simp add: py_max_def)

lemma lower_examples:
  "lower ''1'' \<noteq> ''true''" "lower ''yes'' \<noteq> ''true''" "lower ''True'' = ''true''"
  "lower ''false'' \<noteq> ''true''"
  by code_simp+

text \<open>
  C9. For a requested speed below 1.2 the speed passed to the synthesis shows whether
  the flag was taken as set. \<open>process_query\<close> passes 1.2 if and only if the form field
  \<open>high_performance\<close> (or \<open>false\<close> in its absence), in lower case, is the string \<open>true\<close>,
  and the requested speed otherwise: \<open>1\<close> and \<open>yes\<close> leave the flag off, \<open>True\<close> and \<open>TRUE\<close>
  set it. \<open>text_to_speech\<close> passes 1.2 if and only if the value of the key
  \<open>high_performance\<close> (or \<open>False\<close> in its absence) is truthy: the number 1 and the strings
  \<open>yes\<close> and \<open>false\<close> set the flag, 0, the empty string and null do not.
\<close>

theorem high_performance_read_differently:
  "(\<forall>requested t v s.
      py_float E (form_speed rq) = Inr requested \<and> float_gt speed_floor requested \<and>
      TextToSpeech t v s \<in> set (new_calls w (snd (process_query E rq w))) \<longrightarrow>
      (s = speed_floor \<longleftrightarrow>
         lower (case form rq ''high_performance'' of None \<Rightarrow> ''false'' | Some x \<Rightarrow> x) = ''true'') \<and>
      (s = requested \<longleftrightarrow>
         lower (case form rq ''high_performance'' of None \<Rightarrow> ''false'' | Some x \<Rightarrow> x) \<noteq> ''true'')) \<and>
   (\<forall>kvs requested t v s.
      json rq = Inr (PDict kvs) \<and>
      py_float E (dict_get kvs ''speed'' (PFloat (Fin 1))) = Inr requested \<and>
      float_gt speed_floor requested \<and>
      TextToSpeech t v s \<in> set (new_calls w (snd (text_to_speech E rq w))) \<longrightarrow>
      (s = speed_floor \<longleftrightarrow> truthy (dict_get kvs ''high_performance'' (PBool False))) \<and>
      (s = requested \<longleftrightarrow> \<not> truthy (dict_get kvs ''high_performance'' (PBool False)))) \<and>
   lower ''1'' \<noteq> ''true'' \<and> lower ''yes'' \<noteq> ''true'' \<and>
   lower ''True'' = ''true'' \<and> lower ''TRUE'' = ''true'' \<and>
   truthy (PInt 1) \<and> truthy (PStr ''yes'') \<and> truthy (PStr ''false'') \<and>
   \<not> truthy (PInt 0) \<and> \<not> truthy (PStr '''') \<and> \<not> truthy PNone"
proof (intro conjI allI impI)
  fix requested t v s
  assume h: "py_float E (form_speed rq) = Inr requested \<and> float_gt speed_floor requested \<and>
      TextToSpeech t v s \<in> set (new_calls w (snd (process_query E rq w)))"
  then have s: "s = (if form_high_performance rq then py_max requested speed_floor else requested)"
    using process_speed_passed by blast
  from h have m: "py_max requested speed_floor = speed_floor \<and> speed_floor \<noteq> requested"
    using py_max_below by blast
  from s m show "s = speed_floor \<longleftrightarrow>
      lower (case form rq ''high_performance'' of None \<Rightarrow> ''false'' | Some x \<Rightarrow> x) = ''true''"
    by (auto simp add: form_high_performance_def)
  from s m show "s = requested \<longleftrightarrow>
      lower (case form rq ''high_performance'' of None \<Rightarrow> ''false'' | Some x \<Rightarrow> x) \<noteq> ''true''"
    by (auto simp add: form_high_performance_def)
next
  fix kvs requested t v s
  assume h: "json rq = Inr (PDict kvs) \<and>
      py_float E (dict_get kvs ''speed'' (PFloat (Fin 1))) = Inr requested \<and>
      float_gt speed_floor requested \<and>
      TextToSpeech t v s \<in> set (new_calls w (snd (text_to_speech E rq w)))"
  then have s: "s = json_speed kvs requested"
    using tts_speed_passed by blast
  from h have m: "py_max requested speed_floor = speed_floor \<and> speed_floor \<noteq> requested"
    using py_max_below by blast
  from s m show "s = speed_floor \<longleftrightarrow> truthy (dict_get kvs ''high_performance'' (PBool False))"
    by (auto simp add: json_speed_def)
  from s m show "s = requested \<longleftrightarrow> \<not> truthy (dict_get kvs ''high_performance'' (PBool False))"
    by (auto simp add: json_speed_def)
qed (simp_all add: lower_examples lower_TRUE)

text \<open>
  The word \<open>yes\<close> with the speed 0.8: \<open>process_query\<close> passes 0.8 on, \<open>text_to_speech\<close>
  passes 1.2.
\<close>

lemma yes_form_reading:
  "py_float example_env (form_speed (upload_request two_uploads yes_form)) = Inr (Fin (4 / 5))"
  "\<not> form_high_performance (upload_request two_uploads yes_form)"
  "form_voice (upload_request two_uploads yes_form) = ''af_heart''"
  "form (upload_request two_uploads yes_form) ''high_performance'' = Some ''yes''"
  by (simp_all add: form_speed_def form_high_performance_def form_voice_def upload_request_def
      yes_form_def py_float_def example_env_def lower_examples)

lemma hello_yes_calls:
  "new_calls empty_world (snd (text_to_speech example_env (json_request (PDict hello_yes)) empty_world)) =
     [TextToSpeech (PStr ''hello'') (PStr ''af_heart'') speed_floor]"
  by (subst example_tts_run [where requested = "Fin (4 / 5)"])
     (simp_all add: hello_yes_def dict_get_def py_float_def json_speed_def new_calls_def
        speed_floor_raises)

theorem high_performance_read_differently_witness:
  "py_float example_env (form_speed (upload_request two_uploads yes_form)) = Inr (Fin (4 / 5)) \<and>
   float_gt speed_floor (Fin (4 / 5)) \<and>
   form (upload_request two_uploads yes_form) ''high_performance'' = Some ''yes'' \<and>
   TextToSpeech (PStr ''a cat'') (PStr ''af_heart'') (Fin (4 / 5))
     \<in> set (new_calls empty_world
              (snd (process_query example_env (upload_request two_uploads yes_form) empty_world))) \<and>
   lower ''yes'' \<noteq> ''true'' \<and>
   json (json_request (PDict hello_yes)) = Inr (PDict hello_yes) \<and>
   py_float example_env (dict_get hello_yes ''speed'' (PFloat (Fin 1))) = Inr (Fin (4 / 5)) \<and>
   TextToSpeech (PStr ''hello'') (PStr ''af_heart'') speed_floor
     \<in> set (new_calls empty_world
              (snd (text_to_speech example_env (json_request (PDict hello_yes)) empty_world))) \<and>
   truthy (dict_get hello_yes ''high_performance'' (PBool False))"
proof -
  have gt: "float_gt speed_floor (Fin (4 / 5))"
    by (simp add: speed_floor_def)
  have pm: "TextToSpeech (PStr ''a cat'') (PStr ''af_heart'') (Fin (4 / 5))
     \<in> set (new_calls empty_world
              (snd (process_query example_env (upload_request two_uploads yes_form) empty_world)))"
    by (simp add: example_process_run [OF two_uploads_has_files yes_form_reading(1) refl refl refl]
        yes_form_reading new_calls_def)
  have js: "json (json_request (PDict hello_yes)) = Inr (PDict hello_yes)"
    "py_float example_env (dict_get hello_yes ''speed'' (PFloat (Fin 1))) = Inr (Fin (4 / 5))"
    by (simp_all add: json_request_def hello_yes_def dict_get_def py_float_def)
  have tm: "TextToSpeech (PStr ''hello'') (PStr ''af_heart'') speed_floor
     \<in> set (new_calls empty_world
              (snd (text_to_speech example_env (json_request (PDict hello_yes)) empty_world)))"
    by (simp add: hello_yes_calls)
  note main = high_performance_read_differently [of example_env _ empty_world]
  from main [of "upload_request two_uploads yes_form", THEN conjunct1, rule_format,
      of "Fin (4 / 5)" "PStr ''a cat''" "PStr ''af_heart''" "Fin (4 / 5)"]
    yes_form_reading gt pm
  have a: "lower ''yes'' \<noteq> ''true''" by simp
  from main [of "json_request (PDict hello_yes)", THEN conjunct2, THEN conjunct1, rule_format,
      of hello_yes "Fin (4 / 5)" "PStr ''hello''" "PStr ''af_heart''" speed_floor]
    js gt tm
  have b: "truthy (dict_get hello_yes ''high_performance'' (PBool False))" by simp
  from yes_form_reading gt pm a js tm b show ?thesis by simp
qed

subsection \<open>Stored names\<close>

text \<open>A safe character passes every step of \<open>secure_filename\<close> unchanged.\<close>

lemma is_safe_plain:
  assumes "is_safe c"
  shows "is_ascii c" and "\<not> is_space c" and "c \<noteq> CHR ''/''"
proof -
  from assms show "is_ascii c" by (auto simp add: is_safe_def is_ascii_def Let_def)
  from assms show "\<not> is_space c" by (auto simp add: is_safe_def is_space_def Let_def)
  from assms show "c \<noteq> CHR ''/''" by (auto simp add: is_safe_def Let_def)
qed

lemma underscore_safe: "is_safe (CHR ''_'')"
  by (simp add: is_safe_def)

lemma to_ascii_append: "to_ascii E (a @ b) = to_ascii E a @ to_ascii E b"
  by (simp add: to_ascii_def)

lemma to_ascii_safe: "\<forall>c\<in>set u. is_safe c \<Longrightarrow> to_ascii E u = u"
proof (induction u)
  case Nil
  show ?case by (simp add: to_ascii_def)
next
  case (Cons c u)
  then have "is_ascii c" and "to_ascii E u = u" by (simp_all add: is_safe_plain)
  then show ?case using to_ascii_append [of E "[c]" u] by (simp add: to_ascii_def)
qed

lemma words_from_plain: "\<forall>c\<in>set u. \<not> is_space c \<Longrightarrow> words_from cur (u @ s) = words_from (cur @ u) s"
  by (induction u arbitrary: cur) simp_all

lemma words_from_started:
  "cur \<noteq> [] \<Longrightarrow> \<exists>w ws. words_from cur s = w # ws \<and> prefix cur w"
proof (induction s arbitrary: cur)
  case Nil
  then show ?case by simp
next
  case (Cons c s)
  show ?case
  proof (cases "is_space c")
    case True
    with Cons.prems show ?thesis by simp
  next
    case False
    from Cons.IH [of "cur @ [c]"] obtain w ws
      where "words_from (cur @ [c]) s = w # ws" "prefix (cur @ [c]) w" by auto
    with False show ?thesis by (auto dest: append_prefixD)
  qed
qed

lemma py_join_prefix: "prefix w (py_join sep (w # ws))"
  by (cases ws) simp_all

lemma filter_prefix: "prefix a b \<Longrightarrow> prefix (filter P a) (filter P b)"
  by (auto simp add: prefix_def)

lemma lstrip_keeps: "u \<noteq> [] \<Longrightarrow> \<not> P (hd u) \<Longrightarrow> dropWhile P (u @ t) = u @ t"
  by (cases u) simp_all

lemma dropWhile_rev_keeps: "u \<noteq> [] \<Longrightarrow> \<not> P (last u) \<Longrightarrow> dropWhile P (rev u) = rev u"
  by (cases u rule: rev_cases) simp_all

lemma rstrip_keeps:
  assumes "u \<noteq> []" and "\<not> P (last u)"
  shows "prefix u (rev (dropWhile P (rev (u @ t))))"
proof (cases "\<forall>x\<in>set (rev t). P x")
  case True
  then have "dropWhile P (rev t @ rev u) = dropWhile P (rev u)"
    by (simp add: dropWhile_append)
  with assms show ?thesis by (simp add: dropWhile_rev_keeps)
next
  case False
  then have "dropWhile P (rev t @ rev u) = dropWhile P (rev t) @ rev u"
    by (auto simp add: dropWhile_append)
  then show ?thesis by simp
qed

lemma py_strip_keeps:
  assumes "u \<noteq> []" and "hd u \<notin> set chars" and "last u \<notin> set chars"
  shows "prefix u (py_strip chars (u @ t))"
proof -
  from assms(1,2) have "dropWhile (\<lambda>c. c \<in> set chars) (u @ t) = u @ t"
    by (rule lstrip_keeps)
  then show ?thesis
    unfolding py_strip_def using rstrip_keeps [OF assms(1), of "\<lambda>c. c \<in> set chars" t] assms(3)
    by simp
qed

lemma secure_filename_keeps_prefix:
  assumes safe: "\<forall>c\<in>set u. is_safe c" and ne: "u \<noteq> []"
    and hd: "hd u \<notin> set ''._''" and lst: "last u \<notin> set ''._''"
  shows "prefix u (secure_filename E (u @ ''_'' @ n))"
proof -
  define slash where "slash = map (\<lambda>c. if c = CHR ''/'' then CHR '' '' else c)"
  define v where "v = u @ ''_''"
  have safe': "\<forall>c\<in>set v. is_safe c"
    using safe underscore_safe by (simp add: v_def)
  have a: "to_ascii E (v @ n) = v @ to_ascii E n"
    using to_ascii_append [of E v n] to_ascii_safe [OF safe'] by simp
  have "slash v = v"
    unfolding slash_def using safe' is_safe_plain(3) by (intro map_idI) auto
  then have b: "slash (v @ to_ascii E n) = v @ slash (to_ascii E n)"
    by (simp add: slash_def)
  have ns: "\<forall>c\<in>set v. \<not> is_space c"
    using safe' is_safe_plain(2) by blast
  have c: "py_split (v @ slash (to_ascii E n)) = words_from v (slash (to_ascii E n))"
    using words_from_plain [OF ns, of "[]"] by (simp add: py_split_def)
  have "v \<noteq> []" by (simp add: v_def)
  from words_from_started [OF this, of "slash (to_ascii E n)"]
  obtain w ws where w: "words_from v (slash (to_ascii E n)) = w # ws" "prefix v w"
    by blast
  have "prefix v (py_join ''_'' (w # ws))"
    using w(2) py_join_prefix [of w "''_''" ws] by (rule prefix_order.trans)
  then have "prefix (filter is_safe v) (filter is_safe (py_join ''_'' (w # ws)))"
    by (rule filter_prefix)
  moreover have "filter is_safe v = v"
    using safe' by (simp only: filter_id_conv)
  ultimately obtain t where t: "filter is_safe (py_join ''_'' (w # ws)) = v @ t"
    by (auto simp add: prefix_def)
  have "secure_filename E (u @ ''_'' @ n) = py_strip ''._'' (filter is_safe (py_join ''_''
          (py_split (slash (to_ascii E (v @ n))))))"
    by (simp add: secure_filename_def slash_def v_def)
  also have "\<dots> = py_strip ''._'' (v @ t)"
    by (simp only: a b c w(1) t)
  also have "\<dots> = py_strip ''._'' (u @ (''_'' @ t))"
    by (simp add: v_def)
  finally show ?thesis
    using py_strip_keeps [OF ne hd lst, of "''_'' @ t"] by simp
qed

lemma hex_digits_safe: "\<forall>c\<in>set ''0123456789abcdef''. is_safe c \<and> c \<notin> set ''._''"
  by (simp add: is_safe_def)

lemma hex_digit_safe: "is_hex_digit c \<Longrightarrow> is_safe c \<and> c \<notin> set ''._''"
  unfolding is_hex_digit_def using hex_digits_safe by blast

lemma hyphen_safe: "is_safe (CHR ''-'')"
  by (simp add: is_safe_def)

lemma uuid_shape_x: "uuid_shape c = CHR ''x'' \<Longrightarrow> is_hex_digit c"
  by (simp add: uuid_shape_def split: if_splits)

lemma uuid_shape_safe: "uuid_shape c = CHR ''x'' \<or> uuid_shape c = CHR ''-'' \<Longrightarrow> is_safe c"
  using hex_digit_safe hyphen_safe by (auto simp add: uuid_shape_def split: if_splits)

lemma uuid_text_safe:
  assumes "is_uuid_text u"
  shows "\<forall>c\<in>set u. is_safe c" and "u \<noteq> []" and "hd u \<notin> set ''._''" and "last u \<notin> set ''._''"
    and "length u = 36"
proof -
  let ?pat = "''xxxxxxxx-xxxx-xxxx-xxxx-xxxxxxxxxxxx''"
  from assms have m: "map uuid_shape u = ?pat" by (simp add: is_uuid_text_def)
  from m have "length (map uuid_shape u) = length ?pat" by simp
  then show len: "length u = 36" by simp
  then show ne: "u \<noteq> []" by auto
  show "\<forall>c\<in>set u. is_safe c"
  proof
    fix c assume "c \<in> set u"
    then have "uuid_shape c \<in> set (map uuid_shape u)" by simp
    then have "uuid_shape c \<in> set ?pat" by (simp only: m)
    moreover have "\<forall>x\<in>set ?pat. x = CHR ''x'' \<or> x = CHR ''-''" by simp
    ultimately have "uuid_shape c = CHR ''x'' \<or> uuid_shape c = CHR ''-''" by blast
    then show "is_safe c" by (rule uuid_shape_safe)
  qed
  from ne have "uuid_shape (hd u) = hd (map uuid_shape u)" by (simp add: hd_map)
  then have "uuid_shape (hd u) = CHR ''x''" by (simp only: m) simp
  then show "hd u \<notin> set ''._''" using uuid_shape_x hex_digit_safe by blast
  from ne have "uuid_shape (last u) = last (map uuid_shape u)" by (simp add: last_map)
  then have "uuid_shape (last u) = CHR ''x''" by (simp only: m) simp
  then show "last u \<notin> set ''._''" using uuid_shape_x hex_digit_safe by blast
qed

lemma set_dropWhile_subset: "set (dropWhile P xs) \<subseteq> set xs"
  by (auto dest: set_dropWhileD)

lemma py_strip_subset: "set (py_strip chars s) \<subseteq> set s"
proof -
  define P where "P = (\<lambda>c. c \<in> set chars)"
  have "set (dropWhile P (rev (dropWhile P s))) \<subseteq> set (rev (dropWhile P s))"
    by (rule set_dropWhile_subset)
  also have "\<dots> \<subseteq> set s"
    using set_dropWhile_subset [of P s] by simp
  finally show ?thesis by (simp add: py_strip_def P_def)
qed

lemma secure_filename_safe: "\<forall>c\<in>set (secure_filename E fname). is_safe c"
proof -
  define t where "t = py_join ''_'' (py_split
      (map (\<lambda>c. if c = CHR ''/'' then CHR '' '' else c) (to_ascii E fname)))"
  have "set (secure_filename E fname) \<subseteq> set (filter is_safe t)"
    unfolding secure_filename_def t_def by (rule py_strip_subset)
  then show ?thesis by auto
qed

lemma py_strip_ends:
  assumes "py_strip chars s \<noteq> []"
  shows "hd (py_strip chars s) \<notin> set chars" and "last (py_strip chars s) \<notin> set chars"
proof -
  define P where "P = (\<lambda>c. c \<in> set chars)"
  define a where "a = dropWhile P s"
  define b where "b = dropWhile P (rev a)"
  have r: "py_strip chars s = rev b" by (simp add: py_strip_def P_def a_def b_def)
  with assms have bne: "b \<noteq> []" by simp
  then have "\<not> P (hd b)" unfolding b_def by (rule hd_dropWhile)
  with bne r show "last (py_strip chars s) \<notin> set chars"
    by (simp add: last_rev P_def)
  obtain k where k: "rev a = k @ b"
    unfolding b_def using takeWhile_dropWhile_id [of P "rev a"] by metis
  then have ab: "a = rev b @ rev k" by (metis rev_append rev_rev_ident)
  from bne have "rev b \<noteq> []" by simp
  with ab have "hd (rev b) = hd a" and "a \<noteq> []" by simp_all
  moreover from \<open>a \<noteq> []\<close> have "\<not> P (hd a)" unfolding a_def by (rule hd_dropWhile)
  ultimately show "hd (py_strip chars s) \<notin> set chars" by (simp add: r P_def)
qed

lemma words_from_no_space:
  "\<forall>c\<in>set v. \<not> is_space c \<Longrightarrow> cur @ v \<noteq> [] \<Longrightarrow> words_from cur v = [cur @ v]"
  by (induction v arbitrary: cur) simp_all

lemma secure_filename_fixed:
  assumes safe: "\<forall>c\<in>set v. is_safe c" and ne: "v \<noteq> []"
    and hd: "hd v \<notin> set ''._''" and lst: "last v \<notin> set ''._''"
  shows "secure_filename E v = v"
proof -
  define slash where "slash = map (\<lambda>c. if c = CHR ''/'' then CHR '' '' else c)"
  have a: "to_ascii E v = v" using safe by (rule to_ascii_safe)
  have b: "slash v = v"
    unfolding slash_def using safe is_safe_plain(3) by (intro map_idI) auto
  have "\<forall>c\<in>set v. \<not> is_space c" using safe is_safe_plain(2) by blast
  then have c: "py_split v = [v]"
    using words_from_no_space [of v "[]"] ne by (simp add: py_split_def)
  have d: "filter is_safe v = v" using safe by (simp only: filter_id_conv)
  have e: "py_strip ''._'' v = v"
    unfolding py_strip_def
    using lstrip_keeps [OF ne, of "\<lambda>c. c \<in> set ''._''" "[]"] hd
      dropWhile_rev_keeps [OF ne, of "\<lambda>c. c \<in> set ''._''"] lst
    by simp
  have "secure_filename E v = py_strip ''._'' (filter is_safe (py_join ''_'' (py_split (slash (to_ascii E v)))))"
    by (simp add: secure_filename_def slash_def)
  also have "\<dots> = v" by (simp only: a b c d e py_join.simps)
  finally show ?thesis .
qed

lemma sanitized_name_kept:
  assumes u: "\<forall>c\<in>set u. is_safe c" "u \<noteq> []" "hd u \<notin> set ''._''"
    and n: "secure_filename E fname = fname" "fname \<noteq> []"
  shows "secure_filename E (u @ ''_'' @ fname) = u @ ''_'' @ fname"
proof -
  define x where "x = filter is_safe (py_join ''_'' (py_split
      (map (\<lambda>c. if c = CHR ''/'' then CHR '' '' else c) (to_ascii E fname))))"
  define dots where "dots = ''._''"
  from n(1) have strip: "py_strip dots x = fname"
    by (simp add: secure_filename_def x_def dots_def)
  have ns: "\<forall>c\<in>set fname. is_safe c"
    using secure_filename_safe [of E fname] by (simp only: n(1))
  from strip n(2) have "py_strip dots x \<noteq> []" by simp
  then have "last (py_strip dots x) \<notin> set dots" by (rule py_strip_ends(2))
  then have nl: "last fname \<notin> set dots" unfolding strip .
  show ?thesis
  proof (rule secure_filename_fixed)
    show "\<forall>c\<in>set (u @ ''_'' @ fname). is_safe c"
      using u(1) ns underscore_safe by (simp add: ball_Un)
    show "u @ ''_'' @ fname \<noteq> []" by simp
    show "hd (u @ ''_'' @ fname) \<notin> set ''._''"
      unfolding hd_append2 [OF u(2)] by (rule u(3))
    show "last (u @ ''_'' @ fname) \<notin> set ''._''"
      using n(2) nl by (simp add: dots_def)
  qed
qed

lemma os_path_join_inj:
  assumes "\<not> startswith x ''/''" and "\<not> startswith y ''/''" and "os_path_join a x = os_path_join a y"
  shows "x = y"
  using assms by (simp add: os_path_join_def split: if_splits)

lemma safe_start_relative: "x \<noteq> [] \<Longrightarrow> is_safe (hd x) \<Longrightarrow> \<not> startswith x ''/''"
  using is_safe_plain(3) by (cases x) (auto simp add: startswith_def)

lemma stored_name_shape:
  assumes "is_uuid_text u"
  shows "\<exists>r. secure_filename E (u @ ''_'' @ fname) = u @ r \<and> (\<forall>c\<in>set r. is_safe c)"
proof -
  note u = uuid_text_safe [OF assms]
  from secure_filename_keeps_prefix [OF u(1-4), of E fname]
  obtain r where r: "secure_filename E (u @ ''_'' @ fname) = u @ r"
    by (auto simp add: prefix_def)
  have "\<forall>c\<in>set (u @ r). is_safe c"
    using secure_filename_safe [of E "u @ ''_'' @ fname"] unfolding r .
  then have "\<forall>c\<in>set r. is_safe c" by simp
  with r show ?thesis by blast
qed

lemma stored_names_differ:
  assumes "is_uuid_text u1" and "is_uuid_text u2" and "u1 \<noteq> u2"
  shows "secure_filename E (u1 @ ''_'' @ a) \<noteq> secure_filename E (u2 @ ''_'' @ b)"
proof
  assume eq: "secure_filename E (u1 @ ''_'' @ a) = secure_filename E (u2 @ ''_'' @ b)"
  from stored_name_shape [OF assms(1), of E a] obtain r1
    where r1: "secure_filename E (u1 @ ''_'' @ a) = u1 @ r1" by blast
  from stored_name_shape [OF assms(2), of E b] obtain r2
    where r2: "secure_filename E (u2 @ ''_'' @ b) = u2 @ r2" by blast
  from eq have "u1 @ r1 = u2 @ r2" unfolding r1 r2 .
  moreover have "length u1 = length u2"
    using uuid_text_safe(5) [OF assms(1)] uuid_text_safe(5) [OF assms(2)] by simp
  ultimately have "u1 = u2" by simp
  with assms(3) show False by contradiction
qed

lemma stored_name_relative:
  assumes "is_uuid_text u"
  shows "\<not> startswith (secure_filename E (u @ ''_'' @ fname)) ''/''"
    and "CHR ''/'' \<notin> set (secure_filename E (u @ ''_'' @ fname))"
proof -
  note u = uuid_text_safe [OF assms]
  from stored_name_shape [OF assms, of E fname] obtain r
    where r: "secure_filename E (u @ ''_'' @ fname) = u @ r" by blast
  from u(1,2) have "is_safe (hd u)" by simp
  moreover from u(2) have "hd (u @ r) = hd u" by (rule hd_append2)
  ultimately have "is_safe (hd (u @ r))" by (simp only:)
  moreover from u(2) have "u @ r \<noteq> []" by simp
  ultimately have "\<not> startswith (u @ r) ''/''" by (intro safe_start_relative)
  then show "\<not> startswith (secure_filename E (u @ ''_'' @ fname)) ''/''" unfolding r .
  have "is_safe (CHR ''/'') \<Longrightarrow> False" using is_safe_plain(3) by blast
  then show "CHR ''/'' \<notin> set (secure_filename E (u @ ''_'' @ fname))"
    using secure_filename_safe [of E "u @ ''_'' @ fname"] by blast
qed


lemma os_path_join_relative:
  "\<not> startswith x ''/'' \<Longrightarrow>
   os_path_join a x = (if a = [] \<or> last a = CHR ''/'' then a @ x else a @ ''/'' @ x)"
  by (simp only: os_path_join_def if_False)

lemma stored_paths_differ:
  assumes "is_uuid_text (uuid4 E m)" and "is_uuid_text (uuid4 E n)" and "uuid4 E m \<noteq> uuid4 E n"
  shows "stored_path E m a \<noteq> stored_path E n b"
proof
  assume eq: "stored_path E m a = stored_path E n b"
  have "secure_filename E (uuid4 E m @ ''_'' @ a) = secure_filename E (uuid4 E n @ ''_'' @ b)"
  proof (rule os_path_join_inj)
    show "\<not> startswith (secure_filename E (uuid4 E m @ ''_'' @ a)) ''/''"
      by (rule stored_name_relative(1) [OF assms(1)])
    show "\<not> startswith (secure_filename E (uuid4 E n @ ''_'' @ b)) ''/''"
      by (rule stored_name_relative(1) [OF assms(2)])
    show "os_path_join (UPLOAD_FOLDER E) (secure_filename E (uuid4 E m @ ''_'' @ a)) =
          os_path_join (UPLOAD_FOLDER E) (secure_filename E (uuid4 E n @ ''_'' @ b))"
      using eq unfolding stored_path_def .
  qed
  with stored_names_differ [OF assms, of E a b] show False by contradiction
qed

lemma stored_path_in_folder:
  assumes "is_uuid_text (uuid4 E n)"
  shows "\<exists>r. stored_path E n fname =
            (if UPLOAD_FOLDER E = [] \<or> last (UPLOAD_FOLDER E) = CHR ''/''
             then UPLOAD_FOLDER E @ uuid4 E n @ r
             else UPLOAD_FOLDER E @ ''/'' @ uuid4 E n @ r) \<and>
           (\<forall>c\<in>set r. is_safe c) \<and> CHR ''/'' \<notin> set (uuid4 E n @ r)"
proof -
  from stored_name_shape [OF assms, of E fname] obtain r
    where r: "secure_filename E (uuid4 E n @ ''_'' @ fname) = uuid4 E n @ r" "\<forall>c\<in>set r. is_safe c"
    by blast
  note rel = stored_name_relative [OF assms, of E fname, unfolded r(1)]
  have "stored_path E n fname = os_path_join (UPLOAD_FOLDER E) (uuid4 E n @ r)"
    unfolding stored_path_def r(1) ..
  also have "\<dots> = (if UPLOAD_FOLDER E = [] \<or> last (UPLOAD_FOLDER E) = CHR ''/''
             then UPLOAD_FOLDER E @ uuid4 E n @ r
             else UPLOAD_FOLDER E @ ''/'' @ uuid4 E n @ r)"
    using rel(1) by (rule os_path_join_relative)
  finally show ?thesis using r(2) rel(2) by blast
qed

lemma stored_path_of_sanitized:
  assumes "is_uuid_text (uuid4 E n)" and "secure_filename E fname = fname" and "fname \<noteq> []"
  shows "stored_path E n fname = os_path_join (UPLOAD_FOLDER E) (uuid4 E n @ ''_'' @ fname)"
  unfolding stored_path_def
    sanitized_name_kept [OF uuid_text_safe(1-3) [OF assms(1)] assms(2,3)] ..

lemma transcribe_ok_run:
  assumes "status_of (transcribe_audio E rq w) = 200"
  shows "\<exists>aud t. files rq ''audio'' = Some aud \<and> filename aud \<noteq> [] \<and>
     transcribe_audio E rq w =
       ((PDict [(''transcription'', PStr t),
                (''audio_path'', PStr (stored_path E (uuid_count w) (filename aud)))], 200),
        w\<lparr>uuid_count := Suc (uuid_count w),
          disk := (disk w)(stored_path E (uuid_count w) (filename aud) \<mapsto> content aud),
          calls := calls w @ [TranscribeAudio (stored_path E (uuid_count w) (filename aud))]\<rparr>)"
proof (cases rule: transcribe_audio_cases [of rq E w])
  case no_audio
  with assms show ?thesis by simp
next
  case (empty_audio aud)
  with assms show ?thesis by simp
next
  case (save_fails aud ap e)
  with assms show ?thesis by (simp add: envelope_status)
next
  case (raises aud ap d e)
  with assms show ?thesis by (simp add: envelope_status)
next
  case (succeeds aud ap d transcription)
  then show ?thesis by simp
qed

lemma two_transcriptions_apart:
  assumes u: "is_uuid_text (uuid4 E (uuid_count w))" "is_uuid_text (uuid4 E (Suc (uuid_count w)))"
      "uuid4 E (uuid_count w) \<noteq> uuid4 E (Suc (uuid_count w))"
    and ok1: "status_of (transcribe_audio E rq1 w) = 200"
    and ok2: "status_of (transcribe_audio E rq2 (snd (transcribe_audio E rq1 w))) = 200"
  shows "\<exists>aud1 aud2 p1 p2.
     files rq1 ''audio'' = Some aud1 \<and> files rq2 ''audio'' = Some aud2 \<and>
     audio_path_of (transcribe_audio E rq1 w) = PStr p1 \<and>
     audio_path_of (transcribe_audio E rq2 (snd (transcribe_audio E rq1 w))) = PStr p2 \<and>
     p1 \<noteq> p2 \<and>
     disk (snd (transcribe_audio E rq2 (snd (transcribe_audio E rq1 w)))) p1 = Some (content aud1) \<and>
     disk (snd (transcribe_audio E rq2 (snd (transcribe_audio E rq1 w)))) p2 = Some (content aud2)"
proof -
  from transcribe_ok_run [OF ok1] obtain aud1 t1 where
    a1: "files rq1 ''audio'' = Some aud1" and
    r1: "transcribe_audio E rq1 w =
       ((PDict [(''transcription'', PStr t1),
                (''audio_path'', PStr (stored_path E (uuid_count w) (filename aud1)))], 200),
        w\<lparr>uuid_count := Suc (uuid_count w),
          disk := (disk w)(stored_path E (uuid_count w) (filename aud1) \<mapsto> content aud1),
          calls := calls w @ [TranscribeAudio (stored_path E (uuid_count w) (filename aud1))]\<rparr>)"
    by blast
  define w1 where "w1 = snd (transcribe_audio E rq1 w)"
  have w1: "uuid_count w1 = Suc (uuid_count w)"
    "disk w1 = (disk w)(stored_path E (uuid_count w) (filename aud1) \<mapsto> content aud1)"
    by (simp_all add: w1_def r1)
  from ok2 have "status_of (transcribe_audio E rq2 w1) = 200" by (simp add: w1_def)
  from transcribe_ok_run [OF this] obtain aud2 t2 where
    a2: "files rq2 ''audio'' = Some aud2" and
    r2: "transcribe_audio E rq2 w1 =
       ((PDict [(''transcription'', PStr t2),
                (''audio_path'', PStr (stored_path E (uuid_count w1) (filename aud2)))], 200),
        w1\<lparr>uuid_count := Suc (uuid_count w1),
          disk := (disk w1)(stored_path E (uuid_count w1) (filename aud2) \<mapsto> content aud2),
          calls := calls w1 @ [TranscribeAudio (stored_path E (uuid_count w1) (filename aud2))]\<rparr>)"
    by blast
  define p1 where "p1 = stored_path E (uuid_count w) (filename aud1)"
  define p2 where "p2 = stored_path E (Suc (uuid_count w)) (filename aud2)"
  have ne: "p1 \<noteq> p2" unfolding p1_def p2_def by (rule stored_paths_differ [OF u])
  have "audio_path_of (transcribe_audio E rq1 w) = PStr p1"
    by (simp add: r1 audio_path_of_def body_of_def dict_get_def p1_def)
  moreover have "audio_path_of (transcribe_audio E rq2 w1) = PStr p2"
    by (simp add: r2 w1 audio_path_of_def body_of_def dict_get_def p2_def)
  moreover have "disk (snd (transcribe_audio E rq2 w1)) p1 = Some (content aud1)"
    using ne by (simp add: r2 w1 p1_def p2_def)
  moreover have "disk (snd (transcribe_audio E rq2 w1)) p2 = Some (content aud2)"
    by (simp add: r2 w1 p2_def)
  ultimately show ?thesis using a1 a2 ne unfolding w1_def by blast
qed

lemma process_transcribes_stored_audio:
  assumes "has_files rq img aud"
    and "TranscribeAudio a \<in> set (new_calls w (snd (process_query E rq w)))"
  shows "a = stored_path E (Suc (uuid_count w)) (filename aud)"
proof (cases rule: process_query_cases [of rq E w])
  case no_image
  with assms show ?thesis by (simp add: new_calls_def)
next
  case (empty_image img)
  with assms show ?thesis by (simp add: new_calls_def)
next
  case (no_audio img)
  with assms show ?thesis by (simp add: new_calls_def)
next
  case (empty_audio img aud)
  with assms show ?thesis by (simp add: new_calls_def)
next
  case (bad_speed img aud e)
  with assms show ?thesis by (simp add: new_calls_def)
next
  case (image_save_fails img aud requested e)
  with assms show ?thesis by (simp add: new_calls_def)
next
  case (audio_save_fails img aud requested e)
  with assms show ?thesis by (simp add: new_calls_def)
next
  case (transcribe_raises img' aud' requested ip ap d e)
  with assms show ?thesis by (simp add: new_calls_def has_files_def)
next
  case (answer_raises img' aud' requested ip ap d transcription e)
  with assms show ?thesis by (simp add: new_calls_def has_files_def)
next
  case (synthesis_raises img' aud' requested' ip ap d transcription response_text speed e d')
  with assms show ?thesis by (simp add: new_calls_def has_files_def)
next
  case (succeeds img' aud' requested' ip ap d transcription response_text speed p d')
  with assms show ?thesis by (simp add: new_calls_def has_files_def)
qed

lemma process_answers_stored_image:
  assumes "has_files rq img aud"
    and "ProcessImageAndQuery i t \<in> set (new_calls w (snd (process_query E rq w)))"
  shows "i = stored_path E (uuid_count w) (filename img)"
proof (cases rule: process_query_cases [of rq E w])
  case no_image
  with assms show ?thesis by (simp add: new_calls_def)
next
  case (empty_image img)
  with assms show ?thesis by (simp add: new_calls_def)
next
  case (no_audio img)
  with assms show ?thesis by (simp add: new_calls_def)
next
  case (empty_audio img aud)
  with assms show ?thesis by (simp add: new_calls_def)
next
  case (bad_speed img aud e)
  with assms show ?thesis by (simp add: new_calls_def)
next
  case (image_save_fails img aud requested e)
  with assms show ?thesis by (simp add: new_calls_def)
next
  case (audio_save_fails img aud requested e)
  with assms show ?thesis by (simp add: new_calls_def)
next
  case (transcribe_raises img' aud' requested ip ap d e)
  with assms show ?thesis by (simp add: new_calls_def has_files_def)
next
  case (answer_raises img' aud' requested ip ap d transcription e)
  with assms show ?thesis by (simp add: new_calls_def has_files_def)
next
  case (synthesis_raises img' aud' requested' ip ap d transcription response_text speed e d')
  with assms show ?thesis by (simp add: new_calls_def has_files_def)
next
  case (succeeds img' aud' requested' ip ap d transcription response_text speed p d')
  with assms show ?thesis by (simp add: new_calls_def has_files_def)
qed

text \<open>
  C6, as the code has it. With well-formed and distinct identifiers, two uploads are
  stored under distinct paths whatever their original names, the same name included:
  the image and the recording of one \<open>process_query\<close> request, which the delegate is
  handed under these two paths and which are both on disk after the second is saved,
  and the recordings of two successive \<open>transcribe_audio\<close> requests, both of which are on
  disk afterwards. A stored path is the upload directory, a separator where it is
  needed, and a name without separator that starts with the identifier and goes on
  with characters from \<open>A-Z a-z 0-9 _ . -\<close>. For an original name that is a sanitized
  name already, the stored name is the identifier, an underscore and the original name.
\<close>

theorem uploads_stored_apart:
  "(\<forall>m n a b. is_uuid_text (uuid4 E m) \<and> is_uuid_text (uuid4 E n) \<and> uuid4 E m \<noteq> uuid4 E n \<longrightarrow>
      stored_path E m a \<noteq> stored_path E n b) \<and>
   (\<forall>img aud a i t.
      is_uuid_text (uuid4 E (uuid_count w)) \<and> is_uuid_text (uuid4 E (Suc (uuid_count w))) \<and>
      uuid4 E (uuid_count w) \<noteq> uuid4 E (Suc (uuid_count w)) \<and> has_files rq img aud \<and>
      TranscribeAudio a \<in> set (new_calls w (snd (process_query E rq w))) \<and>
      ProcessImageAndQuery i t \<in> set (new_calls w (snd (process_query E rq w))) \<longrightarrow>
      i = stored_path E (uuid_count w) (filename img) \<and>
      a = stored_path E (Suc (uuid_count w)) (filename aud) \<and> i \<noteq> a \<and>
      ((disk w)(i \<mapsto> content img, a \<mapsto> content aud)) i = Some (content img) \<and>
      ((disk w)(i \<mapsto> content img, a \<mapsto> content aud)) a = Some (content aud)) \<and>
   (is_uuid_text (uuid4 E (uuid_count w)) \<and> is_uuid_text (uuid4 E (Suc (uuid_count w))) \<and>
    uuid4 E (uuid_count w) \<noteq> uuid4 E (Suc (uuid_count w)) \<and>
    status_of (transcribe_audio E rq1 w) = 200 \<and>
    status_of (transcribe_audio E rq2 (snd (transcribe_audio E rq1 w))) = 200 \<longrightarrow>
      (\<exists>aud1 aud2 p1 p2.
         files rq1 ''audio'' = Some aud1 \<and> files rq2 ''audio'' = Some aud2 \<and>
         audio_path_of (transcribe_audio E rq1 w) = PStr p1 \<and>
         audio_path_of (transcribe_audio E rq2 (snd (transcribe_audio E rq1 w))) = PStr p2 \<and>
         p1 \<noteq> p2 \<and>
         disk (snd (transcribe_audio E rq2 (snd (transcribe_audio E rq1 w)))) p1 = Some (content aud1) \<and>
         disk (snd (transcribe_audio E rq2 (snd (transcribe_audio E rq1 w)))) p2 = Some (content aud2))) \<and>
   (\<forall>n fname. is_uuid_text (uuid4 E n) \<longrightarrow>
      (\<exists>r. stored_path E n fname =
              (if UPLOAD_FOLDER E = [] \<or> last (UPLOAD_FOLDER E) = CHR ''/''
               then UPLOAD_FOLDER E @ uuid4 E n @ r
               else UPLOAD_FOLDER E @ ''/'' @ uuid4 E n @ r) \<and>
           (\<forall>c\<in>set r. is_safe c) \<and> CHR ''/'' \<notin> set (uuid4 E n @ r))) \<and>
   (\<forall>n fname. is_uuid_text (uuid4 E n) \<and> secure_filename E fname = fname \<and> fname \<noteq> [] \<longrightarrow>
      stored_path E n fname = os_path_join (UPLOAD_FOLDER E) (uuid4 E n @ ''_'' @ fname))"
proof (intro conjI allI impI)
  fix m n a b
  assume "is_uuid_text (uuid4 E m) \<and> is_uuid_text (uuid4 E n) \<and> uuid4 E m \<noteq> uuid4 E n"
  then show "stored_path E m a \<noteq> stored_path E n b"
    using stored_paths_differ by blast
next
  fix img aud a i t
  assume h: "is_uuid_text (uuid4 E (uuid_count w)) \<and> is_uuid_text (uuid4 E (Suc (uuid_count w))) \<and>
      uuid4 E (uuid_count w) \<noteq> uuid4 E (Suc (uuid_count w)) \<and> has_files rq img aud \<and>
      TranscribeAudio a \<in> set (new_calls w (snd (process_query E rq w))) \<and>
      ProcessImageAndQuery i t \<in> set (new_calls w (snd (process_query E rq w)))"
  then have i: "i = stored_path E (uuid_count w) (filename img)"
    using process_answers_stored_image by blast
  from h have a: "a = stored_path E (Suc (uuid_count w)) (filename aud)"
    using process_transcribes_stored_audio by blast
  from h have ne: "i \<noteq> a" unfolding i a using stored_paths_differ by blast
  show "i = stored_path E (uuid_count w) (filename img)" by (rule i)
  show "a = stored_path E (Suc (uuid_count w)) (filename aud)" by (rule a)
  show "i \<noteq> a" by (rule ne)
  show "((disk w)(i \<mapsto> content img, a \<mapsto> content aud)) i = Some (content img)"
    using ne by simp
  show "((disk w)(i \<mapsto> content img, a \<mapsto> content aud)) a = Some (content aud)"
    by simp
next
  assume "is_uuid_text (uuid4 E (uuid_count w)) \<and> is_uuid_text (uuid4 E (Suc (uuid_count w))) \<and>
    uuid4 E (uuid_count w) \<noteq> uuid4 E (Suc (uuid_count w)) \<and>
    status_of (transcribe_audio E rq1 w) = 200 \<and>
    status_of (transcribe_audio E rq2 (snd (transcribe_audio E rq1 w))) = 200"
  then show "\<exists>aud1 aud2 p1 p2.
         files rq1 ''audio'' = Some aud1 \<and> files rq2 ''audio'' = Some aud2 \<and>
         audio_path_of (transcribe_audio E rq1 w) = PStr p1 \<and>
         audio_path_of (transcribe_audio E rq2 (snd (transcribe_audio E rq1 w))) = PStr p2 \<and>
         p1 \<noteq> p2 \<and>
         disk (snd (transcribe_audio E rq2 (snd (transcribe_audio E rq1 w)))) p1 = Some (content aud1) \<and>
         disk (snd (transcribe_audio E rq2 (snd (transcribe_audio E rq1 w)))) p2 = Some (content aud2)"
    using two_transcriptions_apart [of E w rq1 rq2] by blast
next
  fix n fname
  assume "is_uuid_text (uuid4 E n)"
  then show "\<exists>r. stored_path E n fname =
              (if UPLOAD_FOLDER E = [] \<or> last (UPLOAD_FOLDER E) = CHR ''/''
               then UPLOAD_FOLDER E @ uuid4 E n @ r
               else UPLOAD_FOLDER E @ ''/'' @ uuid4 E n @ r) \<and>
           (\<forall>c\<in>set r. is_safe c) \<and> CHR ''/'' \<notin> set (uuid4 E n @ r)"
    by (rule stored_path_in_folder)
next
  fix n fname
  assume "is_uuid_text (uuid4 E n) \<and> secure_filename E fname = fname \<and> fname \<noteq> []"
  then show "stored_path E n fname = os_path_join (UPLOAD_FOLDER E) (uuid4 E n @ ''_'' @ fname)"
    using stored_path_of_sanitized by blast
qed

text \<open>
  Two uploads named \<open>clip.wav\<close>, with the two identifiers of the example: in one
  \<open>process_query\<close> request and in two \<open>transcribe_audio\<close> requests.
\<close>

lemma example_uuids:
  "is_uuid_text (uuid4 example_env 0)" "is_uuid_text (uuid4 example_env (Suc 0))"
  "uuid4 example_env 0 \<noteq> uuid4 example_env (Suc 0)"
  by (simp_all add: example_env_def is_uuid_text_def uuid_shape_def is_hex_digit_def)

lemma example_transcribe_run:
  assumes "files rq ''audio'' = Some aud" and "filename aud \<noteq> []"
  shows "transcribe_audio example_env rq w =
     ((PDict [(''transcription'', PStr ''what is this''),
              (''audio_path'', PStr (stored_path example_env (uuid_count w) (filename aud)))], 200),
      w\<lparr>uuid_count := Suc (uuid_count w),
        disk := (disk w)(stored_path example_env (uuid_count w) (filename aud) \<mapsto> content aud),
        calls := calls w @ [TranscribeAudio (stored_path example_env (uuid_count w) (filename aud))]\<rparr>)"
  by (rule transcribe_succeeds [OF assms refl _ refl]) (simp_all add: example_env_def)

lemma clip_files:
  "files clip_one ''audio'' = Some \<lparr>filename = ''clip.wav'', content = ''one''\<rparr>"
  "files clip_two ''audio'' = Some \<lparr>filename = ''clip.wav'', content = ''two''\<rparr>"
  "has_files clip_pair \<lparr>filename = ''clip.wav'', content = ''one''\<rparr>
     \<lparr>filename = ''clip.wav'', content = ''two''\<rparr>"
  "py_float example_env (form_speed clip_pair) = Inr (Fin 1)"
  by (simp_all add: clip_one_def clip_two_def clip_pair_def upload_request_def has_files_def
      form_speed_def py_float_def)

lemma clip_sanitized:
  "secure_filename example_env ''clip.wav'' = ''clip.wav''"
  "os_path_join (UPLOAD_FOLDER example_env) (uuid4 example_env 0 @ ''_'' @ ''clip.wav'') =
     ''app/uploads/0a1b2c3d-4e5f-4a6b-8c7d-9e0f1a2b3c4d_clip.wav''"
  by code_simp+

theorem uploads_stored_apart_witness:
  "is_uuid_text (uuid4 example_env 0) \<and> is_uuid_text (uuid4 example_env (Suc 0)) \<and>
   uuid4 example_env 0 \<noteq> uuid4 example_env (Suc 0) \<and>
   stored_path example_env 0 ''clip.wav'' \<noteq> stored_path example_env (Suc 0) ''clip.wav'' \<and>
   has_files clip_pair \<lparr>filename = ''clip.wav'', content = ''one''\<rparr>
     \<lparr>filename = ''clip.wav'', content = ''two''\<rparr> \<and>
   TranscribeAudio (stored_path example_env (Suc 0) ''clip.wav'')
     \<in> set (new_calls empty_world (snd (process_query example_env clip_pair empty_world))) \<and>
   ProcessImageAndQuery (stored_path example_env 0 ''clip.wav'') ''what is this''
     \<in> set (new_calls empty_world (snd (process_query example_env clip_pair empty_world))) \<and>
   status_of (transcribe_audio example_env clip_one empty_world) = 200 \<and>
   status_of (transcribe_audio example_env clip_two
                (snd (transcribe_audio example_env clip_one empty_world))) = 200 \<and>
   audio_path_of (transcribe_audio example_env clip_one empty_world) \<noteq>
     audio_path_of (transcribe_audio example_env clip_two
                (snd (transcribe_audio example_env clip_one empty_world))) \<and>
   secure_filename example_env ''clip.wav'' = ''clip.wav'' \<and>
   stored_path example_env 0 ''clip.wav'' =
     ''app/uploads/0a1b2c3d-4e5f-4a6b-8c7d-9e0f1a2b3c4d_clip.wav''"
proof -
  note main = uploads_stored_apart [of example_env empty_world clip_pair clip_one clip_two]
  have z: "uuid_count empty_world = 0" by (simp add: empty_world_def)
  note u = example_uuids
  have apart: "stored_path example_env 0 ''clip.wav'' \<noteq> stored_path example_env (Suc 0) ''clip.wav''"
    using main [THEN conjunct1] u by blast
  have run: "new_calls empty_world (snd (process_query example_env clip_pair empty_world)) =
     [TranscribeAudio (stored_path example_env (Suc 0) ''clip.wav''),
      ProcessImageAndQuery (stored_path example_env 0 ''clip.wav'') ''what is this'',
      TextToSpeech (PStr ''a cat'') (PStr (form_voice clip_pair))
        (if form_high_performance clip_pair then py_max (Fin 1) speed_floor else Fin 1)]"
    by (simp add: example_process_run [OF clip_files(3,4) refl refl refl] new_calls_def z)
  have tr: "TranscribeAudio (stored_path example_env (Suc 0) ''clip.wav'')
     \<in> set (new_calls empty_world (snd (process_query example_env clip_pair empty_world)))"
    and an: "ProcessImageAndQuery (stored_path example_env 0 ''clip.wav'') ''what is this''
     \<in> set (new_calls empty_world (snd (process_query example_env clip_pair empty_world)))"
    by (simp_all add: run)
  have "stored_path example_env 0 ''clip.wav'' \<noteq> stored_path example_env (Suc 0) ''clip.wav''"
    using main [THEN conjunct2, THEN conjunct1, rule_format,
        of "\<lparr>filename = ''clip.wav'', content = ''one''\<rparr>"
           "\<lparr>filename = ''clip.wav'', content = ''two''\<rparr>"
           "stored_path example_env (Suc 0) ''clip.wav''"
           "stored_path example_env 0 ''clip.wav''" "''what is this''"]
      u clip_files(3) tr an
    by (simp add: z)
  have r1: "transcribe_audio example_env clip_one empty_world =
     ((PDict [(''transcription'', PStr ''what is this''),
              (''audio_path'', PStr (stored_path example_env 0 ''clip.wav''))], 200),
      empty_world\<lparr>uuid_count := Suc 0,
        disk := (disk empty_world)(stored_path example_env 0 ''clip.wav'' \<mapsto> ''one''),
        calls := calls empty_world @ [TranscribeAudio (stored_path example_env 0 ''clip.wav'')]\<rparr>)"
    using example_transcribe_run [OF clip_files(1), of empty_world] by (simp add: z)
  have ok1: "status_of (transcribe_audio example_env clip_one empty_world) = 200"
    by (simp add: r1 status_of_def)
  have ok2: "status_of (transcribe_audio example_env clip_two
                (snd (transcribe_audio example_env clip_one empty_world))) = 200"
    by (subst example_transcribe_run [OF clip_files(2)]) (simp_all add: status_of_def)
  have paths: "audio_path_of (transcribe_audio example_env clip_one empty_world) \<noteq>
     audio_path_of (transcribe_audio example_env clip_two
                (snd (transcribe_audio example_env clip_one empty_world)))"
  proof -
    from main [THEN conjunct2, THEN conjunct2, THEN conjunct1] u ok1 ok2
    obtain p1 p2 where
      "audio_path_of (transcribe_audio example_env clip_one empty_world) = PStr p1"
      "audio_path_of (transcribe_audio example_env clip_two
                (snd (transcribe_audio example_env clip_one empty_world))) = PStr p2"
      "p1 \<noteq> p2"
      unfolding z by blast
    then show ?thesis by simp
  qed
  have named: "stored_path example_env 0 ''clip.wav'' =
     ''app/uploads/0a1b2c3d-4e5f-4a6b-8c7d-9e0f1a2b3c4d_clip.wav''"
    using main [THEN conjunct2, THEN conjunct2, THEN conjunct2, THEN conjunct2, rule_format,
        of 0 "''clip.wav''"] u(1) clip_sanitized
    by simp
  from u apart clip_files(3) tr an ok1 ok2 paths clip_sanitized(1) named
  show ?thesis by blast
qed

text \<open>
  C6 as stated fails: a recording named with a single dot is stored under the bare
  identifier. The stored name holds no underscore, so it is not an identifier, an
  underscore and a name.
\<close>

theorem stored_name_without_underscore_counterexample:
  "files dot_named ''audio'' = Some \<lparr>filename = ''.'', content = ''RIFF''\<rparr> \<and>
   fst (transcribe_audio example_env dot_named empty_world) =
     (PDict [(''transcription'', PStr ''what is this''),
             (''audio_path'', PStr ''app/uploads/0a1b2c3d-4e5f-4a6b-8c7d-9e0f1a2b3c4d'')], 200) \<and>
   secure_filename example_env (uuid4 example_env 0 @ ''_'' @ ''.'') = uuid4 example_env 0 \<and>
   CHR ''_'' \<notin> set (uuid4 example_env 0)"
proof -
  have p: "stored_path example_env 0 ''.'' = ''app/uploads/0a1b2c3d-4e5f-4a6b-8c7d-9e0f1a2b3c4d''"
    by code_simp
  have f: "files dot_named ''audio'' = Some \<lparr>filename = ''.'', content = ''RIFF''\<rparr>"
    by (simp add: dot_named_def upload_request_def)
  have "fst (transcribe_audio example_env dot_named empty_world) =
     (PDict [(''transcription'', PStr ''what is this''),
             (''audio_path'', PStr (stored_path example_env (uuid_count empty_world) ''.''))], 200)"
    using example_transcribe_run [OF f, of empty_world] by simp
  then have run: "fst (transcribe_audio example_env dot_named empty_world) =
     (PDict [(''transcription'', PStr ''what is this''),
             (''audio_path'', PStr ''app/uploads/0a1b2c3d-4e5f-4a6b-8c7d-9e0f1a2b3c4d'')], 200)"
    by (simp add: empty_world_def p)
  have s: "secure_filename example_env (uuid4 example_env 0 @ ''_'' @ ''.'') = uuid4 example_env 0"
    by code_simp
  have n: "CHR ''_'' \<notin> set (uuid4 example_env 0)"
    by (simp add: example_env_def)
  from f run s n show ?thesis by blast
qed

subsection \<open>Voices grouped by language\<close>

lemma dict_set_new: "k \<notin> fst ` set d \<Longrightarrow> dict_set d k v = d @ [(k, v)]"
  by (induction d) auto

lemma map_of_dict_set: "map_of (dict_set d k v) k = Some v"
  by (induction d) auto

lemma entry_id_of_info: "entry_id (PDict (dict_set d ''id'' (PStr i))) = PStr i"
  by (simp add: entry_id_def map_of_dict_set)

lemma ids_of_voices_info:
  "map entry_id (voices_info_of voices_data ids) =
     map PStr (filter (\<lambda>i. map_of voices_data i \<noteq> None) ids)"
  by (induction ids) (auto simp add: entry_id_of_info split: option.splits)

lemma fold_dict_set_distinct:
  assumes "distinct (map fst groups)" and "fst ` set groups \<inter> fst ` set acc = {}"
  shows "fold (\<lambda>(lang, ids) response. dict_set response lang (f ids)) groups acc =
         acc @ map (\<lambda>(lang, ids). (lang, f ids)) groups"
  using assms
proof (induction groups arbitrary: acc)
  case Nil
  show ?case by simp
next
  case (Cons g groups)
  obtain lang ids where g: "g = (lang, ids)" by (cases g)
  from Cons.prems g have new: "lang \<notin> fst ` set acc" by auto
  have step: "dict_set acc lang (f ids) = acc @ [(lang, f ids)]"
    using new by (rule dict_set_new)
  from Cons.prems g have d: "distinct (map fst groups)" by simp
  from Cons.prems g have "fst ` set groups \<inter> fst ` set (acc @ [(lang, f ids)]) = {}"
    by auto
  from Cons.IH [OF d this] show ?case by (simp add: g step)
qed

lemma flattened_ids_of_groups:
  "flattened_ids (PDict (map (\<lambda>(lang, ids). (lang, PList (voices_info_of voices_data ids))) groups)) =
     map PStr (filter (\<lambda>i. map_of voices_data i \<noteq> None) (concat (map snd groups)))"
proof (induction groups)
  case Nil
  show ?case by (simp add: flattened_ids_def)
next
  case (Cons g groups)
  obtain lang ids where g: "g = (lang, ids)" by (cases g)
  from Cons.IH show ?case
    by (simp add: flattened_ids_def g ids_of_voices_info)
qed

text \<open>Whatever the delegate returns, the ids of the response are those of its grouping that are keys of its catalog.\<close>

lemma by_language_flattened:
  assumes "mm_get_voices_by_language E = Inr groups" and "mm_get_available_voices E = Inr voices_data"
    and "distinct (map fst groups)"
  shows "status_of (get_voices_by_language E w) = 200"
    and "flattened_ids (body_of (get_voices_by_language E w)) =
           map PStr (filter (\<lambda>i. map_of voices_data i \<noteq> None) (concat (map snd groups)))"
proof -
  have "fold (\<lambda>(lang, voice_ids) response.
                  dict_set response lang (PList (voices_info_of voices_data voice_ids))) groups [] =
        [] @ map (\<lambda>(lang, ids). (lang, PList (voices_info_of voices_data ids))) groups"
    using assms(3) by (intro fold_dict_set_distinct) simp_all
  then have b: "body_of (get_voices_by_language E w) =
      PDict (map (\<lambda>(lang, ids). (lang, PList (voices_info_of voices_data ids))) groups)"
    by (simp add: by_language_succeeds [OF assms(1,2)] body_of_def)
  show "status_of (get_voices_by_language E w) = 200"
    by (simp add: by_language_succeeds [OF assms(1,2)] status_of_def)
  show "flattened_ids (body_of (get_voices_by_language E w)) =
           map PStr (filter (\<lambda>i. map_of voices_data i \<noteq> None) (concat (map snd groups)))"
    unfolding b by (rule flattened_ids_of_groups)
qed

text \<open>The grouping by language lists every voice id of the catalog once.\<close>

lemma add_to_language_keys:
  "fst ` set (add_to_language lang i groups) = insert lang (fst ` set groups)"
proof (induction groups)
  case Nil
  show ?case by simp
next
  case (Cons g groups)
  obtain l ids where g: "g = (l, ids)" by (cases g)
  show ?case
  proof (cases "l = lang")
    case True
    then show ?thesis by (simp add: g)
  next
    case False
    with Cons.IH show ?thesis by (simp add: g insert_commute)
  qed
qed

lemma add_to_language_distinct:
  "distinct (map fst groups) \<Longrightarrow> distinct (map fst (add_to_language lang i groups))"
proof (induction groups)
  case Nil
  show ?case by simp
next
  case (Cons g groups)
  obtain l ids where g: "g = (l, ids)" by (cases g)
  show ?case
  proof (cases "l = lang")
    case True
    with Cons.prems g show ?thesis by simp
  next
    case False
    from Cons.prems g have "l \<notin> fst ` set groups" "distinct (map fst groups)" by simp_all
    with False Cons.IH g show ?thesis
      by (simp add: add_to_language_keys)
  qed
qed

lemma add_to_language_ids:
  "mset (concat (map snd (add_to_language lang i groups))) =
     add_mset i (mset (concat (map snd groups)))"
  by (induction groups) auto

lemma grouping_fold:
  "distinct (map fst acc) \<Longrightarrow>
   distinct (map fst (fold (\<lambda>(voice_id, v) groups. add_to_language (vd_language v) voice_id groups)
                        catalog acc)) \<and>
   mset (concat (map snd (fold (\<lambda>(voice_id, v) groups. add_to_language (vd_language v) voice_id groups)
                        catalog acc))) =
     mset (map fst catalog) + mset (concat (map snd acc))"
proof (induction catalog arbitrary: acc)
  case Nil
  then show ?case by simp
next
  case (Cons x catalog)
  obtain voice_id v where x: "x = (voice_id, v)" by (cases x)
  from Cons.prems have "distinct (map fst (add_to_language (vd_language v) voice_id acc))"
    by (rule add_to_language_distinct)
  from Cons.IH [OF this] show ?case
    by (simp add: x add_to_language_ids)
qed

lemma grouping_lists_catalog:
  "distinct (map fst (voices_by_language_of catalog))"
  "mset (concat (map snd (voices_by_language_of catalog))) = mset (map fst catalog)"
  using grouping_fold [of "[]" catalog] by (simp_all add: voices_by_language_of_def)

lemma available_voices_keys: "map fst (available_voices catalog) = map fst catalog"
  by (induction catalog) (auto simp add: available_voices_def)

lemma available_voices_known:
  "i \<in> set (map fst catalog) \<Longrightarrow> map_of (available_voices catalog) i \<noteq> None"
  using available_voices_keys [of catalog] by (metis map_of_eq_None_iff set_map)

lemma catalog_ids_of_voices:
  assumes "mm_get_available_voices E = Inr (available_voices catalog)"
  shows "status_of (get_voices E w) = 200"
    and "catalog_ids (body_of (get_voices E w)) = map PStr (map fst catalog)"
proof -
  show "status_of (get_voices E w) = 200"
    by (simp add: get_voices_succeeds [OF assms] status_of_def)
  have "map (\<lambda>(k, d). PStr k) (map (\<lambda>(voice_id, d). (voice_id, PDict d)) (available_voices catalog)) =
        map PStr (map fst (available_voices catalog))"
    by (induction catalog) (auto simp add: available_voices_def)
  then show "catalog_ids (body_of (get_voices E w)) = map PStr (map fst catalog)"
    by (simp add: get_voices_succeeds [OF assms] body_of_def catalog_ids_def available_voices_keys)
qed

lemma grouped_ids_known:
  "filter (\<lambda>i. map_of (available_voices catalog) i \<noteq> None)
     (concat (map snd (voices_by_language_of catalog))) =
   concat (map snd (voices_by_language_of catalog))"
proof -
  have "set (concat (map snd (voices_by_language_of catalog))) = set (map fst catalog)"
    using grouping_lists_catalog(2) [of catalog] by (rule mset_eq_setD)
  then have "\<forall>i\<in>set (concat (map snd (voices_by_language_of catalog))).
      map_of (available_voices catalog) i \<noteq> None"
    using available_voices_known by blast
  then show ?thesis by (simp only: filter_id_conv)
qed

text \<open>
  C4. For a catalog of the delegate, a dict from voice ids to descriptors, and its
  grouping by language, both requests are answered with status 200, and the ids of
  the entries of all per-language lists of \<open>/api/voices_by_language\<close> are the keys of the
  body of \<open>/api/voices\<close>, each exactly once: no id is dropped and none is duplicated.
\<close>

theorem grouping_keeps_every_voice_once:
  assumes "distinct (map fst catalog)"
    and "mm_get_available_voices E = Inr (available_voices catalog)"
    and "mm_get_voices_by_language E = Inr (voices_by_language_of catalog)"
  shows "status_of (get_voices E w) = 200 \<and> status_of (get_voices_by_language E w') = 200 \<and>
     mset (flattened_ids (body_of (get_voices_by_language E w'))) =
       mset (catalog_ids (body_of (get_voices E w))) \<and>
     set (flattened_ids (body_of (get_voices_by_language E w'))) =
       set (catalog_ids (body_of (get_voices E w))) \<and>
     distinct (flattened_ids (body_of (get_voices_by_language E w'))) \<and>
     distinct (catalog_ids (body_of (get_voices E w)))"
proof -
  define ids where "ids = concat (map snd (voices_by_language_of catalog))"
  note g = grouping_lists_catalog [of catalog]
  note f = by_language_flattened [OF assms(3,2) g(1), of w']
  note c = catalog_ids_of_voices [OF assms(2), of w]
  have fl: "flattened_ids (body_of (get_voices_by_language E w')) = map PStr ids"
    unfolding f(2) grouped_ids_known ids_def ..
  have m: "mset ids = mset (map fst catalog)"
    unfolding ids_def by (rule g(2))
  have inj: "inj_on PStr A" for A by (simp add: inj_on_def)
  have d: "distinct ids"
    using m assms(1) by (metis mset_eq_imp_distinct_iff)
  have "mset (map PStr ids) = mset (map PStr (map fst catalog))"
    using m by (metis mset_map)
  moreover then have "set (map PStr ids) = set (map PStr (map fst catalog))"
    by (rule mset_eq_setD)
  moreover have "distinct (map PStr ids)"
    using d inj by (simp add: distinct_map)
  moreover have "distinct (map PStr (map fst catalog))"
    using assms(1) inj [of "set (map fst catalog)"] by (subst distinct_map) blast
  ultimately show ?thesis
    unfolding fl c(2) using f(1) c(1) by blast
qed

text \<open>The example catalog: three voices in two languages.\<close>

theorem grouping_keeps_every_voice_once_witness:
  "distinct (map fst example_catalog) \<and>
   mm_get_available_voices example_env = Inr (available_voices example_catalog) \<and>
   mm_get_voices_by_language example_env = Inr (voices_by_language_of example_catalog) \<and>
   voices_by_language_of example_catalog =
     [(''English'', [''af_heart'', ''am_adam'']), (''French'', [''ff_siwis''])] \<and>
   flattened_ids (body_of (get_voices_by_language example_env empty_world)) =
     [PStr ''af_heart'', PStr ''am_adam'', PStr ''ff_siwis''] \<and>
   catalog_ids (body_of (get_voices example_env empty_world)) =
     [PStr ''af_heart'', PStr ''ff_siwis'', PStr ''am_adam''] \<and>
   mset (flattened_ids (body_of (get_voices_by_language example_env empty_world))) =
     mset (catalog_ids (body_of (get_voices example_env empty_world))) \<and>
   distinct (flattened_ids (body_of (get_voices_by_language example_env empty_world)))"
proof -
  have a: "distinct (map fst example_catalog)"
    by (simp add: example_catalog_def)
  have b: "mm_get_available_voices example_env = Inr (available_voices example_catalog)"
    "mm_get_voices_by_language example_env = Inr (voices_by_language_of example_catalog)"
    by (simp_all add: example_env_def)
  have g: "voices_by_language_of example_catalog =
     [(''English'', [''af_heart'', ''am_adam'']), (''French'', [''ff_siwis''])]"
    by (simp add: voices_by_language_of_def example_catalog_def)
  have "flattened_ids (body_of (get_voices_by_language example_env empty_world)) =
     map PStr (concat (map snd (voices_by_language_of example_catalog)))"
    unfolding by_language_flattened(2) [OF b(2,1) grouping_lists_catalog(1), of empty_world]
      grouped_ids_known ..
  then have f: "flattened_ids (body_of (get_voices_by_language example_env empty_world)) =
     [PStr ''af_heart'', PStr ''am_adam'', PStr ''ff_siwis'']"
    by (simp add: g)
  have c: "catalog_ids (body_of (get_voices example_env empty_world)) =
     [PStr ''af_heart'', PStr ''ff_siwis'', PStr ''am_adam'']"
    using catalog_ids_of_voices(2) [OF b(1), of empty_world]
    by (simp add: example_catalog_def)
  from grouping_keeps_every_voice_once [OF a b, of empty_world empty_world] a b g f c
  show ?thesis by simp
qed

end
